(* ===== verification/Prelude.thy ===== *)
theory Prelude
  imports Complex_Main
begin

text \<open>
  Shared vocabulary of the frame-collage development: the Python exceptions the layout
  code raises (as a datatype, so that every \<open>raise\<close> is a value \<open>Inl e\<close> of a sum
  type), Python's \<open>int()\<close> applied to the float produced by true division (modelled
  on exact rationals: \<open>int(a / b)\<close> truncates towards zero), the bind of the
  exception monad \<open>py_error + 'a\<close>, and Python's \<open>list.remove\<close>, which deletes the
  first element identical to its argument or raises \<open>ValueError\<close>.
  The lemmas at the end are the arithmetic and list facts the component theories share.
\<close>

section \<open>Python exceptions\<close>

text \<open>
  \<open>LayoutException\<close> is the project's own exception (src/layout_exception.py);
  \<open>FrameException\<close> is the bare \<open>Exception\<close> raised by the image frame;
  \<open>Cv2Error\<close> is OpenCV's error on a non-positive target size in \<open>cv2.resize\<close>;
  \<open>AttributeError\<close> is a method called on an object that lacks it (an \<open>Image\<close> has
  no \<open>add_item\<close>); \<open>KeyError\<close> is a dictionary lookup of an absent key;
  \<open>TypeError\<close> is the unpacking of a value that is not a tuple.
\<close>

datatype py_error =
    LayoutException
  | FrameException
  | ZeroDivisionError
  | ValueError
  | IndexError
  | Cv2Error
  | AttributeError
  | KeyError
  | TypeError

type_synonym 'a py_result = "py_error + 'a"

section \<open>The exception monad\<close>

definition ebind :: "'a py_result \<Rightarrow> ('a \<Rightarrow> 'b py_result) \<Rightarrow> 'b py_result" where
  "ebind r f = (case r of Inl e \<Rightarrow> Inl e | Inr x \<Rightarrow> f x)"

section \<open>Python numbers\<close>

text \<open>
  Python's \<open>int(x)\<close> on a float truncates towards zero. The float is modelled by the exact
  rational it approximates; float rounding is not modelled.
\<close>

definition py_int :: "rat \<Rightarrow> int" where
  "py_int x = (if 0 \<le> x then \<lfloor>x\<rfloor> else \<lceil>x\<rceil>)"

text \<open>\<open>int(g / 2)\<close>: the centring offset of an item in its cell.\<close>

definition half :: "int \<Rightarrow> int" where
  "half g = py_int (of_int g / 2)"

section \<open>Python lists\<close>

text \<open>
  \<open>xs.remove(x)\<close> removes the first element \<open>y\<close> with \<open>y == x\<close>; for objects
  without \<open>__eq__\<close> that is object identity, given here by a key function.
\<close>

fun py_remove :: "('a \<Rightarrow> 'k) \<Rightarrow> 'k \<Rightarrow> 'a list \<Rightarrow> 'a list py_result" where
  "py_remove key k [] = Inl ValueError"
| "py_remove key k (y # ys) =
     (if key y = k then Inr ys else ebind (py_remove key k ys) (\<lambda>zs. Inr (y # zs)))"

section \<open>Shared lemmas\<close>

named_theorems py_simps "evaluation rules of the Python primitives"
named_theorems eval_simps "definitions unfolded to evaluate the model on concrete inputs"

declare py_int_def [eval_simps] half_def [eval_simps]

lemma ebind_Inl [simp, py_simps]: "ebind (Inl e) f = Inl e"
  by (simp add: ebind_def)

lemma ebind_Inr [simp, py_simps]: "ebind (Inr x) f = f x"
  by (simp add: ebind_def)

lemma ebind_eq_Inr:
  "ebind r f = Inr y \<longleftrightarrow> (\<exists>x. r = Inr x \<and> f x = Inr y)"
  by (cases r) auto

lemma ebind_eq_Inl:
  "ebind r f = Inl e \<longleftrightarrow> r = Inl e \<or> (\<exists>x. r = Inr x \<and> f x = Inl e)"
  by (cases r) auto

lemma py_int_of_int [simp, py_simps]: "py_int (of_int n) = n"
  by (simp add: py_int_def)

lemma py_int_nonneg: "0 \<le> x \<Longrightarrow> py_int x = \<lfloor>x\<rfloor>"
  by (simp add: py_int_def)

lemma py_int_div:
  assumes "0 \<le> a" "0 < b"
  shows "py_int (of_int a / of_int b) = a div b"
proof -
  have "0 \<le> (of_int a / of_int b :: rat)" using assms by simp
  then show ?thesis by (simp add: py_int_nonneg floor_divide_of_int_eq)
qed

lemma py_int_scale:
  assumes "0 \<le> h" "0 \<le> x" "0 < w"
  shows "py_int (of_int h * (of_int x / of_int w)) = h * x div w"
proof -
  have "(of_int h * (of_int x / of_int w) :: rat) = of_int (h * x) / of_int w" by simp
  moreover have "0 \<le> h * x" using assms by simp
  ultimately show ?thesis using assms(3) by (simp only: py_int_div)
qed

lemma py_int_mono:
  assumes "x \<le> y"
  shows "py_int x \<le> py_int y"
proof (cases "0 \<le> x")
  case True
  then show ?thesis using assms by (simp add: py_int_def floor_mono)
next
  case False
  then have cx: "\<lceil>x\<rceil> \<le> 0" by (simp add: ceiling_le_iff)
  show ?thesis
  proof (cases "0 \<le> y")
    case True
    then have "0 \<le> \<lfloor>y\<rfloor>" "py_int y = \<lfloor>y\<rfloor>" by (simp_all add: py_int_def)
    moreover have "py_int x = \<lceil>x\<rceil>" using False by (simp add: py_int_def)
    ultimately show ?thesis using cx by linarith
  next
    case ny: False
    with False assms show ?thesis by (simp add: py_int_def ceiling_mono)
  qed
qed

lemma floor_numeral_div_rat [simp, py_simps]:
  "\<lfloor>numeral a / numeral b :: rat\<rfloor> = numeral a div numeral b"
  using floor_divide_of_int_eq [where 'a = rat, of "numeral a" "numeral b"] by simp

lemma ceiling_neg_numeral_div_rat [simp, py_simps]:
  "\<lceil>- (numeral a / numeral b) :: rat\<rceil> = - (numeral a div numeral b)"
  by (simp add: ceiling_minus)

lemma half_nonneg: "0 \<le> g \<Longrightarrow> half g = g div 2"
  using py_int_div [of g 2] by (simp add: half_def)

lemma half_bounds: "0 \<le> g \<Longrightarrow> 0 \<le> half g \<and> 2 * half g \<le> g"
  by (simp add: half_nonneg)

lemma half_gap_bounds:
  "0 \<le> w \<Longrightarrow> w \<le> m \<Longrightarrow> 0 \<le> half (m - w) \<and> half (m - w) + w \<le> m"
  using half_bounds [of "m - w"] by simp

lemma div_mult_bounds:
  assumes "(0::int) < b"
  shows "a div b * b \<le> a \<and> a < (a div b + 1) * b"
proof -
  have "a div b * b + a mod b = a" by simp
  moreover have "0 \<le> a mod b" "a mod b < b" using assms by simp_all
  moreover have "(a div b + 1) * b = a div b * b + b" by (simp add: distrib_right)
  ultimately show ?thesis by linarith
qed

lemma py_remove_notin:
  "k \<notin> key ` set xs \<Longrightarrow> py_remove key k (xs @ [x]) = (if key x = k then Inr xs else Inl ValueError)"
  by (induction xs) auto

lemma py_remove_Inr_length:
  "py_remove key k xs = Inr ys \<Longrightarrow> length ys = length xs - 1 \<and> xs \<noteq> []"
  by (induction xs arbitrary: ys) (auto split: if_splits simp: ebind_eq_Inr)

lemma py_remove_subset: "py_remove key k xs = Inr ys \<Longrightarrow> set ys \<subseteq> set xs"
  by (induction xs arbitrary: ys) (auto split: if_splits simp: ebind_eq_Inr)

lemma py_remove_Inl: "py_remove key k xs = Inl e \<Longrightarrow> e = ValueError \<and> k \<notin> key ` set xs"
  by (induction xs) (auto split: if_splits simp: ebind_eq_Inl)

lemma py_remove_absent: "k \<notin> key ` set xs \<Longrightarrow> py_remove key k xs = Inl ValueError"
  by (induction xs) auto

lemma py_remove_first:
  "k \<notin> key ` set xs \<Longrightarrow> key y = k \<Longrightarrow> py_remove key k (xs @ y # zs) = Inr (xs @ zs)"
  by (induction xs) auto

end
