(* ===== verification/Item.thy ===== *)
theory Item
  imports Prelude
begin

text \<open>
  The item model: what the Python classes \<open>ContainerItem\<close> (src/src/layout/container_item.py),
  \<open>Image\<close> (src/src/layout/image.py) and \<open>LayoutContainer\<close>
  (src/src/layout/layout_container.py) store, and the operations of an \<open>Image\<close>.
  An item is a closed datatype with one constructor for the leaf \<open>Image\<close> and one for every
  \<open>LayoutContainer\<close>; the subclass (horizontal, vertical, grid, image frame) is the
  \<open>layout_kind\<close>, which also holds the state of the grid's layout logic (its cell size).
  Every object carries its identity (\<open>oid\<close>): Python's \<open>list.remove\<close> compares the
  container's children by identity, and the model compares them by \<open>oid\<close>.
  The pixel contents of an image are not modelled, only the shape of its buffer.
\<close>

type_synonym oid = nat

section \<open>State\<close>

text \<open>The fields of \<open>LayoutContainer.__init__\<close> (layout_container.py, lines 30--45).\<close>

record layout_config =
  con_width :: int
  con_height :: int
  capacity :: int
  padding_top :: int
  padding_right :: int
  padding_bottom :: int
  padding_left :: int
  background_color :: "int list"
  gutter_horizontal :: int
  gutter_vertical :: int
  min_content_width :: int
  min_content_height :: int

text \<open>
  The subclass of a layout container. \<open>GridLayout rows columns cell_w cell_h\<close> holds
  \<open>GridContainer._rows\<close>, \<open>_columns\<close> and \<open>GridLayoutLogic._cell_width\<close>,
  \<open>_cell_height\<close>.
\<close>

datatype layout_kind =
    HorizontalLayout
  | VerticalLayout
  | GridLayout int int int int
  | FrameLayout

text \<open>
  \<open>Image oid w h\<close>: an image whose buffer has shape \<open>(h, w, 3)\<close>.
  \<open>Container oid kind config items\<close>: a layout container and its ordered children.
\<close>

datatype item =
    Image oid int int
  | Container oid layout_kind layout_config "item list"

text \<open>A resize request: \<open>resize_by_width(w)\<close> or \<open>resize_by_height(h)\<close>.\<close>

datatype resize_request = ByWidth int | ByHeight int

section \<open>Accessors\<close>

fun item_id :: "item \<Rightarrow> oid" where
  "item_id (Image oi _ _) = oi"
| "item_id (Container oi _ _ _) = oi"

text \<open>\<open>get_width\<close>/\<open>get_height\<close>: the buffer's shape for an image, the stored
  \<open>_width\<close>/\<open>_height\<close> for a container (image.py 14--18, layout_container.py 116--120,
  image_frame_container.py 223--227).\<close>

fun get_width :: "item \<Rightarrow> int" where
  "get_width (Image _ w _) = w"
| "get_width (Container _ _ c _) = con_width c"

fun get_height :: "item \<Rightarrow> int" where
  "get_height (Image _ _ h) = h"
| "get_height (Container _ _ c _) = con_height c"

fun is_layout_container :: "item \<Rightarrow> bool" where
  "is_layout_container (Image _ _ _) = False"
| "is_layout_container (Container _ _ _ _) = True"

section \<open>Defaults and validation\<close>

definition DEFAULT_MINIMUM_CONTENT_WIDTH :: int where
  "DEFAULT_MINIMUM_CONTENT_WIDTH = 50"

definition DEFAULT_MINIMUM_CONTENT_HEIGHT :: int where
  "DEFAULT_MINIMUM_CONTENT_HEIGHT = 50"

text \<open>
  The validators of layout_container.py (lines 303--349). A Python tuple of numbers is an
  \<open>int list\<close>; the checks for \<open>None\<close>, for a non-tuple and for non-integer members
  are type errors the typed model cannot express.
\<close>

definition is_padding_valid :: "int list \<Rightarrow> bool" where
  "is_padding_valid p \<longleftrightarrow> length p = 4 \<and> list_all (\<lambda>n. 0 \<le> n) p"

definition is_item_gutters_valid :: "int list \<Rightarrow> bool" where
  "is_item_gutters_valid g \<longleftrightarrow> length g = 2 \<and> list_all (\<lambda>n. 0 \<le> n) g"

definition is_background_color_valid :: "int list \<Rightarrow> bool" where
  "is_background_color_valid c \<longleftrightarrow> length c = 3 \<and> list_all (\<lambda>n. 0 \<le> n \<and> n \<le> 255) c"

text \<open>
  \<open>LayoutContainer.__init__\<close> (lines 20--61): capacity clamped to 1, the setters for
  background colour, gutters and padding in this order (each raising
  \<open>LayoutException\<close> on an invalid value), minimum content sizes floored at 50.
\<close>

definition layout_container_init ::
  "int \<Rightarrow> int \<Rightarrow> int \<Rightarrow> int list \<Rightarrow> int list \<Rightarrow> int list \<Rightarrow> int \<Rightarrow> int \<Rightarrow> layout_config py_result" where
  "layout_container_init w h cap padding bg gutters mcw mch =
     (if \<not> is_background_color_valid bg then Inl LayoutException
      else if \<not> is_item_gutters_valid gutters then Inl LayoutException
      else if \<not> is_padding_valid padding then Inl LayoutException
      else Inr \<lparr>con_width = w, con_height = h, capacity = (if 0 < cap then cap else 1),
                padding_top = padding ! 0, padding_right = padding ! 1,
                padding_bottom = padding ! 2, padding_left = padding ! 3,
                background_color = bg,
                gutter_horizontal = gutters ! 0, gutter_vertical = gutters ! 1,
                min_content_width =
                  (if DEFAULT_MINIMUM_CONTENT_WIDTH < mcw then mcw else DEFAULT_MINIMUM_CONTENT_WIDTH),
                min_content_height =
                  (if DEFAULT_MINIMUM_CONTENT_HEIGHT < mch then mch else DEFAULT_MINIMUM_CONTENT_HEIGHT)\<rparr>)"

section \<open>Image operations\<close>

text \<open>
  The proportional rescale every \<open>resize_by_*\<close> method writes out:
  \<open>ratio = new / old; other = int(other * ratio)\<close> (image.py 27--30 and 41--44,
  layout_container.py 126--127 and 139--140, image_frame_container.py 236--241 and 258--263).
\<close>

definition scale_by :: "int \<Rightarrow> int \<Rightarrow> int \<Rightarrow> int" where
  "scale_by other new old = py_int (of_int other * (of_int new / of_int old))"

text \<open>
  \<open>cv2.resize(img, (w, h))\<close> allocates a buffer of shape \<open>(h, w)\<close>; OpenCV rejects an
  empty or negative target size.
\<close>

definition cv2_resize :: "oid \<Rightarrow> int \<Rightarrow> int \<Rightarrow> item py_result" where
  "cv2_resize oi w h = (if 0 < w \<and> 0 < h then Inr (Image oi w h) else Inl Cv2Error)"

text \<open>\<open>Image.resize_by_width\<close> (image.py 20--32), with its no-op guard.\<close>

definition image_resize_by_width :: "oid \<Rightarrow> int \<Rightarrow> int \<Rightarrow> int \<Rightarrow> item py_result" where
  "image_resize_by_width oi w h width =
     (if width = w then Inr (Image oi w h)
      else if w = 0 then Inl ZeroDivisionError
      else cv2_resize oi width (scale_by h width w))"

text \<open>\<open>Image.resize_by_height\<close> (image.py 35--46).\<close>

definition image_resize_by_height :: "oid \<Rightarrow> int \<Rightarrow> int \<Rightarrow> int \<Rightarrow> item py_result" where
  "image_resize_by_height oi w h height =
     (if height = h then Inr (Image oi w h)
      else if h = 0 then Inl ZeroDivisionError
      else cv2_resize oi (scale_by w height h) height)"

text \<open>
  The decision of \<open>ContainerItem.resize_to_limit\<close> (container_item.py 52--76):
  \<open>aspect = w / h\<close> (raises on \<open>h = 0\<close>), \<open>width_limit / aspect\<close> (raises on
  \<open>w = 0\<close>); if resizing by width would overflow the height limit, resize by height,
  otherwise by width. The unused \<open>potential_width_by_height\<close> cannot raise.
\<close>

definition limit_request :: "int \<Rightarrow> int \<Rightarrow> int \<Rightarrow> int \<Rightarrow> resize_request py_result" where
  "limit_request w h width_limit height_limit =
     (if h = 0 then Inl ZeroDivisionError
      else let aspect = (of_int w / of_int h :: rat) in
        if aspect = 0 then Inl ZeroDivisionError
        else if of_int height_limit < of_int width_limit / aspect then Inr (ByHeight height_limit)
        else Inr (ByWidth width_limit))"

text \<open>
  The abstract contract of \<open>resize_to_limit\<close> on positive sizes: the largest box of the
  item's aspect ratio inside the limits, rounded down on the scaled side; a tie goes to the
  width-driven branch.
\<close>

definition fit_box :: "int \<Rightarrow> int \<Rightarrow> int \<Rightarrow> int \<Rightarrow> int \<times> int" where
  "fit_box w h wl hl = (if hl * w < wl * h then (w * hl div h, hl) else (wl, h * wl div w))"

section \<open>Lemmas\<close>

named_theorems item_simps "evaluation rules for the item model"

declare scale_by_def [eval_simps] cv2_resize_def [eval_simps] image_resize_by_width_def [eval_simps]
  image_resize_by_height_def [eval_simps] limit_request_def [eval_simps]
  layout_container_init_def [eval_simps] is_padding_valid_def [eval_simps]
  is_item_gutters_valid_def [eval_simps] is_background_color_valid_def [eval_simps]
  DEFAULT_MINIMUM_CONTENT_WIDTH_def [eval_simps] DEFAULT_MINIMUM_CONTENT_HEIGHT_def [eval_simps]

lemma scale_by_div [item_simps]:
  "0 \<le> other \<Longrightarrow> 0 \<le> new \<Longrightarrow> 0 < old \<Longrightarrow> scale_by other new old = other * new div old"
  unfolding scale_by_def by (rule py_int_scale)

lemma scale_by_same [simp]: "old \<noteq> 0 \<Longrightarrow> scale_by other old old = other"
  by (simp add: scale_by_def)

lemma limit_request_pos [item_simps]:
  assumes "0 < w" "0 < h"
  shows "limit_request w h wl hl = Inr (if hl * w < wl * h then ByHeight hl else ByWidth wl)"
proof -
  have "(of_int hl < (of_int wl / (of_int w / of_int h) :: rat)) \<longleftrightarrow>
        of_int (hl * w) < (of_int (wl * h) :: rat)"
    using assms by (simp add: field_simps)
  then have "(of_int hl < (of_int wl / (of_int w / of_int h) :: rat)) \<longleftrightarrow> hl * w < wl * h"
    by (simp only: of_int_less_iff)
  then show ?thesis using assms by (simp add: limit_request_def Let_def)
qed

lemma limit_request_Inl:
  "limit_request w h wl hl = Inl e \<longleftrightarrow> e = ZeroDivisionError \<and> (w = 0 \<or> h = 0)"
  by (auto simp: limit_request_def Let_def)

lemma fit_box_bounds:
  assumes "0 < w" "0 < h" "0 \<le> wl" "0 \<le> hl"
  shows "0 \<le> fst (fit_box w h wl hl) \<and> fst (fit_box w h wl hl) \<le> wl
         \<and> 0 \<le> snd (fit_box w h wl hl) \<and> snd (fit_box w h wl hl) \<le> hl"
proof (cases "hl * w < wl * h")
  case True
  have "w * hl div h * h = w * hl - w * hl mod h" by (simp add: minus_mod_eq_div_mult)
  also have "\<dots> \<le> w * hl" using pos_mod_sign [of h "w * hl"] assms(2) by simp
  also have "\<dots> < wl * h" using True by (simp add: mult.commute)
  finally have "w * hl div h < wl" using assms(2) by (simp add: mult_less_cancel_right)
  moreover have "0 \<le> w * hl div h" using assms by (simp add: pos_imp_zdiv_nonneg_iff)
  ultimately show ?thesis using True assms by (simp add: fit_box_def)
next
  case False
  then have "h * wl \<le> hl * w" by (simp add: mult.commute)
  then have "h * wl div w \<le> hl * w div w" using assms(1) by (rule zdiv_mono1)
  also have "\<dots> = hl" using assms(1) by simp
  finally have "h * wl div w \<le> hl" .
  moreover have "0 \<le> h * wl div w" using assms by (simp add: pos_imp_zdiv_nonneg_iff)
  ultimately show ?thesis using False assms by (simp add: fit_box_def)
qed

lemma fit_box_max:
  "fst (fit_box w h wl hl) = wl \<or> snd (fit_box w h wl hl) = hl"
  by (simp add: fit_box_def)


text \<open>C15: \<open>LayoutContainer.__init__\<close> returns a configuration exactly when the background
  colour, the gutters and the padding are valid, and that configuration has the requested box,
  a positive capacity, non-negative padding and gutters and minimum content sizes of at
  least 50; otherwise it raises \<open>LayoutException\<close>.\<close>

theorem layout_container_init_validation:
  "(is_background_color_valid bg \<and> is_item_gutters_valid gutters \<and> is_padding_valid padding \<longrightarrow>
     (\<exists>c. layout_container_init w h cap padding bg gutters mcw mch = Inr c
          \<and> con_width c = w \<and> con_height c = h \<and> 0 < capacity c
          \<and> 0 \<le> padding_top c \<and> 0 \<le> padding_right c \<and> 0 \<le> padding_bottom c \<and> 0 \<le> padding_left c
          \<and> 0 \<le> gutter_horizontal c \<and> 0 \<le> gutter_vertical c
          \<and> DEFAULT_MINIMUM_CONTENT_WIDTH \<le> min_content_width c
          \<and> DEFAULT_MINIMUM_CONTENT_HEIGHT \<le> min_content_height c))
   \<and> (\<not> (is_background_color_valid bg \<and> is_item_gutters_valid gutters \<and> is_padding_valid padding) \<longrightarrow>
     layout_container_init w h cap padding bg gutters mcw mch = Inl LayoutException)"
  by (auto simp: layout_container_init_def is_padding_valid_def is_item_gutters_valid_def
                 list_all_length DEFAULT_MINIMUM_CONTENT_WIDTH_def DEFAULT_MINIMUM_CONTENT_HEIGHT_def)

theorem layout_container_init_validation_witness:
  "layout_container_init 300 200 0 [0, 0, -1, 0] [255, 255, 255] [10, 10] 0 0 = Inl LayoutException
   \<and> (\<exists>c. layout_container_init 300 200 0 [0, 5, 0, 0] [255, 255, 255] [10, 10] 0 0 = Inr c
          \<and> capacity c = 1 \<and> min_content_width c = 50)"
proof -
  have a: "\<not> is_padding_valid [0, 0, -1, 0]" by (simp add: is_padding_valid_def)
  have b: "is_background_color_valid [255, 255, 255] \<and> is_item_gutters_valid [10, 10]
           \<and> is_padding_valid [0, 5, 0, 0]"
    by (simp add: is_padding_valid_def is_item_gutters_valid_def is_background_color_valid_def)
  show ?thesis
    using layout_container_init_validation [of "[255, 255, 255]" "[10, 10]" "[0, 0, -1, 0]" 300 200 0 0 0]
          layout_container_init_validation [of "[255, 255, 255]" "[10, 10]" "[0, 5, 0, 0]" 300 200 0 0 0] a b
    by (auto simp: layout_container_init_def DEFAULT_MINIMUM_CONTENT_WIDTH_def
                   DEFAULT_MINIMUM_CONTENT_HEIGHT_def)
qed

end
