(* ===== verification/Layout_Logic.thy ===== *)
theory Layout_Logic
  imports Item
begin

text \<open>
  The layout strategies (\<open>LayoutLogic\<close> and its subclasses): the budget each child gets,
  the rectangles the children are painted into, the minimum size a container can shrink to,
  and the feasibility check run on a provisional append. They are pure functions of a
  container's state (kind, configuration, children), as the Python methods only read the
  container through \<open>self._con\<close>.
  Sources: src/src/layout/layout_container.py (\<open>LayoutLogic\<close>, lines 352--473),
  vertical_container.py, grid_container.py, image_frame_container.py.
  horizontal_container.py is imported by the code but not part of the repository's sources;
  its strategy is modelled from the specification as the transpose of the vertical one.
\<close>

type_synonym rect = "int \<times> int \<times> int \<times> int"

text \<open>\<open>rect_within r box\<close>: the rectangle lies inside the box (both as
  \<open>(x0, y0, x1, y1)\<close>); \<open>rects_disjoint\<close>: the two rectangles do not overlap.\<close>

fun rect_within :: "rect \<Rightarrow> rect \<Rightarrow> bool" where
  "rect_within (x0, y0, x1, y1) (a, b, c, d) \<longleftrightarrow> a \<le> x0 \<and> x1 \<le> c \<and> b \<le> y0 \<and> y1 \<le> d"

fun rects_disjoint :: "rect \<Rightarrow> rect \<Rightarrow> bool" where
  "rects_disjoint (x0, y0, x1, y1) (x0', y0', x1', y1') \<longleftrightarrow>
     x1 \<le> x0' \<or> x1' \<le> x0 \<or> y1 \<le> y0' \<or> y1' \<le> y0"

section \<open>Drawable area\<close>

text \<open>\<open>LayoutLogic.get_max_drawable_width/height\<close> (layout_container.py 457--473).\<close>

definition max_drawable_width :: "layout_config \<Rightarrow> int" where
  "max_drawable_width c = con_width c - padding_left c - padding_right c"

definition max_drawable_height :: "layout_config \<Rightarrow> int" where
  "max_drawable_height c = con_height c - padding_top c - padding_bottom c"

section \<open>Per-item budgets\<close>

text \<open>\<open>VerticalLayoutLogic.get_max_width_for_each_item\<close> (vertical_container.py 23--24).\<close>

definition vertical_max_width_for_each_item :: "layout_config \<Rightarrow> int" where
  "vertical_max_width_for_each_item c = max_drawable_width c"

text \<open>\<open>VerticalLayoutLogic.get_max_height_for_each_item\<close> (vertical_container.py 26--33):
  equal division of the drawable height among the \<^emph>\<open>current\<close> children.\<close>

definition vertical_max_height_for_each_item :: "layout_config \<Rightarrow> nat \<Rightarrow> int" where
  "vertical_max_height_for_each_item c n =
     (if n = 0 then max_drawable_height c
      else py_int (of_int (max_drawable_height c - (int n - 1) * gutter_horizontal c) / of_int (int n)))"

text \<open>The horizontal strategy, from the specification (section 4.2): the transpose.\<close>

definition horizontal_max_width_for_each_item :: "layout_config \<Rightarrow> nat \<Rightarrow> int" where
  "horizontal_max_width_for_each_item c n =
     (if n = 0 then max_drawable_width c
      else py_int (of_int (max_drawable_width c - (int n - 1) * gutter_vertical c) / of_int (int n)))"

definition horizontal_max_height_for_each_item :: "layout_config \<Rightarrow> int" where
  "horizontal_max_height_for_each_item c = max_drawable_height c"

text \<open>The grid's cell size, computed in \<open>GridLayoutLogic.resize_items\<close>
  (grid_container.py 51--57); the caller raises \<open>ZeroDivisionError\<close> on zero columns
  or rows.\<close>

definition grid_cell_width :: "layout_config \<Rightarrow> int \<Rightarrow> int" where
  "grid_cell_width c cols =
     py_int (of_int (con_width c - padding_left c - padding_right c - gutter_vertical c * (cols - 1))
             / of_int cols)"

definition grid_cell_height :: "layout_config \<Rightarrow> int \<Rightarrow> int" where
  "grid_cell_height c rows =
     py_int (of_int (con_height c - padding_top c - padding_bottom c - gutter_horizontal c * (rows - 1))
             / of_int rows)"

text \<open>\<open>get_max_width_for_each_item\<close>/\<open>get_max_height_for_each_item\<close> dispatched on the
  strategy (the grid returns its stored cell size, grid_container.py 62--66; the frame its
  drawable area, image_frame_container.py 121--125).\<close>

fun max_width_for_each_item :: "layout_kind \<Rightarrow> layout_config \<Rightarrow> nat \<Rightarrow> int" where
  "max_width_for_each_item HorizontalLayout c n = horizontal_max_width_for_each_item c n"
| "max_width_for_each_item VerticalLayout c n = vertical_max_width_for_each_item c"
| "max_width_for_each_item (GridLayout _ _ cw _) c n = cw"
| "max_width_for_each_item FrameLayout c n = max_drawable_width c"

fun max_height_for_each_item :: "layout_kind \<Rightarrow> layout_config \<Rightarrow> nat \<Rightarrow> int" where
  "max_height_for_each_item HorizontalLayout c n = horizontal_max_height_for_each_item c"
| "max_height_for_each_item VerticalLayout c n = vertical_max_height_for_each_item c n"
| "max_height_for_each_item (GridLayout _ _ _ ch) c n = ch"
| "max_height_for_each_item FrameLayout c n = max_drawable_height c"

section \<open>Placement coordinates\<close>

text \<open>
  \<open>VerticalLayoutLogic.get_layout_coordinates\<close> (vertical_container.py 35--67): the loop
  over the children with its running \<open>y_cell_origin\<close>; each child is centred in its band
  by \<open>int(gap / 2)\<close>.
\<close>

fun vertical_coordinates_from :: "int \<Rightarrow> int \<Rightarrow> int \<Rightarrow> int \<Rightarrow> int \<Rightarrow> item list \<Rightarrow> rect list" where
  "vertical_coordinates_from x y mw mh g [] = []"
| "vertical_coordinates_from x y mw mh g (it # its) =
     (let x0 = x + half (mw - get_width it); y0 = y + half (mh - get_height it)
      in (x0, y0, x0 + get_width it, y0 + get_height it)
         # vertical_coordinates_from x (y + mh + g) mw mh g its)"

definition vertical_layout_coordinates :: "layout_config \<Rightarrow> item list \<Rightarrow> rect list" where
  "vertical_layout_coordinates c xs =
     vertical_coordinates_from (padding_left c) (padding_top c)
       (vertical_max_width_for_each_item c) (vertical_max_height_for_each_item c (length xs))
       (gutter_horizontal c) xs"

text \<open>The horizontal placement, from the specification: the x origin advances by the
  budget plus the vertical gutter; each child is centred in its band.\<close>

fun horizontal_coordinates_from :: "int \<Rightarrow> int \<Rightarrow> int \<Rightarrow> int \<Rightarrow> int \<Rightarrow> item list \<Rightarrow> rect list" where
  "horizontal_coordinates_from x y mw mh g [] = []"
| "horizontal_coordinates_from x y mw mh g (it # its) =
     (let x0 = x + half (mw - get_width it); y0 = y + half (mh - get_height it)
      in (x0, y0, x0 + get_width it, y0 + get_height it)
         # horizontal_coordinates_from (x + mw + g) y mw mh g its)"

definition horizontal_layout_coordinates :: "layout_config \<Rightarrow> item list \<Rightarrow> rect list" where
  "horizontal_layout_coordinates c xs =
     horizontal_coordinates_from (padding_left c) (padding_top c)
       (horizontal_max_width_for_each_item c (length xs)) (horizontal_max_height_for_each_item c)
       (gutter_vertical c) xs"

text \<open>
  \<open>GridLayoutLogic.get_layout_coordinates\<close> (grid_container.py 68--102): row-major
  filling; after \<open>columns\<close> cells the x origin returns to the left padding and the y
  origin moves one cell and one horizontal gutter down.
\<close>

fun grid_coordinates_from ::
  "layout_config \<Rightarrow> int \<Rightarrow> int \<Rightarrow> int \<Rightarrow> int \<Rightarrow> int \<Rightarrow> int \<Rightarrow> item list \<Rightarrow> rect list" where
  "grid_coordinates_from c cols cw ch x y col [] = []"
| "grid_coordinates_from c cols cw ch x y col (it # its) =
     (let x_gap = half (cw - get_width it); y_gap = half (ch - get_height it);
          r = (x + x_gap, y + y_gap, x + x_gap + get_width it, y + y_gap + get_height it)
      in r # (if cols \<le> col + 1
              then grid_coordinates_from c cols cw ch (padding_left c) (y + ch + gutter_horizontal c) 0 its
              else grid_coordinates_from c cols cw ch (x + cw + gutter_vertical c) y (col + 1) its))"

definition grid_layout_coordinates :: "layout_config \<Rightarrow> int \<Rightarrow> int \<Rightarrow> int \<Rightarrow> item list \<Rightarrow> rect list" where
  "grid_layout_coordinates c cols cw ch xs =
     grid_coordinates_from c cols cw ch (padding_left c) (padding_top c) 0 xs"

text \<open>\<open>ImageFrameLayoutLogic.get_layout_coordinates\<close> (image_frame_container.py 127--145):
  only the top-left corner of the one child, centred in the drawable area.\<close>

definition frame_layout_coordinates :: "layout_config \<Rightarrow> item list \<Rightarrow> (int \<times> int) list" where
  "frame_layout_coordinates c xs =
     (case xs of [] \<Rightarrow> []
      | it # _ \<Rightarrow> [(padding_left c + half (max_drawable_width c - get_width it),
                   padding_top c + half (max_drawable_height c - get_height it))])"

text \<open>The strategy's coordinates, dispatched on the kind. For the frame, the rectangle its
  \<open>get_drawable_image\<close> paints (image_frame_container.py 94--107): the corner above,
  extended by the child's shape.\<close>

fun layout_coordinates :: "layout_kind \<Rightarrow> layout_config \<Rightarrow> item list \<Rightarrow> rect list" where
  "layout_coordinates HorizontalLayout c xs = horizontal_layout_coordinates c xs"
| "layout_coordinates VerticalLayout c xs = vertical_layout_coordinates c xs"
| "layout_coordinates (GridLayout _ cols cw ch) c xs = grid_layout_coordinates c cols cw ch xs"
| "layout_coordinates FrameLayout c xs =
     map2 (\<lambda>(x, y) it. (x, y, x + get_width it, y + get_height it)) (frame_layout_coordinates c xs) xs"

section \<open>Minimum layout size\<close>

text \<open>
  \<open>LayoutLogic.get_minimum_layout_height/width\<close> (layout_container.py 404--455): gutters
  between the current children plus padding plus, per child, its own minimum layout size if it
  is a layout container and the container's minimum content size otherwise. The grid overrides
  both (grid_container.py 104--108) with its current size less the content of its rows or
  columns.
\<close>

fun minimum_layout_height :: "layout_kind \<Rightarrow> layout_config \<Rightarrow> item list \<Rightarrow> int" where
  "minimum_layout_height (GridLayout rows _ _ _) c xs = con_height c - min_content_height c * rows"
| "minimum_layout_height k c xs =
     gutter_horizontal c * max (int (length xs) - 1) 0 + (padding_top c + padding_bottom c)
     + sum_list (map (\<lambda>x. case x of Image _ _ _ \<Rightarrow> min_content_height c
                                 | Container _ k' c' ys \<Rightarrow> minimum_layout_height k' c' ys) xs)"

fun minimum_layout_width :: "layout_kind \<Rightarrow> layout_config \<Rightarrow> item list \<Rightarrow> int" where
  "minimum_layout_width (GridLayout _ cols _ _) c xs = con_width c - min_content_width c * cols"
| "minimum_layout_width k c xs =
     gutter_vertical c * max (int (length xs) - 1) 0 + (padding_left c + padding_right c)
     + sum_list (map (\<lambda>x. case x of Image _ _ _ \<Rightarrow> min_content_width c
                                 | Container _ k' c' ys \<Rightarrow> minimum_layout_width k' c' ys) xs)"

section \<open>Feasibility of the last appended child\<close>

text \<open>\<open>VerticalLayoutLogic.check_dimensions_when_adding_item\<close> (vertical_container.py 69--73).\<close>

definition vertical_check_dimensions :: "layout_config \<Rightarrow> item list \<Rightarrow> unit py_result" where
  "vertical_check_dimensions c xs =
     (if con_height c < minimum_layout_height VerticalLayout c xs then Inl LayoutException else Inr ())"

text \<open>The horizontal check, from the specification: total minimum width against the width.\<close>

definition horizontal_check_dimensions :: "layout_config \<Rightarrow> item list \<Rightarrow> unit py_result" where
  "horizontal_check_dimensions c xs =
     (if con_width c < minimum_layout_width HorizontalLayout c xs then Inl LayoutException else Inr ())"

text \<open>\<open>GridLayoutLogic.check_dimensions_when_adding_item\<close> (grid_container.py 110--124): the
  last child's size, or its minimum layout size if it is a layout container, against the cell.\<close>

definition grid_check_dimensions :: "int \<Rightarrow> int \<Rightarrow> item list \<Rightarrow> unit py_result" where
  "grid_check_dimensions cw ch xs =
     (case rev xs of [] \<Rightarrow> Inl IndexError
      | last_item # _ \<Rightarrow>
          (let (w, h) = (case last_item of Image _ iw ih \<Rightarrow> (iw, ih)
                         | Container _ k' c' ys \<Rightarrow> (minimum_layout_width k' c' ys, minimum_layout_height k' c' ys))
           in if cw < w \<or> ch < h then Inl LayoutException else Inr ()))"

text \<open>\<open>ImageFrameLayoutLogic.check_dimensions_when_adding_item\<close>
  (image_frame_container.py 147--152), which raises a bare \<open>Exception\<close>.\<close>

definition frame_check_dimensions :: "layout_config \<Rightarrow> item list \<Rightarrow> unit py_result" where
  "frame_check_dimensions c xs =
     (if con_width c < minimum_layout_width FrameLayout c xs
         \<or> con_height c < minimum_layout_height FrameLayout c xs
      then Inl FrameException else Inr ())"

fun check_dimensions_when_adding_item :: "layout_kind \<Rightarrow> layout_config \<Rightarrow> item list \<Rightarrow> unit py_result" where
  "check_dimensions_when_adding_item HorizontalLayout c xs = horizontal_check_dimensions c xs"
| "check_dimensions_when_adding_item VerticalLayout c xs = vertical_check_dimensions c xs"
| "check_dimensions_when_adding_item (GridLayout _ _ cw ch) c xs = grid_check_dimensions cw ch xs"
| "check_dimensions_when_adding_item FrameLayout c xs = frame_check_dimensions c xs"

section \<open>Lemmas\<close>

lemma length_vertical_coordinates_from [simp]:
  "length (vertical_coordinates_from x y mw mh g xs) = length xs"
  by (induction xs arbitrary: y) (simp_all add: Let_def)

lemma length_horizontal_coordinates_from [simp]:
  "length (horizontal_coordinates_from x y mw mh g xs) = length xs"
  by (induction xs arbitrary: x) (simp_all add: Let_def)

lemma length_grid_coordinates_from [simp]:
  "length (grid_coordinates_from c cols cw ch x y col xs) = length xs"
  by (induction xs arbitrary: x y col) (simp_all add: Let_def)

text \<open>The i-th rectangle of the vertical loop, in closed form.\<close>

lemma vertical_coordinates_from_nth:
  "i < length xs \<Longrightarrow> vertical_coordinates_from x y mw mh g xs ! i =
     (x + half (mw - get_width (xs ! i)), y + int i * (mh + g) + half (mh - get_height (xs ! i)),
      x + half (mw - get_width (xs ! i)) + get_width (xs ! i),
      y + int i * (mh + g) + half (mh - get_height (xs ! i)) + get_height (xs ! i))"
proof (induction xs arbitrary: y i)
  case Nil
  then show ?case by simp
next
  case (Cons it xs)
  then show ?case by (cases i) (simp_all add: Let_def algebra_simps)
qed

lemma horizontal_coordinates_from_nth:
  "i < length xs \<Longrightarrow> horizontal_coordinates_from x y mw mh g xs ! i =
     (x + int i * (mw + g) + half (mw - get_width (xs ! i)), y + half (mh - get_height (xs ! i)),
      x + int i * (mw + g) + half (mw - get_width (xs ! i)) + get_width (xs ! i),
      y + half (mh - get_height (xs ! i)) + get_height (xs ! i))"
proof (induction xs arbitrary: x i)
  case Nil
  then show ?case by simp
next
  case (Cons it xs)
  then show ?case by (cases i) (simp_all add: Let_def algebra_simps)
qed

text \<open>Arithmetic of equal bands of size \<open>m\<close> separated by gutters \<open>g\<close>.\<close>

lemma band_before:
  assumes "0 \<le> m" "0 \<le> g" "(i::int) < j"
  shows "i * (m + g) + m \<le> j * (m + g)"
proof -
  have "i * (m + g) + m \<le> (i + 1) * (m + g)" using assms(2) by (simp add: algebra_simps)
  also have "\<dots> \<le> j * (m + g)" using assms by (intro mult_right_mono) auto
  finally show ?thesis .
qed

lemma band_last:
  assumes "0 \<le> m" "0 \<le> g" "(i::int) < n"
  shows "i * (m + g) + m \<le> n * m + (n - 1) * g"
proof -
  have "i * (m + g) \<le> (n - 1) * (m + g)" using assms by (intro mult_right_mono) auto
  then show ?thesis by (simp add: algebra_simps)
qed

text \<open>Equal division: \<open>n\<close> budgets and \<open>n - 1\<close> gutters fit in the drawable extent.\<close>

lemma equal_division_fits:
  assumes "(0::int) < n" "0 \<le> d - (n - 1) * g"
  shows "0 \<le> py_int (of_int (d - (n - 1) * g) / of_int n) \<and>
         n * py_int (of_int (d - (n - 1) * g) / of_int n) + (n - 1) * g \<le> d"
proof -
  define q where "q = d - (n - 1) * g"
  have "py_int (of_int q / of_int n) = q div n" using assms by (intro py_int_div) (simp_all add: q_def)
  moreover have "n * (q div n) \<le> q" using div_mult_bounds [of n q] assms(1)
    by (simp add: mult.commute)
  moreover have "0 \<le> q div n" using assms by (simp add: q_def pos_imp_zdiv_nonneg_iff)
  moreover have "n * (q div n) \<le> q \<Longrightarrow> n * (q div n) + (n - 1) * g \<le> d"
    by (simp add: q_def)
  ultimately show ?thesis unfolding q_def [symmetric] by simp
qed

lemma grid_cell_width_eq:
  "grid_cell_width c cols = py_int (of_int (max_drawable_width c - (cols - 1) * gutter_vertical c) / of_int cols)"
  by (simp add: grid_cell_width_def max_drawable_width_def algebra_simps)

lemma grid_cell_height_eq:
  "grid_cell_height c rows = py_int (of_int (max_drawable_height c - (rows - 1) * gutter_horizontal c) / of_int rows)"
  by (simp add: grid_cell_height_def max_drawable_height_def algebra_simps)

theorem vertical_coordinates_within:
  assumes fit: "\<forall>it \<in> set xs. 0 \<le> get_width it \<and> get_width it \<le> vertical_max_width_for_each_item c
                  \<and> 0 \<le> get_height it \<and> get_height it \<le> vertical_max_height_for_each_item c (length xs)"
    and g: "0 \<le> gutter_horizontal c"
    and room: "0 \<le> max_drawable_height c - (int (length xs) - 1) * gutter_horizontal c"
    and i: "i < length xs"
  shows "rect_within (vertical_layout_coordinates c xs ! i)
           (padding_left c, padding_top c, con_width c - padding_right c, con_height c - padding_bottom c)"
proof -
  let ?mw = "vertical_max_width_for_each_item c" and ?mh = "vertical_max_height_for_each_item c (length xs)"
  let ?it = "xs ! i"
  have n: "0 < length xs" using i by (rule le_less_trans [OF le0])
  have tot: "0 \<le> ?mh \<and> int (length xs) * ?mh + (int (length xs) - 1) * gutter_horizontal c \<le> max_drawable_height c"
    using equal_division_fits [of "int (length xs)"] n room by (simp add: vertical_max_height_for_each_item_def)
  have it: "0 \<le> get_width ?it \<and> get_width ?it \<le> ?mw \<and> 0 \<le> get_height ?it \<and> get_height ?it \<le> ?mh"
    using fit i by simp
  then have hx: "0 \<le> half (?mw - get_width ?it) \<and> half (?mw - get_width ?it) + get_width ?it \<le> ?mw"
    and hy: "0 \<le> half (?mh - get_height ?it) \<and> half (?mh - get_height ?it) + get_height ?it \<le> ?mh"
    by (simp_all add: half_gap_bounds)
  have "int i * (?mh + gutter_horizontal c) + ?mh
          \<le> int (length xs) * ?mh + (int (length xs) - 1) * gutter_horizontal c"
    using band_last [OF _ g, of _ "int i" "int (length xs)"] i tot by simp
  moreover have "0 \<le> int i * (?mh + gutter_horizontal c)" using tot g by simp
  ultimately show ?thesis using tot hx hy i
    by (simp add: vertical_layout_coordinates_def vertical_coordinates_from_nth
        vertical_max_width_for_each_item_def max_drawable_width_def max_drawable_height_def)
qed

theorem vertical_coordinates_disjoint:
  assumes fit: "\<forall>it \<in> set xs. 0 \<le> get_height it \<and> get_height it \<le> vertical_max_height_for_each_item c (length xs)"
    and g: "0 \<le> gutter_horizontal c"
    and ij: "i < j" "j < length xs"
  shows "rects_disjoint (vertical_layout_coordinates c xs ! i) (vertical_layout_coordinates c xs ! j)"
proof -
  let ?mh = "vertical_max_height_for_each_item c (length xs)"
  have hi: "0 \<le> half (?mh - get_height (xs ! i)) \<and> half (?mh - get_height (xs ! i)) + get_height (xs ! i) \<le> ?mh"
    and hj: "0 \<le> half (?mh - get_height (xs ! j))"
    using fit ij by (simp_all add: half_gap_bounds)
  have "xs ! j \<in> set xs" using ij by simp
  then have "0 \<le> ?mh" using fit by fastforce
  then have "int i * (?mh + gutter_horizontal c) + ?mh \<le> int j * (?mh + gutter_horizontal c)"
    using band_before [OF _ g, of _ "int i" "int j"] ij(1) by simp
  with hi hj ij show ?thesis
    by (simp add: vertical_layout_coordinates_def vertical_coordinates_from_nth)
qed


text \<open>The i-th rectangle of the grid loop: column \<open>i mod columns\<close>, row \<open>i div columns\<close>.\<close>

lemma grid_coordinates_from_nth:
  assumes "0 \<le> col" "col < cols" "i < length xs"
  shows "grid_coordinates_from c cols cw ch (padding_left c + col * (cw + gutter_vertical c)) y col xs ! i =
     (let it = xs ! i; k = col + int i;
          x = padding_left c + (k mod cols) * (cw + gutter_vertical c) + half (cw - get_width it);
          y0 = y + (k div cols) * (ch + gutter_horizontal c) + half (ch - get_height it)
      in (x, y0, x + get_width it, y0 + get_height it))"
  using assms
proof (induction xs arbitrary: col y i)
  case Nil
  then show ?case by simp
next
  case (Cons it xs)
  show ?case
  proof (cases i)
    case 0
    then show ?thesis using Cons.prems by (simp add: Let_def)
  next
    case (Suc j)
    show ?thesis
    proof (cases "cols \<le> col + 1")
      case True
      then have col: "col + 1 = cols" using Cons.prems by simp
      have "0 < cols" "j < length xs" using Cons.prems Suc by auto
      note ih = Cons.IH [where col = 0 and y = "y + ch + gutter_horizontal c" and i = j, OF _ this(1,2)]
      moreover have e: "1 + (col + int j) = int j + cols" using col by simp
      moreover have "(1 + (col + int j)) mod cols = int j mod cols" unfolding e by simp
      moreover have "(1 + (col + int j)) div cols = 1 + int j div cols"
        unfolding e using \<open>0 < cols\<close> by simp
      ultimately show ?thesis using True Suc ih by (simp add: Let_def algebra_simps)
    next
      case False
      have "0 \<le> col + 1" "col + 1 < cols" "j < length xs" using Cons.prems Suc False by auto
      note ih = Cons.IH [OF this]
      then show ?thesis using False Suc ih by (simp add: Let_def algebra_simps)
    qed
  qed
qed

lemma grid_layout_coordinates_nth:
  assumes "0 < cols" "i < length xs"
  shows "grid_layout_coordinates c cols cw ch xs ! i =
     (padding_left c + (int i mod cols) * (cw + gutter_vertical c) + half (cw - get_width (xs ! i)),
      padding_top c + (int i div cols) * (ch + gutter_horizontal c) + half (ch - get_height (xs ! i)),
      padding_left c + (int i mod cols) * (cw + gutter_vertical c) + half (cw - get_width (xs ! i))
        + get_width (xs ! i),
      padding_top c + (int i div cols) * (ch + gutter_horizontal c) + half (ch - get_height (xs ! i))
        + get_height (xs ! i))"
  using grid_coordinates_from_nth [of 0 cols i xs c cw ch "padding_top c"] assms
  by (simp add: grid_layout_coordinates_def Let_def)

lemma grid_rects_within:
  assumes pos: "0 < cols" "0 < rows"
    and fit: "\<forall>it \<in> set xs. 0 \<le> get_width it \<and> get_width it \<le> grid_cell_width c cols
                  \<and> 0 \<le> get_height it \<and> get_height it \<le> grid_cell_height c rows"
    and g: "0 \<le> gutter_vertical c" "0 \<le> gutter_horizontal c"
    and room: "0 \<le> max_drawable_width c - (cols - 1) * gutter_vertical c"
              "0 \<le> max_drawable_height c - (rows - 1) * gutter_horizontal c"
    and cap: "int (length xs) \<le> rows * cols" and i: "i < length xs"
  shows "rect_within (grid_layout_coordinates c cols (grid_cell_width c cols) (grid_cell_height c rows) xs ! i)
           (padding_left c, padding_top c, con_width c - padding_right c, con_height c - padding_bottom c)"
proof -
  let ?cw = "grid_cell_width c cols" and ?ch = "grid_cell_height c rows" and ?it = "xs ! i"
  have tw: "0 \<le> ?cw \<and> cols * ?cw + (cols - 1) * gutter_vertical c \<le> max_drawable_width c"
    using equal_division_fits [OF pos(1) room(1)] by (simp add: grid_cell_width_eq)
  have th: "0 \<le> ?ch \<and> rows * ?ch + (rows - 1) * gutter_horizontal c \<le> max_drawable_height c"
    using equal_division_fits [OF pos(2) room(2)] by (simp add: grid_cell_height_eq)
  have it: "0 \<le> get_width ?it \<and> get_width ?it \<le> ?cw \<and> 0 \<le> get_height ?it \<and> get_height ?it \<le> ?ch"
    using fit i by simp
  then have hx: "0 \<le> half (?cw - get_width ?it) \<and> half (?cw - get_width ?it) + get_width ?it \<le> ?cw"
    and hy: "0 \<le> half (?ch - get_height ?it) \<and> half (?ch - get_height ?it) + get_height ?it \<le> ?ch"
    by (simp_all add: half_gap_bounds)
  have col: "0 \<le> int i mod cols" "int i mod cols < cols" using pos by simp_all
  have "int i < rows * cols" using cap i by linarith
  have row0: "0 \<le> int i div cols" using pos by (simp add: pos_imp_zdiv_nonneg_iff)
  have row1: "int i div cols < rows"
  proof (rule ccontr)
    assume "\<not> int i div cols < rows"
    then have "rows * cols \<le> int i div cols * cols" using pos by (intro mult_right_mono) auto
    moreover have "int i div cols * cols \<le> int i" using div_mult_bounds [OF pos(1)] by simp
    ultimately show False using \<open>int i < rows * cols\<close> by linarith
  qed
  have bx: "(int i mod cols) * (?cw + gutter_vertical c) + ?cw \<le> cols * ?cw + (cols - 1) * gutter_vertical c"
    using band_last [OF _ g(1) col(2)] tw by simp
  have by': "(int i div cols) * (?ch + gutter_horizontal c) + ?ch \<le> rows * ?ch + (rows - 1) * gutter_horizontal c"
    using band_last [OF _ g(2) row1] th by simp
  have "0 \<le> (int i mod cols) * (?cw + gutter_vertical c)" using col tw g by simp
  moreover have "0 \<le> (int i div cols) * (?ch + gutter_horizontal c)" using row0 th g by simp
  ultimately show ?thesis using tw th hx hy bx by' pos i
    by (simp add: grid_layout_coordinates_nth max_drawable_width_def max_drawable_height_def)
qed

text \<open>C8: in a grid whose children fit their cells, every rectangle the drawing loop
  computes lies inside the container's drawable area, given at most \<open>rows * columns\<close>
  children and room for the gutters.\<close>

theorem grid_coordinates_within:
  assumes pos: "0 < cols" "0 < rows"
    and fit: "\<forall>it \<in> set xs. 0 \<le> get_width it \<and> get_width it \<le> grid_cell_width c cols
                  \<and> 0 \<le> get_height it \<and> get_height it \<le> grid_cell_height c rows"
    and g: "0 \<le> gutter_vertical c" "0 \<le> gutter_horizontal c"
    and room: "0 \<le> max_drawable_width c - (cols - 1) * gutter_vertical c"
              "0 \<le> max_drawable_height c - (rows - 1) * gutter_horizontal c"
    and cap: "int (length xs) \<le> rows * cols" and i: "i < length xs"
  shows "rect_within (grid_layout_coordinates c cols (grid_cell_width c cols) (grid_cell_height c rows) xs ! i)
           (padding_left c, padding_top c, con_width c - padding_right c, con_height c - padding_bottom c)"
  using assms by (rule grid_rects_within)

lemma grid_rects_disjoint:
  assumes pos: "0 < cols"
    and fit: "\<forall>it \<in> set xs. 0 \<le> get_width it \<and> get_width it \<le> cw \<and> 0 \<le> get_height it \<and> get_height it \<le> ch"
    and g: "0 \<le> gutter_vertical c" "0 \<le> gutter_horizontal c"
    and ij: "i < j" "j < length xs"
  shows "rects_disjoint (grid_layout_coordinates c cols cw ch xs ! i) (grid_layout_coordinates c cols cw ch xs ! j)"
proof -
  have mi: "xs ! i \<in> set xs" and mj: "xs ! j \<in> set xs" using ij by simp_all
  then have hi: "0 \<le> half (cw - get_width (xs ! i)) \<and> half (cw - get_width (xs ! i)) + get_width (xs ! i) \<le> cw
      \<and> 0 \<le> half (ch - get_height (xs ! i)) \<and> half (ch - get_height (xs ! i)) + get_height (xs ! i) \<le> ch"
    and hj: "0 \<le> half (cw - get_width (xs ! j)) \<and> 0 \<le> half (ch - get_height (xs ! j))"
    using fit by (simp_all add: half_gap_bounds)
  have cw: "0 \<le> cw" and ch: "0 \<le> ch" using fit mi by force+
  have ei: "int i = int i div cols * cols + int i mod cols" and ej: "int j = int j div cols * cols + int j mod cols"
    by simp_all
  have "int i div cols \<le> int j div cols" using ij pos by (intro zdiv_mono1) auto
  then consider (same) "int i div cols = int j div cols" | (below) "int i div cols < int j div cols" by linarith
  then show ?thesis
  proof cases
    case same
    then have "int j = int i div cols * cols + int j mod cols" using ej by simp
    then have "int i mod cols < int j mod cols" using ei ij(1) by linarith
    then have "(int i mod cols) * (cw + gutter_vertical c) + cw \<le> (int j mod cols) * (cw + gutter_vertical c)"
      using band_before [OF cw g(1)] by blast
    then show ?thesis using hi hj ij pos by (simp add: grid_layout_coordinates_nth)
  next
    case below
    then have "(int i div cols) * (ch + gutter_horizontal c) + ch \<le> (int j div cols) * (ch + gutter_horizontal c)"
      using band_before [OF ch g(2)] by blast
    then show ?thesis using hi hj ij pos by (simp add: grid_layout_coordinates_nth)
  qed
qed

text \<open>C9: in a grid whose children fit their cells, the rectangles of two different
  children never overlap.\<close>

theorem grid_coordinates_disjoint:
  assumes pos: "0 < cols"
    and fit: "\<forall>it \<in> set xs. 0 \<le> get_width it \<and> get_width it \<le> cw \<and> 0 \<le> get_height it \<and> get_height it \<le> ch"
    and g: "0 \<le> gutter_vertical c" "0 \<le> gutter_horizontal c"
    and ij: "i < j" "j < length xs"
  shows "rects_disjoint (grid_layout_coordinates c cols cw ch xs ! i) (grid_layout_coordinates c cols cw ch xs ! j)"
  using assms by (rule grid_rects_disjoint)


theorem grid_coordinates_within_witness:
  "rect_within (grid_layout_coordinates \<lparr>con_width = 300, con_height = 200, capacity = 6, padding_top = 0, padding_right = 0,
       padding_bottom = 0, padding_left = 0, background_color = [255, 255, 255],
       gutter_horizontal = 10, gutter_vertical = 10, min_content_width = 50, min_content_height = 50\<rparr> 3 (grid_cell_width \<lparr>con_width = 300, con_height = 200, capacity = 6, padding_top = 0, padding_right = 0,
       padding_bottom = 0, padding_left = 0, background_color = [255, 255, 255],
       gutter_horizontal = 10, gutter_vertical = 10, min_content_width = 50, min_content_height = 50\<rparr> 3) (grid_cell_height \<lparr>con_width = 300, con_height = 200, capacity = 6, padding_top = 0, padding_right = 0,
       padding_bottom = 0, padding_left = 0, background_color = [255, 255, 255],
       gutter_horizontal = 10, gutter_vertical = 10, min_content_width = 50, min_content_height = 50\<rparr> 2) [Image 1 90 95, Image 2 93 80, Image 3 93 95, Image 4 50 50] ! 3)
     (padding_left \<lparr>con_width = 300, con_height = 200, capacity = 6, padding_top = 0, padding_right = 0,
       padding_bottom = 0, padding_left = 0, background_color = [255, 255, 255],
       gutter_horizontal = 10, gutter_vertical = 10, min_content_width = 50, min_content_height = 50\<rparr>, padding_top \<lparr>con_width = 300, con_height = 200, capacity = 6, padding_top = 0, padding_right = 0,
       padding_bottom = 0, padding_left = 0, background_color = [255, 255, 255],
       gutter_horizontal = 10, gutter_vertical = 10, min_content_width = 50, min_content_height = 50\<rparr>, con_width \<lparr>con_width = 300, con_height = 200, capacity = 6, padding_top = 0, padding_right = 0,
       padding_bottom = 0, padding_left = 0, background_color = [255, 255, 255],
       gutter_horizontal = 10, gutter_vertical = 10, min_content_width = 50, min_content_height = 50\<rparr> - padding_right \<lparr>con_width = 300, con_height = 200, capacity = 6, padding_top = 0, padding_right = 0,
       padding_bottom = 0, padding_left = 0, background_color = [255, 255, 255],
       gutter_horizontal = 10, gutter_vertical = 10, min_content_width = 50, min_content_height = 50\<rparr>, con_height \<lparr>con_width = 300, con_height = 200, capacity = 6, padding_top = 0, padding_right = 0,
       padding_bottom = 0, padding_left = 0, background_color = [255, 255, 255],
       gutter_horizontal = 10, gutter_vertical = 10, min_content_width = 50, min_content_height = 50\<rparr> - padding_bottom \<lparr>con_width = 300, con_height = 200, capacity = 6, padding_top = 0, padding_right = 0,
       padding_bottom = 0, padding_left = 0, background_color = [255, 255, 255],
       gutter_horizontal = 10, gutter_vertical = 10, min_content_width = 50, min_content_height = 50\<rparr>)"
  by (rule grid_coordinates_within)
     (simp_all add: eval_simps grid_cell_width_def grid_cell_height_def max_drawable_width_def
                    max_drawable_height_def)

theorem grid_coordinates_disjoint_witness:
  "rects_disjoint (grid_layout_coordinates \<lparr>con_width = 300, con_height = 200, capacity = 6, padding_top = 0, padding_right = 0,
       padding_bottom = 0, padding_left = 0, background_color = [255, 255, 255],
       gutter_horizontal = 10, gutter_vertical = 10, min_content_width = 50, min_content_height = 50\<rparr> 3 93 95 [Image 1 90 95, Image 2 93 80, Image 3 93 95, Image 4 50 50] ! 2) (grid_layout_coordinates \<lparr>con_width = 300, con_height = 200, capacity = 6, padding_top = 0, padding_right = 0,
       padding_bottom = 0, padding_left = 0, background_color = [255, 255, 255],
       gutter_horizontal = 10, gutter_vertical = 10, min_content_width = 50, min_content_height = 50\<rparr> 3 93 95 [Image 1 90 95, Image 2 93 80, Image 3 93 95, Image 4 50 50] ! 3)"
  by (rule grid_coordinates_disjoint) simp_all


end
