(* ===== verification/Resize.thy ===== *)
theory Resize
  imports Layout_Logic
begin

text \<open>
  Resizing, the one operation that recurses through the whole tree. In Python it is a
  chain of dynamically dispatched methods: \<open>ContainerItem.resize_to_limit\<close> picks an
  axis and calls \<open>resize_by_width\<close>/\<open>resize_by_height\<close> of the item (an \<open>Image\<close>
  reallocates its buffer; a \<open>LayoutContainer\<close> rescales its own box and calls its
  strategy's \<open>resize_items\<close>; an \<open>ImageFrameContainer\<close> rescales its box and refits
  its one image), and \<open>resize_items\<close> calls \<open>resize_to_limit\<close> on every child with
  the strategy's budget. The model is one mutually recursive function per method; the
  children are updated in place in Python, and returned updated here. An exception aborts
  the whole call (no caller catches it), so an error result carries no state.

  The lemmas: resizing never changes the tree's structure (\<open>skeleton\<close>), keeps the
  well-formedness invariant \<open>wf_item\<close>, sets the outer size by the proportional rule
  of every variant, and \<open>resize_to_limit\<close> implements the contract \<open>fit_box\<close>.
\<close>

section \<open>The resize methods\<close>

text \<open>
  \<open>resize_to_limit\<close>: container_item.py 52--76. \<open>resize_by\<close>: image.py 20--46,
  layout_container.py 122--144 (\<open>resize_by_width\<close>/\<open>resize_by_height\<close>, no-op guard,
  proportional rescale, then \<open>resize_items\<close>), image_frame_container.py 30--74 (the frame's
  override: rescale, reject a non-positive interior along the driving axis with a bare
  \<open>Exception\<close>, then fit \<open>_items[0]\<close> to the interior). \<open>resize_items\<close>: the
  strategies' loops (vertical_container.py 19--21, grid_container.py 42--60, which first
  recomputes the cell size, image_frame_container.py 115--119; the horizontal one from the
  specification). \<open>resize_each\<close>: the \<open>for item in self._con.get_items_copy()\<close> loop.
\<close>

fun resize_to_limit :: "item \<Rightarrow> int \<Rightarrow> int \<Rightarrow> item py_result"
and resize_by :: "item \<Rightarrow> resize_request \<Rightarrow> item py_result"
and resize_items :: "oid \<Rightarrow> layout_kind \<Rightarrow> layout_config \<Rightarrow> item list \<Rightarrow> item py_result"
and resize_each :: "int \<Rightarrow> int \<Rightarrow> item list \<Rightarrow> item list py_result"
where
  "resize_to_limit it wl hl = ebind (limit_request (get_width it) (get_height it) wl hl) (resize_by it)"
| "resize_by (Image oi w h) (ByWidth width) = image_resize_by_width oi w h width"
| "resize_by (Image oi w h) (ByHeight height) = image_resize_by_height oi w h height"
| "resize_by (Container oi k c xs) (ByWidth width) =
     (if width = con_width c then Inr (Container oi k c xs)
      else if con_width c = 0 then Inl ZeroDivisionError
      else let c' = c\<lparr>con_height := scale_by (con_height c) width (con_width c), con_width := width\<rparr> in
        (case k of
          FrameLayout \<Rightarrow>
            (if max_drawable_width c' \<le> 0 then Inl FrameException
             else (case xs of [] \<Rightarrow> Inl IndexError
                   | x # rest \<Rightarrow> ebind (resize_to_limit x (max_drawable_width c') (max_drawable_height c'))
                                   (\<lambda>x'. Inr (Container oi k c' (x' # rest)))))
        | _ \<Rightarrow> resize_items oi k c' xs))"
| "resize_by (Container oi k c xs) (ByHeight height) =
     (if height = con_height c then Inr (Container oi k c xs)
      else if con_height c = 0 then Inl ZeroDivisionError
      else let c' = c\<lparr>con_width := scale_by (con_width c) height (con_height c), con_height := height\<rparr> in
        (case k of
          FrameLayout \<Rightarrow>
            (if max_drawable_height c' \<le> 0 then Inl FrameException
             else (case xs of [] \<Rightarrow> Inl IndexError
                   | x # rest \<Rightarrow> ebind (resize_to_limit x (max_drawable_width c') (max_drawable_height c'))
                                   (\<lambda>x'. Inr (Container oi k c' (x' # rest)))))
        | _ \<Rightarrow> resize_items oi k c' xs))"
| "resize_items oi HorizontalLayout c xs =
     ebind (resize_each (horizontal_max_width_for_each_item c (length xs)) (horizontal_max_height_for_each_item c) xs)
       (\<lambda>ys. Inr (Container oi HorizontalLayout c ys))"
| "resize_items oi VerticalLayout c xs =
     ebind (resize_each (vertical_max_width_for_each_item c) (vertical_max_height_for_each_item c (length xs)) xs)
       (\<lambda>ys. Inr (Container oi VerticalLayout c ys))"
| "resize_items oi (GridLayout rows cols cw ch) c xs =
     (if cols = 0 then Inl ZeroDivisionError
      else if rows = 0 then Inl ZeroDivisionError
      else let cw' = grid_cell_width c cols; ch' = grid_cell_height c rows in
        ebind (resize_each cw' ch' xs) (\<lambda>ys. Inr (Container oi (GridLayout rows cols cw' ch') c ys)))"
| "resize_items oi FrameLayout c xs =
     (case xs of [] \<Rightarrow> Inr (Container oi FrameLayout c [])
      | x # rest \<Rightarrow> ebind (resize_to_limit x (max_drawable_width c) (max_drawable_height c))
                      (\<lambda>x'. Inr (Container oi FrameLayout c (x' # rest))))"
| "resize_each mw mh [] = Inr []"
| "resize_each mw mh (x # xs) =
     ebind (resize_to_limit x mw mh) (\<lambda>x'. ebind (resize_each mw mh xs) (\<lambda>xs'. Inr (x' # xs')))"

section \<open>Structure and invariant\<close>

text \<open>The shape of a tree: everything a resize must leave unchanged (identities, kinds,
  grid rows and columns, configuration but the size, children in order).\<close>

fun kind_shape :: "layout_kind \<Rightarrow> layout_kind" where
  "kind_shape (GridLayout rows cols _ _) = GridLayout rows cols 0 0"
| "kind_shape k = k"

fun skeleton :: "item \<Rightarrow> item" where
  "skeleton (Image oi _ _) = Image oi 0 0"
| "skeleton (Container oi k c xs) =
     Container oi (kind_shape k) (c\<lparr>con_width := 0, con_height := 0\<rparr>) (map skeleton xs)"

text \<open>
  The well-formedness invariant of an item tree, as the constructors set it up and every
  mutation keeps it: every image has a positive size (OpenCV refuses anything else); every
  container holds at most its capacity; a grid has non-zero rows and columns, capacity
  \<open>rows * columns\<close> (grid_container.py 17--21) and a cell size that agrees with its current
  box; a frame has capacity 1 and exactly one child (image_frame_container.py 16--22); a
  horizontal or vertical container has a positive capacity (layout_container.py 49--52).
\<close>

fun kind_struct_inv :: "layout_kind \<Rightarrow> layout_config \<Rightarrow> item list \<Rightarrow> bool" where
  "kind_struct_inv (GridLayout rows cols _ _) c xs \<longleftrightarrow>
     rows \<noteq> 0 \<and> cols \<noteq> 0 \<and> capacity c = rows * cols"
| "kind_struct_inv FrameLayout c xs \<longleftrightarrow> capacity c = 1 \<and> length xs = 1"
| "kind_struct_inv HorizontalLayout c xs \<longleftrightarrow> 0 < capacity c"
| "kind_struct_inv VerticalLayout c xs \<longleftrightarrow> 0 < capacity c"

fun grid_cells_ok :: "layout_kind \<Rightarrow> layout_config \<Rightarrow> bool" where
  "grid_cells_ok (GridLayout rows cols cw ch) c \<longleftrightarrow>
     cw = grid_cell_width c cols \<and> ch = grid_cell_height c rows"
| "grid_cells_ok _ c \<longleftrightarrow> True"

fun wf_item :: "item \<Rightarrow> bool" where
  "wf_item (Image _ w h) \<longleftrightarrow> 0 < w \<and> 0 < h"
| "wf_item (Container _ k c xs) \<longleftrightarrow>
     int (length xs) \<le> capacity c \<and> kind_struct_inv k c xs \<and> grid_cells_ok k c
     \<and> (\<forall>x \<in> set xs. wf_item x)"

section \<open>Lemmas\<close>

lemmas resize_induct = resize_to_limit_resize_by_resize_items_resize_each.induct

lemma resize_skeleton:
  "resize_to_limit it wl hl = Inr it' \<Longrightarrow> skeleton it' = skeleton it"
  "resize_by it r = Inr it' \<Longrightarrow> skeleton it' = skeleton it"
  "resize_items oi k c xs = Inr it' \<Longrightarrow> skeleton it' = skeleton (Container oi k c xs)"
  "resize_each mw mh xs = Inr ys \<Longrightarrow> map skeleton ys = map skeleton xs"
proof (induction it wl hl and it r and oi k c xs and mw mh xs arbitrary: it' and it' and it' and ys
       rule: resize_induct)
  case (1 it wl hl)
  then show ?case by (auto simp: ebind_eq_Inr)
next
  case (2 oi w h width)
  then show ?case by (auto simp: image_resize_by_width_def cv2_resize_def split: if_splits)
next
  case (3 oi w h height)
  then show ?case by (auto simp: image_resize_by_height_def cv2_resize_def split: if_splits)
next
  case (4 oi k c xs width)
  then show ?case
    by (cases k) (auto simp: Let_def ebind_eq_Inr split: if_splits list.splits)
next
  case (5 oi k c xs height)
  then show ?case
    by (cases k) (auto simp: Let_def ebind_eq_Inr split: if_splits list.splits)
qed (auto simp: Let_def ebind_eq_Inr split: if_splits list.splits)

lemma resize_items_dims:
  "resize_items oi k c xs = Inr it' \<Longrightarrow>
     get_width it' = con_width c \<and> get_height it' = con_height c \<and> item_id it' = oi"
  by (cases k) (auto simp: ebind_eq_Inr Let_def split: if_splits list.splits)

lemma resize_by_width_dims:
  assumes "resize_by it (ByWidth x) = Inr it'" "get_width it \<noteq> 0"
  shows "get_width it' = x \<and> get_height it' = scale_by (get_height it) x (get_width it)"
proof (cases it)
  case (Image oi w h)
  then show ?thesis using assms
    by (auto simp: image_resize_by_width_def cv2_resize_def split: if_splits)
next
  case (Container oi k c xs)
  then show ?thesis using assms
    by (cases k) (auto simp: Let_def ebind_eq_Inr dest!: resize_items_dims split: if_splits list.splits)
qed

lemma resize_by_height_dims:
  assumes "resize_by it (ByHeight x) = Inr it'" "get_height it \<noteq> 0"
  shows "get_height it' = x \<and> get_width it' = scale_by (get_width it) x (get_height it)"
proof (cases it)
  case (Image oi w h)
  then show ?thesis using assms
    by (auto simp: image_resize_by_height_def cv2_resize_def split: if_splits)
next
  case (Container oi k c xs)
  then show ?thesis using assms
    by (cases k) (auto simp: Let_def ebind_eq_Inr dest!: resize_items_dims split: if_splits list.splits)
qed

theorem resize_to_limit_fit_box:
  assumes "0 < get_width it" "0 < get_height it" "0 \<le> wl" "0 \<le> hl"
    and "resize_to_limit it wl hl = Inr it'"
  shows "(get_width it', get_height it') = fit_box (get_width it) (get_height it) wl hl"
proof (cases "hl * get_width it < wl * get_height it")
  case True
  with assms have r: "resize_by it (ByHeight hl) = Inr it'"
    by (simp add: limit_request_pos)
  have "get_height it' = hl \<and> get_width it' = scale_by (get_width it) hl (get_height it)"
    using resize_by_height_dims [OF r] assms(2) by simp
  with True assms(1-4) show ?thesis by (simp add: fit_box_def scale_by_div)
next
  case False
  with assms have r: "resize_by it (ByWidth wl) = Inr it'"
    by (simp add: limit_request_pos)
  have "get_width it' = wl \<and> get_height it' = scale_by (get_height it) wl (get_width it)"
    using resize_by_width_dims [OF r] assms(1) by simp
  with False assms(1-4) show ?thesis by (simp add: fit_box_def scale_by_div)
qed

lemma resize_wf:
  "resize_to_limit it wl hl = Inr it' \<Longrightarrow> wf_item it \<Longrightarrow> wf_item it'"
  "resize_by it r = Inr it' \<Longrightarrow> wf_item it \<Longrightarrow> wf_item it'"
  "resize_items oi k c xs = Inr it' \<Longrightarrow> int (length xs) \<le> capacity c \<Longrightarrow>
     kind_struct_inv k c xs \<Longrightarrow> \<forall>x \<in> set xs. wf_item x \<Longrightarrow> wf_item it'"
  "resize_each mw mh xs = Inr ys \<Longrightarrow> \<forall>x \<in> set xs. wf_item x \<Longrightarrow>
     length ys = length xs \<and> (\<forall>y \<in> set ys. wf_item y)"
proof (induction it wl hl and it r and oi k c xs and mw mh xs
       arbitrary: it' and it' and it' and ys rule: resize_induct)
  case (1 it wl hl)
  then show ?case by (auto simp: ebind_eq_Inr)
next
  case (2 oi w h width)
  then show ?case by (auto simp: image_resize_by_width_def cv2_resize_def split: if_splits)
next
  case (3 oi w h height)
  then show ?case by (auto simp: image_resize_by_height_def cv2_resize_def split: if_splits)
next
  case (4 oi k c xs width)
  then show ?case
    by (cases k) (auto simp: Let_def ebind_eq_Inr split: if_splits list.splits)
next
  case (5 oi k c xs height)
  then show ?case
    by (cases k) (auto simp: Let_def ebind_eq_Inr split: if_splits list.splits)
qed (auto simp: Let_def ebind_eq_Inr split: if_splits list.splits)

text \<open>C7: resizing an image to limits, with positive size and non-negative limits, either
  yields the image at exactly the \<open>fit_box\<close> size, or, when that size has a zero side,
  fails with OpenCV's error; it never raises anything else.\<close>

theorem image_resize_to_limit:
  assumes "0 < w" "0 < h" "0 \<le> wl" "0 \<le> hl"
  shows "resize_to_limit (Image oi w h) wl hl =
           (let (w', h') = fit_box w h wl hl in
            if 0 < w' \<and> 0 < h' then Inr (Image oi w' h') else Inl Cv2Error)"
proof (cases "hl * w < wl * h")
  case True
  then show ?thesis using assms
    by (auto simp: limit_request_pos fit_box_def image_resize_by_height_def cv2_resize_def scale_by_div)
next
  case False
  then show ?thesis using assms
    by (auto simp: limit_request_pos fit_box_def image_resize_by_width_def cv2_resize_def scale_by_div)
qed

text \<open>Resizing an item to limits equal to its own size is a no-op: the very same item
  comes back (the no-op guard of every \<open>resize_by_*\<close>).\<close>

theorem resize_to_limit_own_size:
  "0 < get_width it \<Longrightarrow> 0 < get_height it \<Longrightarrow>
     resize_to_limit it (get_width it) (get_height it) = Inr it"
  by (cases it) (auto simp: limit_request_pos image_resize_by_width_def mult.commute)

text \<open>C10: resizing any item (image, frame or layout container) by width sets its width
  to the new width and its height to the old height scaled by the width ratio, rounded down,
  so the aspect ratio is kept up to one pixel.\<close>

theorem resize_by_width_aspect:
  assumes "resize_by it (ByWidth x) = Inr it'" "0 < get_width it" "0 \<le> get_height it" "0 \<le> x"
  shows "get_width it' = x \<and> get_height it' = get_height it * x div get_width it \<and>
         get_height it' * get_width it \<le> get_height it * get_width it' \<and>
         get_height it * get_width it' < (get_height it' + 1) * get_width it"
proof -
  have "get_width it' = x \<and> get_height it' = scale_by (get_height it) x (get_width it)"
    using resize_by_width_dims [OF assms(1)] assms(2) by simp
  then have "get_width it' = x" "get_height it' = get_height it * x div get_width it"
    using assms(2-4) by (simp_all add: scale_by_div)
  then show ?thesis using div_mult_bounds [OF assms(2), of "get_height it * x"] by simp
qed

lemma resize_each_fits:
  "resize_each mw mh xs = Inr ys \<Longrightarrow> \<forall>x \<in> set xs. 0 < get_width x \<and> 0 < get_height x \<Longrightarrow>
     0 \<le> mw \<Longrightarrow> 0 \<le> mh \<Longrightarrow>
     length ys = length xs \<and>
     (\<forall>y \<in> set ys. 0 \<le> get_width y \<and> get_width y \<le> mw \<and> 0 \<le> get_height y \<and> get_height y \<le> mh)"
proof (induction xs arbitrary: ys)
  case Nil
  then show ?case by simp
next
  case (Cons x xs)
  then obtain x' ys' where x': "resize_to_limit x mw mh = Inr x'" and ys': "resize_each mw mh xs = Inr ys'"
    and ys: "ys = x' # ys'"
    by (auto simp: ebind_eq_Inr simp del: resize_to_limit.simps)
  have "(get_width x', get_height x') = fit_box (get_width x) (get_height x) mw mh"
    using Cons.prems by (intro resize_to_limit_fit_box [OF _ _ _ _ x']) auto
  then have "0 \<le> get_width x' \<and> get_width x' \<le> mw \<and> 0 \<le> get_height x' \<and> get_height x' \<le> mh"
    using fit_box_bounds [of "get_width x" "get_height x" mw mh] Cons.prems by (simp add: prod_eq_iff)
  with Cons.IH [OF ys'] Cons.prems ys show ?case by simp
qed

text \<open>C1: \<open>resize_to_limit\<close> implements its contract on every kind of item: from a
  positive size into non-negative limits, a successful resize gives exactly the
  \<open>fit_box\<close> size, which lies within both limits and reaches one of them.\<close>

theorem resize_to_limit_contract:
  assumes "0 < get_width it" "0 < get_height it" "0 \<le> wl" "0 \<le> hl"
    and "resize_to_limit it wl hl = Inr it'"
  shows "(get_width it', get_height it') = fit_box (get_width it) (get_height it) wl hl
         \<and> 0 \<le> get_width it' \<and> get_width it' \<le> wl \<and> 0 \<le> get_height it' \<and> get_height it' \<le> hl
         \<and> (get_width it' = wl \<or> get_height it' = hl)"
proof -
  have fb: "(get_width it', get_height it') = fit_box (get_width it) (get_height it) wl hl"
    using resize_to_limit_fit_box [OF assms] .
  then show ?thesis
    using fit_box_bounds [OF assms(1-4)] fit_box_max [of "get_width it" "get_height it" wl hl]
    by (simp add: prod_eq_iff)
qed

theorem resize_to_limit_contract_witness:
  "resize_to_limit (Image 1 200 100) 150 100 = Inr (Image 1 150 75) \<and>
   get_width (Image 1 150 75) \<le> 150 \<and> get_height (Image 1 150 75) \<le> 100"
proof -
  have r: "resize_to_limit (Image 1 200 100) 150 100 = Inr (Image 1 150 75)"
    by (simp add: eval_simps)
  have "0 < get_width (Image 1 200 100)" "0 < get_height (Image 1 200 100)" by simp_all
  from resize_to_limit_contract [OF this _ _ r] show ?thesis using r by simp
qed

text \<open>C6: resizing an item to limits keeps the well-formedness invariant of the whole tree
  (capacities respected, grid cells recomputed for the new box, images of positive size)
  and leaves its structure (identities, kinds, children) unchanged.\<close>

theorem resize_keeps_invariant:
  assumes "wf_item it" "resize_to_limit it wl hl = Inr it'"
  shows "wf_item it' \<and> skeleton it' = skeleton it"
  using resize_wf(1) [OF assms(2,1)] resize_skeleton(1) [OF assms(2)] by simp

theorem resize_keeps_invariant_witness:
  "wf_item (Container 1 FrameLayout \<lparr>con_width = 200, con_height = 100, capacity = 1, padding_top = 0,
       padding_right = 0, padding_bottom = 0, padding_left = 0, background_color = [235, 235, 235],
       gutter_horizontal = 0, gutter_vertical = 0, min_content_width = 50, min_content_height = 50\<rparr>
       [Image 2 200 100]) \<and> resize_to_limit (Container 1 FrameLayout \<lparr>con_width = 200, con_height = 100, capacity = 1, padding_top = 0,
       padding_right = 0, padding_bottom = 0, padding_left = 0, background_color = [235, 235, 235],
       gutter_horizontal = 0, gutter_vertical = 0, min_content_width = 50, min_content_height = 50\<rparr>
       [Image 2 200 100]) 100 100 = Inr (Container 1 FrameLayout \<lparr>con_width = 100, con_height = 50, capacity = 1, padding_top = 0,
       padding_right = 0, padding_bottom = 0, padding_left = 0, background_color = [235, 235, 235],
       gutter_horizontal = 0, gutter_vertical = 0, min_content_width = 50, min_content_height = 50\<rparr>
       [Image 2 100 50]) \<and> wf_item (Container 1 FrameLayout \<lparr>con_width = 100, con_height = 50, capacity = 1, padding_top = 0,
       padding_right = 0, padding_bottom = 0, padding_left = 0, background_color = [235, 235, 235],
       gutter_horizontal = 0, gutter_vertical = 0, min_content_width = 50, min_content_height = 50\<rparr>
       [Image 2 100 50]) \<and> skeleton (Container 1 FrameLayout \<lparr>con_width = 100, con_height = 50, capacity = 1, padding_top = 0,
       padding_right = 0, padding_bottom = 0, padding_left = 0, background_color = [235, 235, 235],
       gutter_horizontal = 0, gutter_vertical = 0, min_content_width = 50, min_content_height = 50\<rparr>
       [Image 2 100 50]) = skeleton (Container 1 FrameLayout \<lparr>con_width = 200, con_height = 100, capacity = 1, padding_top = 0,
       padding_right = 0, padding_bottom = 0, padding_left = 0, background_color = [235, 235, 235],
       gutter_horizontal = 0, gutter_vertical = 0, min_content_width = 50, min_content_height = 50\<rparr>
       [Image 2 200 100])"
proof -
  have w: "wf_item (Container 1 FrameLayout \<lparr>con_width = 200, con_height = 100, capacity = 1, padding_top = 0,
       padding_right = 0, padding_bottom = 0, padding_left = 0, background_color = [235, 235, 235],
       gutter_horizontal = 0, gutter_vertical = 0, min_content_width = 50, min_content_height = 50\<rparr>
       [Image 2 200 100])" by simp
  have r: "resize_to_limit (Container 1 FrameLayout \<lparr>con_width = 200, con_height = 100, capacity = 1, padding_top = 0,
       padding_right = 0, padding_bottom = 0, padding_left = 0, background_color = [235, 235, 235],
       gutter_horizontal = 0, gutter_vertical = 0, min_content_width = 50, min_content_height = 50\<rparr>
       [Image 2 200 100]) 100 100 = Inr (Container 1 FrameLayout \<lparr>con_width = 100, con_height = 50, capacity = 1, padding_top = 0,
       padding_right = 0, padding_bottom = 0, padding_left = 0, background_color = [235, 235, 235],
       gutter_horizontal = 0, gutter_vertical = 0, min_content_width = 50, min_content_height = 50\<rparr>
       [Image 2 100 50])"
    by (simp add: eval_simps max_drawable_width_def max_drawable_height_def)
  show ?thesis using resize_keeps_invariant [OF w r] w r by blast
qed

theorem image_resize_to_limit_witness:
  "resize_to_limit (Image 1 200 100) 150 100 = Inr (Image 1 150 75)"
  using image_resize_to_limit [of 200 100 150 100 1] by (simp add: fit_box_def)

theorem resize_by_width_aspect_witness:
  "resize_by (Container 1 FrameLayout \<lparr>con_width = 200, con_height = 100, capacity = 1, padding_top = 0,
       padding_right = 0, padding_bottom = 0, padding_left = 0, background_color = [235, 235, 235],
       gutter_horizontal = 0, gutter_vertical = 0, min_content_width = 50, min_content_height = 50\<rparr>
       [Image 2 200 100]) (ByWidth 100) = Inr (Container 1 FrameLayout \<lparr>con_width = 100, con_height = 50, capacity = 1, padding_top = 0,
       padding_right = 0, padding_bottom = 0, padding_left = 0, background_color = [235, 235, 235],
       gutter_horizontal = 0, gutter_vertical = 0, min_content_width = 50, min_content_height = 50\<rparr>
       [Image 2 100 50]) \<and> get_width (Container 1 FrameLayout \<lparr>con_width = 100, con_height = 50, capacity = 1, padding_top = 0,
       padding_right = 0, padding_bottom = 0, padding_left = 0, background_color = [235, 235, 235],
       gutter_horizontal = 0, gutter_vertical = 0, min_content_width = 50, min_content_height = 50\<rparr>
       [Image 2 100 50]) = 100 \<and> get_height (Container 1 FrameLayout \<lparr>con_width = 100, con_height = 50, capacity = 1, padding_top = 0,
       padding_right = 0, padding_bottom = 0, padding_left = 0, background_color = [235, 235, 235],
       gutter_horizontal = 0, gutter_vertical = 0, min_content_width = 50, min_content_height = 50\<rparr>
       [Image 2 100 50]) = 100 * 100 div 200
   \<and> get_height (Container 1 FrameLayout \<lparr>con_width = 100, con_height = 50, capacity = 1, padding_top = 0,
       padding_right = 0, padding_bottom = 0, padding_left = 0, background_color = [235, 235, 235],
       gutter_horizontal = 0, gutter_vertical = 0, min_content_width = 50, min_content_height = 50\<rparr>
       [Image 2 100 50]) * get_width (Container 1 FrameLayout \<lparr>con_width = 200, con_height = 100, capacity = 1, padding_top = 0,
       padding_right = 0, padding_bottom = 0, padding_left = 0, background_color = [235, 235, 235],
       gutter_horizontal = 0, gutter_vertical = 0, min_content_width = 50, min_content_height = 50\<rparr>
       [Image 2 200 100]) \<le> get_height (Container 1 FrameLayout \<lparr>con_width = 200, con_height = 100, capacity = 1, padding_top = 0,
       padding_right = 0, padding_bottom = 0, padding_left = 0, background_color = [235, 235, 235],
       gutter_horizontal = 0, gutter_vertical = 0, min_content_width = 50, min_content_height = 50\<rparr>
       [Image 2 200 100]) * get_width (Container 1 FrameLayout \<lparr>con_width = 100, con_height = 50, capacity = 1, padding_top = 0,
       padding_right = 0, padding_bottom = 0, padding_left = 0, background_color = [235, 235, 235],
       gutter_horizontal = 0, gutter_vertical = 0, min_content_width = 50, min_content_height = 50\<rparr>
       [Image 2 100 50])
   \<and> get_height (Container 1 FrameLayout \<lparr>con_width = 200, con_height = 100, capacity = 1, padding_top = 0,
       padding_right = 0, padding_bottom = 0, padding_left = 0, background_color = [235, 235, 235],
       gutter_horizontal = 0, gutter_vertical = 0, min_content_width = 50, min_content_height = 50\<rparr>
       [Image 2 200 100]) * get_width (Container 1 FrameLayout \<lparr>con_width = 100, con_height = 50, capacity = 1, padding_top = 0,
       padding_right = 0, padding_bottom = 0, padding_left = 0, background_color = [235, 235, 235],
       gutter_horizontal = 0, gutter_vertical = 0, min_content_width = 50, min_content_height = 50\<rparr>
       [Image 2 100 50]) < (get_height (Container 1 FrameLayout \<lparr>con_width = 100, con_height = 50, capacity = 1, padding_top = 0,
       padding_right = 0, padding_bottom = 0, padding_left = 0, background_color = [235, 235, 235],
       gutter_horizontal = 0, gutter_vertical = 0, min_content_width = 50, min_content_height = 50\<rparr>
       [Image 2 100 50]) + 1) * get_width (Container 1 FrameLayout \<lparr>con_width = 200, con_height = 100, capacity = 1, padding_top = 0,
       padding_right = 0, padding_bottom = 0, padding_left = 0, background_color = [235, 235, 235],
       gutter_horizontal = 0, gutter_vertical = 0, min_content_width = 50, min_content_height = 50\<rparr>
       [Image 2 200 100])"
proof -
  have r: "resize_by (Container 1 FrameLayout \<lparr>con_width = 200, con_height = 100, capacity = 1, padding_top = 0,
       padding_right = 0, padding_bottom = 0, padding_left = 0, background_color = [235, 235, 235],
       gutter_horizontal = 0, gutter_vertical = 0, min_content_width = 50, min_content_height = 50\<rparr>
       [Image 2 200 100]) (ByWidth 100) = Inr (Container 1 FrameLayout \<lparr>con_width = 100, con_height = 50, capacity = 1, padding_top = 0,
       padding_right = 0, padding_bottom = 0, padding_left = 0, background_color = [235, 235, 235],
       gutter_horizontal = 0, gutter_vertical = 0, min_content_width = 50, min_content_height = 50\<rparr>
       [Image 2 100 50])"
    by (simp add: eval_simps max_drawable_width_def max_drawable_height_def)
  have "0 < get_width (Container 1 FrameLayout \<lparr>con_width = 200, con_height = 100, capacity = 1, padding_top = 0,
       padding_right = 0, padding_bottom = 0, padding_left = 0, background_color = [235, 235, 235],
       gutter_horizontal = 0, gutter_vertical = 0, min_content_width = 50, min_content_height = 50\<rparr>
       [Image 2 200 100])" "0 \<le> get_height (Container 1 FrameLayout \<lparr>con_width = 200, con_height = 100, capacity = 1, padding_top = 0,
       padding_right = 0, padding_bottom = 0, padding_left = 0, background_color = [235, 235, 235],
       gutter_horizontal = 0, gutter_vertical = 0, min_content_width = 50, min_content_height = 50\<rparr>
       [Image 2 200 100])" "(0::int) \<le> 100" by simp_all
  from resize_by_width_aspect [OF r this] show ?thesis using r by simp
qed

theorem resize_to_limit_own_size_witness:
  "resize_to_limit (Image 1 200 100) 200 100 = Inr (Image 1 200 100)"
  using resize_to_limit_own_size [of "Image 1 200 100"] by simp

end
