(* ===== verification/Container.thy ===== *)
theory Container
  imports Resize
begin

text \<open>
  The public interface of a layout container (src/src/layout/layout_container.py, lines
  63--114) and the factories that build containers (src/src/layout_containers_factory.py with
  the subclass constructors). A container is the \<open>Container\<close> constructor of \<open>item\<close>;
  every operation takes it and returns it updated, or raises.

  \<open>can_next_item_fit\<close> is modelled as the code does it: it appends the candidate, runs the
  strategy's feasibility check, and removes the candidate again with \<open>list.remove\<close>, which
  deletes the \<^emph>\<open>first\<close> child identical to it. The lemmas show that the probe leaves the
  children unchanged when the candidate is not already a child, and that it moves a child
  that is already there to the end otherwise.
\<close>

section \<open>Construction\<close>

text \<open>\<open>VerticalContainer.__init__\<close> (vertical_container.py 8--12) through
  \<open>create_vertical_container\<close> (layout_containers_factory.py 15--21).\<close>

definition create_vertical_container ::
  "oid \<Rightarrow> int \<Rightarrow> int \<Rightarrow> int \<Rightarrow> int list \<Rightarrow> int list \<Rightarrow> int list \<Rightarrow> int \<Rightarrow> int \<Rightarrow> item py_result" where
  "create_vertical_container oi w h cap padding bg gutters mcw mch =
     ebind (layout_container_init w h cap padding bg gutters mcw mch)
       (\<lambda>c. Inr (Container oi VerticalLayout c []))"

text \<open>\<open>create_horizontal_container\<close> (layout_containers_factory.py 6--12); the constructor
  of \<open>HorizontalContainer\<close> is not in the sources and is modelled like the vertical one.\<close>

definition create_horizontal_container ::
  "oid \<Rightarrow> int \<Rightarrow> int \<Rightarrow> int \<Rightarrow> int list \<Rightarrow> int list \<Rightarrow> int list \<Rightarrow> int \<Rightarrow> int \<Rightarrow> item py_result" where
  "create_horizontal_container oi w h cap padding bg gutters mcw mch =
     ebind (layout_container_init w h cap padding bg gutters mcw mch)
       (\<lambda>c. Inr (Container oi HorizontalLayout c []))"

text \<open>\<open>GridContainer.__init__\<close> (grid_container.py 10--25): capacity \<open>rows * columns\<close>
  (overriding the clamp of the base constructor), then \<open>resize_items\<close> to compute the cell
  size, which raises on zero rows or columns.\<close>

definition create_grid_container ::
  "oid \<Rightarrow> int \<Rightarrow> int \<Rightarrow> int \<Rightarrow> int \<Rightarrow> int list \<Rightarrow> int list \<Rightarrow> int list \<Rightarrow> int \<Rightarrow> int \<Rightarrow> item py_result" where
  "create_grid_container oi w h rows cols padding bg gutters mcw mch =
     ebind (layout_container_init w h (rows * cols) padding bg gutters mcw mch)
       (\<lambda>c. resize_items oi (GridLayout rows cols 0 0) (c\<lparr>capacity := rows * cols\<rparr>) [])"

text \<open>\<open>ImageFrameContainer.__init__\<close> (image_frame_container.py 16--22): a \<open>1 \<times> 1\<close>
  container of capacity 1 without gutters, holding the image, whose size is the image's plus
  the padding.\<close>

definition create_image_frame_container ::
  "oid \<Rightarrow> item \<Rightarrow> int list \<Rightarrow> int list \<Rightarrow> int \<Rightarrow> int \<Rightarrow> item py_result" where
  "create_image_frame_container oi img padding bg mcw mch =
     ebind (layout_container_init 1 1 1 padding bg [0, 0] mcw mch)
       (\<lambda>c. Inr (Container oi FrameLayout
                  (c\<lparr>con_width := get_width img + padding_left c + padding_right c,
                     con_height := get_height img + padding_top c + padding_bottom c\<rparr>) [img]))"

section \<open>Operations\<close>

text \<open>The body of \<open>can_next_item_fit\<close> (layout_container.py 87--114) on the container's
  state: the capacity test, then append, check, and the \<open>finally\<close> removal; a
  \<open>LayoutException\<close> of the check is caught as \<open>False\<close>, any other exception propagates
  after the removal.\<close>

definition probe_next_item ::
  "layout_kind \<Rightarrow> layout_config \<Rightarrow> item list \<Rightarrow> item \<Rightarrow> (bool \<times> item list) py_result" where
  "probe_next_item k c xs it =
     (if capacity c \<le> int (length xs) then Inr (False, xs)
      else let probe = xs @ [it]; r = check_dimensions_when_adding_item k c probe in
        ebind (py_remove item_id (item_id it) probe)
          (\<lambda>xs'. case r of Inr _ \<Rightarrow> Inr (True, xs')
                        | Inl LayoutException \<Rightarrow> Inr (False, xs')
                        | Inl e \<Rightarrow> Inl e))"

definition can_next_item_fit :: "item \<Rightarrow> item \<Rightarrow> (bool \<times> item) py_result" where
  "can_next_item_fit con it =
     (case con of Image _ _ _ \<Rightarrow> Inl AttributeError
      | Container oi k c xs \<Rightarrow> ebind (probe_next_item k c xs it) (\<lambda>(b, xs'). Inr (b, Container oi k c xs')))"

text \<open>\<open>add_item\<close> (layout_container.py 63--74): append and re-fit all children if the probe
  says the item fits, else raise. The frame overrides it with a no-op
  (image_frame_container.py 76--79).\<close>

definition add_item :: "item \<Rightarrow> item \<Rightarrow> item py_result" where
  "add_item con it =
     (case con of Image _ _ _ \<Rightarrow> Inl AttributeError
      | Container oi k c xs \<Rightarrow>
          if k = FrameLayout then Inr con
          else ebind (probe_next_item k c xs it)
                 (\<lambda>(ok, xs'). if ok then resize_items oi k c (xs' @ [it]) else Inl LayoutException))"

text \<open>\<open>remove_item\<close> (layout_container.py 76--85): \<open>list.remove\<close> (raising
  \<open>ValueError\<close> when absent), then re-fit; a no-op for the frame
  (image_frame_container.py 81--83).\<close>

definition remove_item :: "item \<Rightarrow> item \<Rightarrow> item py_result" where
  "remove_item con it =
     (case con of Image _ _ _ \<Rightarrow> Inl AttributeError
      | Container oi k c xs \<Rightarrow>
          if k = FrameLayout then Inr con
          else ebind (py_remove item_id (item_id it) xs) (\<lambda>xs'. resize_items oi k c xs'))"

section \<open>Sequences of operations\<close>

text \<open>The mutations a caller can issue on one container, in order.\<close>

datatype container_op = AddItem item | RemoveItem item | ResizeByWidth int | ResizeByHeight int

fun apply_op :: "item \<Rightarrow> container_op \<Rightarrow> item py_result" where
  "apply_op con (AddItem it) = add_item con it"
| "apply_op con (RemoveItem it) = remove_item con it"
| "apply_op con (ResizeByWidth w) = resize_by con (ByWidth w)"
| "apply_op con (ResizeByHeight h) = resize_by con (ByHeight h)"

fun apply_ops :: "item \<Rightarrow> container_op list \<Rightarrow> item py_result" where
  "apply_ops con [] = Inr con"
| "apply_ops con (op # ops) = ebind (apply_op con op) (\<lambda>con'. apply_ops con' ops)"

text \<open>The new child an operation brings in, whose own invariant the caller must provide.\<close>

fun op_item_wf :: "container_op \<Rightarrow> bool" where
  "op_item_wf (AddItem it) = wf_item it"
| "op_item_wf _ = True"


section \<open>Lemmas\<close>

declare create_vertical_container_def [eval_simps] create_horizontal_container_def [eval_simps]
  create_grid_container_def [eval_simps] create_image_frame_container_def [eval_simps]
  probe_next_item_def [eval_simps] can_next_item_fit_def [eval_simps] add_item_def [eval_simps]
  remove_item_def [eval_simps]

lemma check_dimensions_non_frame:
  "k \<noteq> FrameLayout \<Longrightarrow>
     check_dimensions_when_adding_item k c (xs @ [it]) = Inr () \<or>
     check_dimensions_when_adding_item k c (xs @ [it]) = Inl LayoutException"
  by (cases k) (auto simp: horizontal_check_dimensions_def vertical_check_dimensions_def
                     grid_check_dimensions_def Let_def split: item.splits prod.splits)

lemma probe_full: "capacity c \<le> int (length xs) \<Longrightarrow> probe_next_item k c xs it = Inr (False, xs)"
  by (simp add: probe_next_item_def)

lemma probe_fresh:
  assumes "item_id it \<notin> item_id ` set xs" "k \<noteq> FrameLayout"
  shows "probe_next_item k c xs it =
           Inr (int (length xs) < capacity c \<and> check_dimensions_when_adding_item k c (xs @ [it]) = Inr (), xs)"
  using check_dimensions_non_frame [OF assms(2), of c xs it] assms(1)
  by (auto simp: probe_next_item_def py_remove_notin)

lemma probe_present:
  assumes "item_id it \<notin> item_id ` set ys" "item_id y = item_id it" "k \<noteq> FrameLayout"
    and "int (length (ys @ y # zs)) < capacity c"
  shows "probe_next_item k c (ys @ y # zs) it =
           Inr (check_dimensions_when_adding_item k c (ys @ y # zs @ [it]) = Inr (), ys @ zs @ [it])"
proof -
  have r: "py_remove item_id (item_id it) (ys @ y # zs @ [it]) = Inr (ys @ zs @ [it])"
    using assms(1,2) by (rule py_remove_first)
  show ?thesis
    using check_dimensions_non_frame [OF assms(3), of c "ys @ y # zs" it] assms(4) r
    by (auto simp: probe_next_item_def)
qed

lemma probe_next_item_open:
  assumes "int (length xs) < capacity c" "py_remove item_id (item_id it) (xs @ [it]) = Inr ys"
  shows "probe_next_item k c xs it =
           (case check_dimensions_when_adding_item k c (xs @ [it]) of
              Inr _ \<Rightarrow> Inr (True, ys) | Inl LayoutException \<Rightarrow> Inr (False, ys) | Inl e \<Rightarrow> Inl e)"
  using assms by (simp add: probe_next_item_def)

lemma probe_case_True:
  assumes "(case r of Inr _ \<Rightarrow> Inr (True, ys) | Inl LayoutException \<Rightarrow> Inr (False, ys)
            | Inl e \<Rightarrow> Inl e) = (Inr (True, zs) :: (bool \<times> item list) py_result)"
  shows "zs = ys \<and> r = Inr ()"
proof (cases r)
  case (Inl e)
  then show ?thesis using assms by (cases e) simp_all
next
  case (Inr u)
  then show ?thesis using assms by simp
qed

lemma probe_True:
  assumes "probe_next_item k c xs it = Inr (True, xs')"
  shows "int (length xs) < capacity c \<and> length xs' = length xs \<and> set xs' \<subseteq> insert it (set xs)"
proof -
  have nf: "int (length xs) < capacity c"
    using assms by (cases "capacity c \<le> int (length xs)") (auto simp: probe_next_item_def)
  obtain ys where ys: "py_remove item_id (item_id it) (xs @ [it]) = Inr ys"
    using py_remove_Inl [of item_id "item_id it" "xs @ [it]"] by (cases "py_remove item_id (item_id it) (xs @ [it])") auto
  have "xs' = ys"
    using probe_case_True assms probe_next_item_open [OF nf ys] by metis
  with nf ys show ?thesis using py_remove_Inr_length py_remove_subset by fastforce
qed

lemma probe_case_any:
  assumes "(case r of Inr _ \<Rightarrow> Inr (True, ys) | Inl LayoutException \<Rightarrow> Inr (False, ys)
            | Inl e \<Rightarrow> Inl e) = (Inr (b, zs) :: (bool \<times> item list) py_result)"
  shows "zs = ys"
proof (cases r)
  case (Inl e)
  then show ?thesis using assms by (cases e) simp_all
next
  case (Inr u)
  then show ?thesis using assms by simp
qed

lemma probe_shape:
  assumes "probe_next_item k c xs it = Inr (b, xs')"
  shows "length xs' = length xs \<and> set xs' \<subseteq> insert it (set xs)"
proof (cases "capacity c \<le> int (length xs)")
  case True
  then show ?thesis using assms by (auto simp: probe_next_item_def)
next
  case False
  obtain ys where ys: "py_remove item_id (item_id it) (xs @ [it]) = Inr ys"
    using py_remove_Inl [of item_id "item_id it" "xs @ [it]"] by (cases "py_remove item_id (item_id it) (xs @ [it])") auto
  have "xs' = ys"
    using probe_case_any assms probe_next_item_open [OF _ ys] False by (metis not_le)
  with ys show ?thesis using py_remove_Inr_length py_remove_subset by fastforce
qed

lemma can_next_item_fit_wf:
  assumes "can_next_item_fit con it = Inr (b, con')" "wf_item con" "wf_item it"
  shows "wf_item con' \<and> item_id con' = item_id con"
proof (cases con)
  case (Image oi w h)
  then show ?thesis using assms by (simp add: can_next_item_fit_def)
next
  case (Container oi k c xs)
  then obtain xs' where p: "probe_next_item k c xs it = Inr (b, xs')" and c': "con' = Container oi k c xs'"
    using assms(1) by (auto simp: can_next_item_fit_def ebind_eq_Inr)
  have "kind_struct_inv k c xs'" using probe_shape [OF p] assms(2) Container by (cases k) auto
  then show ?thesis using probe_shape [OF p] assms(2,3) Container c' by auto
qed

lemma add_item_children:
  assumes "add_item con it = Inr con'" "wf_item con"
  shows "\<exists>oi k c ys. con' = Container oi k c ys \<and> ys \<noteq> [] \<and> item_id con' = item_id con"
proof (cases con)
  case (Image oi w h)
  then show ?thesis using assms by (simp add: add_item_def)
next
  case (Container oi k c xs)
  show ?thesis
  proof (cases "k = FrameLayout")
    case True
    then show ?thesis using assms Container by (auto simp: add_item_def)
  next
    case False
    then obtain xs' where r: "resize_items oi k c (xs' @ [it]) = Inr con'"
      using assms(1) Container by (auto simp: add_item_def ebind_eq_Inr split: if_splits)
    have "skeleton con' = skeleton (Container oi k c (xs' @ [it]))" by (rule resize_skeleton(3) [OF r])
    then show ?thesis using Container by (cases con') auto
  qed
qed

lemma add_item_wf:
  assumes "wf_item con" "wf_item it" "add_item con it = Inr con'"
  shows "wf_item con'"
proof (cases con)
  case (Image oi w h)
  then show ?thesis using assms by (simp add: add_item_def)
next
  case (Container oi k c xs)
  show ?thesis
  proof (cases "k = FrameLayout")
    case True
    then have "con' = con" using assms(3) Container by (simp add: add_item_def)
    with assms(1) show ?thesis by simp
  next
    case False
    then obtain xs' where p: "probe_next_item k c xs it = Inr (True, xs')"
      and r: "resize_items oi k c (xs' @ [it]) = Inr con'"
      using assms(3) Container by (auto simp: add_item_def ebind_eq_Inr split: if_splits)
    have "int (length (xs' @ [it])) \<le> capacity c" "\<forall>x \<in> set (xs' @ [it]). wf_item x"
      using probe_True [OF p] assms(1,2) Container by auto
    moreover have "kind_struct_inv k c (xs' @ [it])"
      using assms(1) Container False by (cases k) auto
    ultimately show ?thesis using resize_wf(3) [OF r] by blast
  qed
qed

lemma remove_item_wf:
  assumes "wf_item con" "remove_item con it = Inr con'"
  shows "wf_item con'"
proof (cases con)
  case (Image oi w h)
  then show ?thesis using assms by (simp add: remove_item_def)
next
  case (Container oi k c xs)
  show ?thesis
  proof (cases "k = FrameLayout")
    case True
    then have "con' = con" using assms(2) Container by (simp add: remove_item_def)
    with assms(1) show ?thesis by simp
  next
    case False
    then obtain xs' where p: "py_remove item_id (item_id it) xs = Inr xs'"
      and r: "resize_items oi k c xs' = Inr con'"
      using assms(2) Container by (auto simp: remove_item_def ebind_eq_Inr)
    have "int (length xs') \<le> capacity c" "\<forall>x \<in> set xs'. wf_item x"
      using py_remove_Inr_length [OF p] py_remove_subset [OF p] assms(1) Container by auto
    moreover have "kind_struct_inv k c xs'"
      using assms(1) Container False by (cases k) auto
    ultimately show ?thesis using resize_wf(3) [OF r] by blast
  qed
qed

lemma apply_op_wf:
  "wf_item con \<Longrightarrow> op_item_wf op \<Longrightarrow> apply_op con op = Inr con' \<Longrightarrow> wf_item con'"
  by (cases op) (auto intro: add_item_wf remove_item_wf resize_wf(2))

text \<open>C4: for every sequence of \<open>add_item\<close>, \<open>remove_item\<close> and resize calls on a
  well-formed container (every added item well-formed), a container that the run returns holds
  at most its capacity of children.\<close>

theorem apply_ops_capacity:
  assumes "wf_item con" "list_all op_item_wf ops" "apply_ops con ops = Inr (Container oi k c xs)"
  shows "int (length xs) \<le> capacity c"
proof -
  have "wf_item con'" if "wf_item con" "list_all op_item_wf ops" "apply_ops con ops = Inr con'" for con'
    using that
  proof (induction ops arbitrary: con)
    case Nil
    then show ?case by simp
  next
    case (Cons op ops)
    then show ?case by (auto simp: ebind_eq_Inr intro: apply_op_wf)
  qed
  then show ?thesis using assms by fastforce
qed

theorem apply_ops_capacity_witness:
  "wf_item (Container 1 VerticalLayout \<lparr>con_width = 300, con_height = 200, capacity = 2, padding_top = 0, padding_right = 0,
       padding_bottom = 0, padding_left = 0, background_color = [255, 255, 255],
       gutter_horizontal = 0, gutter_vertical = 0, min_content_width = 50, min_content_height = 50\<rparr> []) \<and> list_all op_item_wf [AddItem (Image 2 100 100), AddItem (Image 3 100 100), RemoveItem (Image 2 0 0),
              AddItem (Image 4 50 100), ResizeByWidth 150]
   \<and> apply_ops (Container 1 VerticalLayout \<lparr>con_width = 300, con_height = 200, capacity = 2, padding_top = 0, padding_right = 0,
       padding_bottom = 0, padding_left = 0, background_color = [255, 255, 255],
       gutter_horizontal = 0, gutter_vertical = 0, min_content_width = 50, min_content_height = 50\<rparr> []) [AddItem (Image 2 100 100), AddItem (Image 3 100 100), RemoveItem (Image 2 0 0),
              AddItem (Image 4 50 100), ResizeByWidth 150]
       = Inr (Container 1 VerticalLayout \<lparr>con_width = 150, con_height = 100, capacity = 2, padding_top = 0, padding_right = 0,
       padding_bottom = 0, padding_left = 0, background_color = [255, 255, 255],
       gutter_horizontal = 0, gutter_vertical = 0, min_content_width = 50, min_content_height = 50\<rparr> [Image 3 50 50, Image 4 25 50])
   \<and> int (length [Image 3 50 50, Image 4 25 50]) \<le> capacity \<lparr>con_width = 150, con_height = 100, capacity = 2, padding_top = 0, padding_right = 0,
       padding_bottom = 0, padding_left = 0, background_color = [255, 255, 255],
       gutter_horizontal = 0, gutter_vertical = 0, min_content_width = 50, min_content_height = 50\<rparr>"
proof -
  have w: "wf_item (Container 1 VerticalLayout \<lparr>con_width = 300, con_height = 200, capacity = 2, padding_top = 0, padding_right = 0,
       padding_bottom = 0, padding_left = 0, background_color = [255, 255, 255],
       gutter_horizontal = 0, gutter_vertical = 0, min_content_width = 50, min_content_height = 50\<rparr> [])" by simp
  have o: "list_all op_item_wf [AddItem (Image 2 100 100), AddItem (Image 3 100 100), RemoveItem (Image 2 0 0),
              AddItem (Image 4 50 100), ResizeByWidth 150]" by simp
  have r: "apply_ops (Container 1 VerticalLayout \<lparr>con_width = 300, con_height = 200, capacity = 2, padding_top = 0, padding_right = 0,
       padding_bottom = 0, padding_left = 0, background_color = [255, 255, 255],
       gutter_horizontal = 0, gutter_vertical = 0, min_content_width = 50, min_content_height = 50\<rparr> []) [AddItem (Image 2 100 100), AddItem (Image 3 100 100), RemoveItem (Image 2 0 0),
              AddItem (Image 4 50 100), ResizeByWidth 150]
       = Inr (Container 1 VerticalLayout \<lparr>con_width = 150, con_height = 100, capacity = 2, padding_top = 0, padding_right = 0,
       padding_bottom = 0, padding_left = 0, background_color = [255, 255, 255],
       gutter_horizontal = 0, gutter_vertical = 0, min_content_width = 50, min_content_height = 50\<rparr> [Image 3 50 50, Image 4 25 50])"
    by (simp add: eval_simps vertical_check_dimensions_def vertical_max_width_for_each_item_def
                  vertical_max_height_for_each_item_def max_drawable_width_def max_drawable_height_def)
  show ?thesis using apply_ops_capacity [OF w o r] w o r by blast
qed

text \<open>C2: \<open>can_next_item_fit\<close> on a container that holds its capacity answers
  \<open>False\<close> and leaves the container unchanged.\<close>

theorem can_next_item_fit_full:
  assumes "capacity c \<le> int (length xs)"
  shows "can_next_item_fit (Container oi k c xs) it = Inr (False, Container oi k c xs)"
  using probe_full [OF assms] by (simp add: can_next_item_fit_def)

theorem can_next_item_fit_full_witness:
  "can_next_item_fit (Container 1 VerticalLayout \<lparr>con_width = 300, con_height = 100, capacity = 1, padding_top = 0, padding_right = 0,
       padding_bottom = 0, padding_left = 0, background_color = [255, 255, 255],
       gutter_horizontal = 0, gutter_vertical = 0, min_content_width = 50, min_content_height = 50\<rparr> [Image 2 100 100]) (Image 3 100 100)
   = Inr (False, Container 1 VerticalLayout \<lparr>con_width = 300, con_height = 100, capacity = 1, padding_top = 0, padding_right = 0,
       padding_bottom = 0, padding_left = 0, background_color = [255, 255, 255],
       gutter_horizontal = 0, gutter_vertical = 0, min_content_width = 50, min_content_height = 50\<rparr> [Image 2 100 100])"
  by (rule can_next_item_fit_full) simp

text \<open>C3: the append-probe-rollback of \<open>can_next_item_fit\<close> is pure for a candidate that
  is not already a child: the container comes back unchanged, no exception escapes (for the
  horizontal, vertical and grid strategies), and the answer is "below capacity and the
  strategy's check passes on the provisional list".\<close>

theorem can_next_item_fit_pure:
  assumes "k \<noteq> FrameLayout" "item_id it \<notin> item_id ` set xs"
  shows "can_next_item_fit (Container oi k c xs) it =
           Inr (int (length xs) < capacity c \<and> check_dimensions_when_adding_item k c (xs @ [it]) = Inr (),
                Container oi k c xs)"
  using probe_fresh [OF assms(2,1)] by (simp add: can_next_item_fit_def)

theorem can_next_item_fit_pure_witness:
  "can_next_item_fit (Container 1 VerticalLayout \<lparr>con_width = 300, con_height = 100, capacity = 2, padding_top = 0, padding_right = 0,
       padding_bottom = 0, padding_left = 0, background_color = [255, 255, 255],
       gutter_horizontal = 0, gutter_vertical = 0, min_content_width = 50, min_content_height = 50\<rparr> [Image 2 100 100]) (Image 3 100 100)
   = Inr (True, Container 1 VerticalLayout \<lparr>con_width = 300, con_height = 100, capacity = 2, padding_top = 0, padding_right = 0,
       padding_bottom = 0, padding_left = 0, background_color = [255, 255, 255],
       gutter_horizontal = 0, gutter_vertical = 0, min_content_width = 50, min_content_height = 50\<rparr> [Image 2 100 100])"
  by (subst can_next_item_fit_pure) (simp_all add: vertical_check_dimensions_def)

text \<open>C13: when the candidate is already a child, the rollback's \<open>list.remove\<close> deletes the
  earlier occurrence, not the appended one: the probe moves that child to the end of the list,
  although the specification requires the probe to leave no trace.\<close>

theorem can_next_item_fit_moves_present:
  assumes "k \<noteq> FrameLayout" "item_id it \<notin> item_id ` set ys" "item_id y = item_id it"
    and "int (length (ys @ y # zs)) < capacity c"
  shows "\<exists>b. can_next_item_fit (Container oi k c (ys @ y # zs)) it =
               Inr (b, Container oi k c (ys @ zs @ [it]))"
  using probe_present [OF assms(2,3,1,4)] by (simp add: can_next_item_fit_def)

theorem can_next_item_fit_moves_present_witness:
  "\<exists>b. can_next_item_fit (Container 1 VerticalLayout \<lparr>con_width = 300, con_height = 500, capacity = 3, padding_top = 0, padding_right = 0,
       padding_bottom = 0, padding_left = 0, background_color = [255, 255, 255],
       gutter_horizontal = 0, gutter_vertical = 0, min_content_width = 50, min_content_height = 50\<rparr> [Image 2 100 100, Image 3 100 100])
         (Image 2 100 100)
       = Inr (b, Container 1 VerticalLayout \<lparr>con_width = 300, con_height = 500, capacity = 3, padding_top = 0, padding_right = 0,
       padding_bottom = 0, padding_left = 0, background_color = [255, 255, 255],
       gutter_horizontal = 0, gutter_vertical = 0, min_content_width = 50, min_content_height = 50\<rparr> [Image 3 100 100, Image 2 100 100])"
  using can_next_item_fit_moves_present [of VerticalLayout "Image 2 100 100" "[]" "Image 2 100 100"
    "[Image 3 100 100]" "\<lparr>con_width = 300, con_height = 500, capacity = 3, padding_top = 0, padding_right = 0,
       padding_bottom = 0, padding_left = 0, background_color = [255, 255, 255],
       gutter_horizontal = 0, gutter_vertical = 0, min_content_width = 50, min_content_height = 50\<rparr>" 1] by simp

text \<open>C11: \<open>add_item\<close> on a full horizontal, vertical or grid container raises
  \<open>LayoutException\<close>.\<close>

theorem add_item_full_raises:
  assumes "k \<noteq> FrameLayout" "capacity c \<le> int (length xs)"
  shows "add_item (Container oi k c xs) it = Inl LayoutException"
  using probe_full [OF assms(2)] assms(1) by (simp add: add_item_def)

theorem add_item_full_raises_witness:
  "add_item (Container 1 (GridLayout 1 1 300 100) \<lparr>con_width = 300, con_height = 100, capacity = 1, padding_top = 0, padding_right = 0,
       padding_bottom = 0, padding_left = 0, background_color = [255, 255, 255],
       gutter_horizontal = 0, gutter_vertical = 0, min_content_width = 50, min_content_height = 50\<rparr> [Image 2 100 100]) (Image 3 100 100)
   = Inl LayoutException"
  by (rule add_item_full_raises) simp_all

text \<open>C12: \<open>remove_item\<close> of an item that is not a child of a horizontal, vertical or
  grid container raises \<open>ValueError\<close>.\<close>

theorem remove_item_absent_raises:
  assumes "k \<noteq> FrameLayout" "item_id it \<notin> item_id ` set xs"
  shows "remove_item (Container oi k c xs) it = Inl ValueError"
  using py_remove_absent [OF assms(2)] assms(1) by (simp add: remove_item_def)

theorem remove_item_absent_raises_witness:
  "remove_item (Container 1 VerticalLayout \<lparr>con_width = 300, con_height = 100, capacity = 1, padding_top = 0, padding_right = 0,
       padding_bottom = 0, padding_left = 0, background_color = [255, 255, 255],
       gutter_horizontal = 0, gutter_vertical = 0, min_content_width = 50, min_content_height = 50\<rparr> [Image 2 100 100]) (Image 3 100 100) = Inl ValueError"
  by (rule remove_item_absent_raises) simp_all


lemma create_flat_wf:
  "create_vertical_container oi w h cap padding bg gutters mcw mch = Inr con \<Longrightarrow> wf_item con"
  "create_horizontal_container oi w h cap padding bg gutters mcw mch = Inr con \<Longrightarrow> wf_item con"
  by (auto simp: create_vertical_container_def create_horizontal_container_def
                 layout_container_init_def ebind_eq_Inr split: if_splits)

lemma create_image_frame_wf:
  "create_image_frame_container oi img padding bg mcw mch = Inr con \<Longrightarrow> wf_item img \<Longrightarrow> wf_item con"
  by (auto simp: create_image_frame_container_def layout_container_init_def ebind_eq_Inr split: if_splits)

lemma create_grid_wf:
  assumes "create_grid_container oi w h rows cols padding bg gutters mcw mch = Inr con"
    and "0 < rows" "0 < cols"
  shows "wf_item con"
proof -
  obtain c0 where r: "resize_items oi (GridLayout rows cols 0 0) (c0\<lparr>capacity := rows * cols\<rparr>) [] = Inr con"
    using assms(1) by (auto simp: create_grid_container_def ebind_eq_Inr)
  have "kind_struct_inv (GridLayout rows cols 0 0) (c0\<lparr>capacity := rows * cols\<rparr>) []"
    using assms(2,3) by simp
  moreover have "int (length ([]::item list)) \<le> capacity (c0\<lparr>capacity := rows * cols\<rparr>)"
    using assms(2,3) by simp
  ultimately show ?thesis using resize_wf(3) [OF r] by simp
qed

text \<open>C14: a grid built by \<open>create_grid_container\<close> with positive rows and columns is
  well-formed: its capacity is \<open>rows * columns\<close>, it is empty, and its cell size is the one
  its box determines.\<close>

theorem create_grid_container_wf:
  assumes "create_grid_container oi w h rows cols padding bg gutters mcw mch = Inr con"
    and "0 < rows" "0 < cols"
  shows "wf_item con"
  using create_grid_wf [OF assms] .

theorem create_grid_container_wf_witness:
  "\<exists>con. create_grid_container 1 300 200 2 3 [0, 0, 0, 0] [255, 255, 255] [10, 10] 0 0 = Inr con
         \<and> wf_item con"
proof -
  obtain con where e: "create_grid_container 1 300 200 2 3 [0, 0, 0, 0] [255, 255, 255] [10, 10] 0 0 = Inr con"
    by (simp add: eval_simps grid_cell_width_def grid_cell_height_def max_drawable_width_def
                  max_drawable_height_def)
  show ?thesis using e create_grid_container_wf [OF e] by simp
qed

text \<open>C19: \<open>create_grid_container\<close> checks neither the rows nor the columns: for every
  sign combination with \<open>rows * columns < 0\<close> and otherwise valid settings it returns an
  empty grid of negative capacity \<open>rows * columns\<close>, which no list of children fits, so the
  container breaks the invariant from its construction on (the base constructor's clamp of
  the capacity to at least 1 is overridden).\<close>

theorem create_grid_container_negative_capacity:
  assumes "rows * cols < 0"
    and "is_background_color_valid bg" "is_item_gutters_valid gutters" "is_padding_valid padding"
  shows "\<exists>c cw ch. create_grid_container oi w h rows cols padding bg gutters mcw mch
                    = Inr (Container oi (GridLayout rows cols cw ch) c [])
           \<and> capacity c = rows * cols \<and> \<not> wf_item (Container oi (GridLayout rows cols cw ch) c [])"
proof -
  have "rows \<noteq> 0" "cols \<noteq> 0" using assms(1) by auto
  then show ?thesis using assms
    by (simp add: create_grid_container_def layout_container_init_def Let_def)
qed


theorem create_grid_container_negative_capacity_witness:
  "(-1::int) * 2 < 0 \<and> is_background_color_valid [255, 255, 255] \<and> is_item_gutters_valid [10, 10]
   \<and> is_padding_valid [0, 0, 0, 0]
   \<and> (\<exists>c cw ch. create_grid_container 1 300 200 (-1) 2 [0, 0, 0, 0] [255, 255, 255] [10, 10] 0 0
                    = Inr (Container 1 (GridLayout (-1) 2 cw ch) c [])
        \<and> capacity c = -1 * 2 \<and> \<not> wf_item (Container 1 (GridLayout (-1) 2 cw ch) c []))"
proof -
  have a: "(-1::int) * 2 < 0" "is_background_color_valid [255, 255, 255]" "is_item_gutters_valid [10, 10]"
    "is_padding_valid [0, 0, 0, 0]"
    by (simp_all add: is_background_color_valid_def is_item_gutters_valid_def is_padding_valid_def)
  show ?thesis using create_grid_container_negative_capacity [OF a] a by blast
qed
end
