(* ===== verification/Generator.thy ===== *)
theory Generator
  imports Container
begin

text \<open>
  The random layout-tree generator (src/src/layouts_generator.py, lines 72--362). The
  generator threads two pieces of state through its calls: Python's random number generator
  and the identity of the objects it creates. Both are the record \<open>gen_state\<close>: the random
  source is the list of raw draws still to come (each \<open>random.randint(a, b)\<close> and
  \<open>random.choice(xs)\<close> consumes one draw and reduces it into its range, so every sequence
  of results Python can produce is the result of some draw list), and fresh object identities
  come from a counter. A computation is a function from the state to a result and the next
  state, or an exception (\<open>'a gen\<close>).

  \<open>generate_random_sub_layouts\<close> recurses once per nesting level, so it takes a fuel argument
  that bounds the recursion depth; running out of fuel is \<open>None\<close>. The container the code
  mutates through several references (the parent holds the generated layout, which the
  recursion then fills) is here the value returned by each call and written back as the
  parent's last child; bottom-level containers are returned by identity.
\<close>

section \<open>State and the random source\<close>

record gen_state =
  rng :: "nat list"
  next_oid :: oid

type_synonym 'a gen = "gen_state \<Rightarrow> ('a \<times> gen_state) py_result"

definition gbind :: "'a gen \<Rightarrow> ('a \<Rightarrow> 'b gen) \<Rightarrow> 'b gen" where
  "gbind m f s = ebind (m s) (\<lambda>(a, s'). f a s')"

definition greturn :: "'a \<Rightarrow> 'a gen" where
  "greturn a s = Inr (a, s)"

definition glift :: "'a py_result \<Rightarrow> 'a gen" where
  "glift r s = ebind r (\<lambda>a. Inr (a, s))"

text \<open>\<open>random.randint(lo, hi)\<close>, both ends included; an exhausted draw list draws 0.\<close>

definition rand_int :: "int \<Rightarrow> int \<Rightarrow> int gen" where
  "rand_int lo hi s =
     (case rng s of [] \<Rightarrow> Inr (lo, s)
      | r # rs \<Rightarrow> Inr (lo + int r mod (hi - lo + 1), s\<lparr>rng := rs\<rparr>))"

text \<open>\<open>random.choice(xs)\<close>, which raises \<open>IndexError\<close> on an empty sequence.\<close>

definition rand_choice :: "'a list \<Rightarrow> 'a gen" where
  "rand_choice xs s =
     (if xs = [] then Inl IndexError
      else case rng s of [] \<Rightarrow> Inr (xs ! 0, s)
           | r # rs \<Rightarrow> Inr (xs ! (r mod length xs), s\<lparr>rng := rs\<rparr>))"

text \<open>A new Python object: an identity never used before.\<close>

definition fresh_oid :: "oid gen" where
  "fresh_oid s = Inr (next_oid s, s\<lparr>next_oid := Suc (next_oid s)\<rparr>)"

section \<open>The heuristics tables\<close>

text \<open>\<open>HORIZONTAL_LAYOUT_HEURISTICS\<close>, \<open>VERTICAL_LAYOUT_HEURISTICS\<close> and
  \<open>GRID_LAYOUT_HEURISTICS\<close> (lines 72--129), in the order of \<open>LAYOUT_HEURISTICS\<close>
  (lines 131--135). The float fractions are exact rationals.\<close>

datatype layout_heuristic = HorizontalH | VerticalH | GridH

definition LAYOUT_HEURISTICS :: "layout_heuristic list" where
  "LAYOUT_HEURISTICS = [HorizontalH, VerticalH, GridH]"

fun minimum_width_frac :: "layout_heuristic \<Rightarrow> rat" where
  "minimum_width_frac HorizontalH = 1 / 4"
| "minimum_width_frac VerticalH = 1 / 4"
| "minimum_width_frac GridH = 3 / 10"

fun minimum_height_frac :: "layout_heuristic \<Rightarrow> rat" where
  "minimum_height_frac HorizontalH = 1 / 4"
| "minimum_height_frac VerticalH = 1 / 4"
| "minimum_height_frac GridH = 3 / 10"

fun child_capacity_range :: "layout_heuristic \<Rightarrow> int \<times> int" where
  "child_capacity_range HorizontalH = (2, 3)"
| "child_capacity_range VerticalH = (2, 3)"
| "child_capacity_range GridH = (0, 0)"

text \<open>\<open>PADDINGS\<close>, \<open>GUTTERS\<close> and \<open>COLORS\<close> entries the generator uses (lines 13--50).\<close>

definition PADDING_SMALL :: "int list" where "PADDING_SMALL = [10, 10, 10, 10]"
definition PADDING_MEDIUM :: "int list" where "PADDING_MEDIUM = [20, 20, 20, 20]"
definition GUTTERS_SMALL :: "int list" where "GUTTERS_SMALL = [10, 10]"
definition GUTTERS_MEDIUM :: "int list" where "GUTTERS_MEDIUM = [20, 20]"
definition COLOR_WHITE :: "int list" where "COLOR_WHITE = [255, 255, 255]"

section \<open>Choosing and creating a layout\<close>

text \<open>\<open>get_list_of_eligible_layouts\<close> (lines 217--223).\<close>

definition get_list_of_eligible_layouts :: "int \<Rightarrow> int \<Rightarrow> int \<Rightarrow> int \<Rightarrow> layout_heuristic list" where
  "get_list_of_eligible_layouts pw ph mw mh =
     filter (\<lambda>h. of_int mw * minimum_width_frac h \<le> of_int pw \<and> of_int mh * minimum_height_frac h \<le> of_int ph)
       LAYOUT_HEURISTICS"

text \<open>\<open>create_layout_from_type\<close> (lines 272--300): medium padding and gutters, white, a
  random capacity in \<open>[1, 3]\<close> for a row or column and random rows and columns in
  \<open>[2, 3]\<close> for a grid; the factories' default minimum content size 50.\<close>

fun create_layout_from_type :: "layout_heuristic \<Rightarrow> int \<Rightarrow> int \<Rightarrow> item gen" where
  "create_layout_from_type HorizontalH pw ph =
     gbind (rand_int 1 3) (\<lambda>cap. gbind fresh_oid (\<lambda>oi.
       glift (create_horizontal_container oi pw ph cap PADDING_MEDIUM COLOR_WHITE GUTTERS_MEDIUM 50 50)))"
| "create_layout_from_type VerticalH pw ph =
     gbind (rand_int 1 3) (\<lambda>cap. gbind fresh_oid (\<lambda>oi.
       glift (create_vertical_container oi pw ph cap PADDING_MEDIUM COLOR_WHITE GUTTERS_MEDIUM 50 50)))"
| "create_layout_from_type GridH pw ph =
     gbind (rand_int 2 3) (\<lambda>rows. gbind (rand_int 2 3) (\<lambda>cols. gbind fresh_oid (\<lambda>oi.
       glift (create_grid_container oi pw ph rows cols PADDING_MEDIUM COLOR_WHITE GUTTERS_MEDIUM 50 50))))"

text \<open>\<open>get_max_drawable_width/height\<close> asked of an item the generator treats as a container.\<close>

fun item_drawable :: "item \<Rightarrow> (int \<times> int) py_result" where
  "item_drawable (Image _ _ _) = Inl AttributeError"
| "item_drawable (Container _ _ c _) = Inr (max_drawable_width c, max_drawable_height c)"

section \<open>Partitioning a box\<close>

text \<open>The jitter loop of \<open>generate_eligible_layouts_for_dimensions\<close> (lines 327--338):
  \<open>number_of_children - 1\<close> rounds, each drawing a width and a height factor in
  \<open>[80, 120]\<close> percent of the average share, appending the box \<^emph>\<open>twice\<close> and
  decreasing the remainders; the remainders are returned but the code never appends them.\<close>

fun jitter_dims :: "nat \<Rightarrow> int \<Rightarrow> int \<Rightarrow> int \<Rightarrow> int \<Rightarrow> ((int \<times> int) list \<times> int \<times> int) gen" where
  "jitter_dims 0 we he wr hr = greturn ([], wr, hr)"
| "jitter_dims (Suc k) we he wr hr =
     gbind (rand_int 80 120) (\<lambda>rw. gbind (rand_int 80 120) (\<lambda>rh.
       let cw = py_int (of_int rw / 100 * of_int we); ch = py_int (of_int rh / 100 * of_int he) in
       gbind (jitter_dims k we he (wr - cw) (hr - ch)) (\<lambda>(ds, wr', hr').
         greturn ((cw, ch) # (cw, ch) # ds, wr', hr'))))"

text \<open>The filter of lines 341--351: boxes for which some layout is eligible, with that list.\<close>

definition eligible_dims :: "(int \<times> int) list \<Rightarrow> int \<Rightarrow> int \<Rightarrow> (int \<times> int \<times> layout_heuristic list) list" where
  "eligible_dims ds mw mh =
     [(w, h, get_list_of_eligible_layouts w h mw mh). (w, h) \<leftarrow> ds, get_list_of_eligible_layouts w h mw mh \<noteq> []]"

definition generate_eligible_layouts_for_dimensions ::
  "item \<Rightarrow> int \<Rightarrow> int \<times> int \<Rightarrow> (int \<times> int \<times> layout_heuristic list) list gen" where
  "generate_eligible_layouts_for_dimensions parent n main =
     gbind (glift (item_drawable parent)) (\<lambda>(pw, ph).
       if n = 0 then glift (Inl ZeroDivisionError)
       else let we = py_int (of_int pw / of_int n); he = py_int (of_int ph / of_int n) in
         gbind (jitter_dims (nat (n - 1)) we he pw ph) (\<lambda>(ds, _, _).
           greturn (eligible_dims ds (fst main) (snd main))))"

text \<open>\<open>get_unused_space_for_eligible_layouts\<close> (lines 354--362).\<close>

definition get_unused_space_for_eligible_layouts ::
  "(int \<times> int \<times> layout_heuristic list) list \<Rightarrow> int \<Rightarrow> int \<Rightarrow> int" where
  "get_unused_space_for_eligible_layouts ds pw ph =
     (pw - sum_list (map fst ds)) + (ph - sum_list (map (fst \<circ> snd) ds))"

text \<open>The best-of-50 loop of \<open>generate_random_sub_dimensions\<close> (lines 303--316): a trial
  replaces the best one only when its unused space is strictly smaller.\<close>

fun best_of_trials :: "nat \<Rightarrow> item \<Rightarrow> int \<Rightarrow> int \<times> int \<Rightarrow>
    (int \<times> int \<times> layout_heuristic list) list \<times> int \<Rightarrow> (int \<times> int \<times> layout_heuristic list) list gen" where
  "best_of_trials 0 parent n main (best, lowest) = greturn best"
| "best_of_trials (Suc k) parent n main (best, lowest) =
     gbind (generate_eligible_layouts_for_dimensions parent n main) (\<lambda>trial.
       gbind (glift (item_drawable parent)) (\<lambda>(pw, ph).
         let unused = get_unused_space_for_eligible_layouts trial pw ph in
         best_of_trials k parent n main (if unused < lowest then (trial, unused) else (best, lowest))))"

definition generate_random_sub_dimensions ::
  "item \<Rightarrow> int \<Rightarrow> int \<times> int \<Rightarrow> (int \<times> int \<times> layout_heuristic list) list gen" where
  "generate_random_sub_dimensions parent n main = best_of_trials 50 parent n main ([], fst main + snd main)"

section \<open>The recursive generator\<close>

text \<open>Outcome of the first half of \<open>generate_random_sub_layouts\<close> (lines 233--239):
  the parent becomes a bottom-level container (no layout fits), or a generated layout of
  the chosen kind has been added to it.\<close>

datatype sub_layout_step = Bottom item | Added item layout_heuristic

definition add_generated_layout ::
  "item \<Rightarrow> int \<Rightarrow> int \<Rightarrow> layout_heuristic list \<Rightarrow> sub_layout_step gen" where
  "add_generated_layout parent pw ph el =
     gbind (rand_choice el) (\<lambda>h.
       gbind (create_layout_from_type h pw ph) (\<lambda>g.
         gbind (glift (can_next_item_fit parent g)) (\<lambda>(ok, parent1).
           if \<not> ok then greturn (Bottom parent1)
           else gbind (glift (add_item parent1 g)) (\<lambda>parent2. greturn (Added parent2 h)))))"

text \<open>Lines 247--257: the number of grandchildren, and the partition of a box for them.\<close>

datatype child_plan = NoChildren | Children "(int \<times> int \<times> layout_heuristic list) list"

definition plan_children :: "item \<Rightarrow> layout_heuristic \<Rightarrow> int \<times> int \<Rightarrow> child_plan gen" where
  "plan_children parent h main =
     gbind (rand_int (fst (child_capacity_range h)) (snd (child_capacity_range h))) (\<lambda>k.
       if k = 0 then greturn NoChildren
       else gbind (generate_random_sub_dimensions parent k main) (\<lambda>ds. greturn (Children ds)))"

text \<open>The generated layout is the last child of the parent after \<open>add_item\<close>, and the
  recursion writes it back there: in Python the parent's list and the recursion hold the
  same object.\<close>

fun last_child :: "item \<Rightarrow> item" where
  "last_child (Container _ _ _ xs) = last xs"
| "last_child it = it"

fun set_last_child :: "item \<Rightarrow> item \<Rightarrow> item" where
  "set_last_child (Container oi k c xs) g = Container oi k c (butlast xs @ [g])"
| "set_last_child it g = it"

type_synonym gen_result = "((item \<times> oid list) \<times> gen_state) py_result option"

definition fbind :: "('a \<times> gen_state) py_result option \<Rightarrow> ('a \<Rightarrow> gen_state \<Rightarrow> ('b \<times> gen_state) py_result option)
                     \<Rightarrow> ('b \<times> gen_state) py_result option" where
  "fbind r f = (case r of None \<Rightarrow> None | Some (Inl e) \<Rightarrow> Some (Inl e) | Some (Inr (a, s)) \<Rightarrow> f a s)"

text \<open>\<open>generate_random_sub_layouts\<close> (lines 226--269) returns the parent, updated, and the
  identities of the bottom-level containers found below it. Note line 255: the boxes of the
  grandchildren are cut from the \<^emph>\<open>parent's\<close> drawable area, not from the generated
  layout's. \<open>generate_children\<close> is the loop of lines 259--268 over those boxes, each adding
  to the generated layout.\<close>

fun generate_random_sub_layouts ::
  "nat \<Rightarrow> item \<Rightarrow> int \<Rightarrow> int \<Rightarrow> int \<times> int \<Rightarrow> int \<Rightarrow> layout_heuristic list \<Rightarrow> gen_state \<Rightarrow> gen_result"
and generate_children ::
  "nat \<Rightarrow> item \<Rightarrow> (int \<times> int \<times> layout_heuristic list) list \<Rightarrow> int \<times> int \<Rightarrow> int \<Rightarrow> gen_state \<Rightarrow> gen_result"
where
  "generate_random_sub_layouts 0 parent pw ph main n el s = None"
| "generate_random_sub_layouts (Suc f) parent pw ph main n el s =
     (if el = [] then Some (Inr ((parent, [item_id parent]), s))
      else case add_generated_layout parent pw ph el s of
        Inl e \<Rightarrow> Some (Inl e)
      | Inr (Bottom parent1, s1) \<Rightarrow> Some (Inr ((parent1, [item_id parent1]), s1))
      | Inr (Added parent2 h, s1) \<Rightarrow>
          (if n - 1 = 0 then Some (Inr ((parent2, [item_id (last_child parent2)]), s1))
           else case plan_children parent2 h main s1 of
             Inl e \<Rightarrow> Some (Inl e)
           | Inr (NoChildren, s2) \<Rightarrow> Some (Inr ((parent2, [item_id (last_child parent2)]), s2))
           | Inr (Children ds, s2) \<Rightarrow>
               fbind (generate_children f (last_child parent2) ds main (n - 1) s2)
                 (\<lambda>(g, bs) s3. Some (Inr ((set_last_child parent2 g, bs), s3)))))"
| "generate_children f g [] main n s = Some (Inr ((g, []), s))"
| "generate_children f g ((cw, ch, el) # ds) main n s =
     fbind (generate_random_sub_layouts f g cw ch main n el s) (\<lambda>(g1, bs1) s1.
       fbind (generate_children f g1 ds main n s1) (\<lambda>(g2, bs2) s2.
         Some (Inr ((g2, bs1 @ bs2), s2))))"

text \<open>\<open>generate_random_layouts\<close> (lines 189--214): a 1920 by 1080 horizontal main container
  with small padding and gutters, a random nesting depth in \<open>[1, 2]\<close> and a random capacity
  in \<open>[1, 3]\<close>; only the horizontal kind is eligible at the top.\<close>

definition generate_random_layouts :: "nat \<Rightarrow> gen_state \<Rightarrow> gen_result" where
  "generate_random_layouts fuel s =
     (case gbind (rand_int 1 2) (\<lambda>nest. gbind (rand_int 1 3) (\<lambda>cap. gbind fresh_oid (\<lambda>oi.
             gbind (glift (create_horizontal_container oi 1920 1080 cap PADDING_SMALL COLOR_WHITE GUTTERS_SMALL 50 50))
               (\<lambda>main. gbind (glift (item_drawable main)) (\<lambda>md. greturn (nest, main, md)))))) s of
        Inl e \<Rightarrow> Some (Inl e)
      | Inr ((nest, main, md), s1) \<Rightarrow>
          generate_random_sub_layouts fuel main (fst md) (snd md) md nest [HorizontalH] s1)"

section \<open>Lemmas\<close>

declare gbind_def [eval_simps] greturn_def [eval_simps] glift_def [eval_simps] rand_int_def [eval_simps]
  rand_choice_def [eval_simps] fresh_oid_def [eval_simps] LAYOUT_HEURISTICS_def [eval_simps]
  PADDING_SMALL_def [eval_simps] PADDING_MEDIUM_def [eval_simps] GUTTERS_SMALL_def [eval_simps]
  GUTTERS_MEDIUM_def [eval_simps] COLOR_WHITE_def [eval_simps] get_list_of_eligible_layouts_def [eval_simps]
  add_generated_layout_def [eval_simps] plan_children_def [eval_simps] fbind_def [eval_simps]
  generate_random_layouts_def [eval_simps] generate_eligible_layouts_for_dimensions_def [eval_simps]
  generate_random_sub_dimensions_def [eval_simps] eligible_dims_def [eval_simps]
  get_unused_space_for_eligible_layouts_def [eval_simps] horizontal_check_dimensions_def [eval_simps]
  horizontal_max_width_for_each_item_def [eval_simps] horizontal_max_height_for_each_item_def [eval_simps]
  vertical_check_dimensions_def [eval_simps] vertical_max_width_for_each_item_def [eval_simps]
  vertical_max_height_for_each_item_def [eval_simps] grid_check_dimensions_def [eval_simps]
  grid_cell_width_def [eval_simps] grid_cell_height_def [eval_simps]
  max_drawable_width_def [eval_simps] max_drawable_height_def [eval_simps]

lemma fbind_ne_None:
  "fbind r f \<noteq> None \<longleftrightarrow> r \<noteq> None \<and> (\<forall>a s. r = Some (Inr (a, s)) \<longrightarrow> f a s \<noteq> None)"
  by (auto simp: fbind_def split: option.splits sum.splits prod.splits)

lemma fbind_eq_Some_Inr:
  "fbind r f = Some (Inr x) \<longleftrightarrow> (\<exists>a s. r = Some (Inr (a, s)) \<and> f a s = Some (Inr x))"
  by (auto simp: fbind_def split: option.splits sum.splits prod.splits)

lemma fbind_mono:
  "fbind r K = Some y \<Longrightarrow> (\<And>x. r = Some x \<Longrightarrow> r' = Some x) \<Longrightarrow>
     (\<And>a s y'. K a s = Some y' \<Longrightarrow> K' a s = Some y') \<Longrightarrow> fbind r' K' = Some y"
  by (auto simp: fbind_def split: option.splits sum.splits)

lemma gbind_eq_Inr:
  "gbind m f s = Inr r \<longleftrightarrow> (\<exists>a s1. m s = Inr (a, s1) \<and> f a s1 = Inr r)"
  by (auto simp: gbind_def ebind_eq_Inr split: prod.splits)

lemma glift_eq_Inr [simp]: "glift r s = Inr (a, s') \<longleftrightarrow> r = Inr a \<and> s' = s"
  by (cases r) (auto simp: glift_def)

lemma greturn_eq_Inr [simp]: "greturn a s = Inr (b, s') \<longleftrightarrow> b = a \<and> s' = s"
  by (auto simp: greturn_def)

lemma rand_int_range:
  assumes "rand_int lo hi s = Inr (x, s')" "lo \<le> hi"
  shows "lo \<le> x \<and> x \<le> hi"
proof (cases "rng s")
  case Nil
  then show ?thesis using assms by (simp add: rand_int_def)
next
  case (Cons r rs)
  have p: "0 < hi - lo + 1" using assms(2) by simp
  have "0 \<le> int r mod (hi - lo + 1)" "int r mod (hi - lo + 1) < hi - lo + 1"
    using pos_mod_sign [OF p] pos_mod_bound [OF p] by auto
  then show ?thesis using assms Cons by (auto simp: rand_int_def)
qed

lemma jitter_dims_SucE:
  assumes "jitter_dims (Suc k) we he wr hr s = Inr ((ds, wr', hr'), s')"
  obtains cw ch s2 ds0 where "ds = (cw, ch) # (cw, ch) # ds0"
    and "jitter_dims k we he (wr - cw) (hr - ch) s2 = Inr ((ds0, wr', hr'), s')"
  using assms by (auto simp: gbind_def greturn_def Let_def ebind_eq_Inr split: prod.splits)

lemma set_last_child_wf:
  assumes "wf_item (Container oi k c xs)" "xs \<noteq> []" "wf_item g"
  shows "wf_item (set_last_child (Container oi k c xs) g)"
proof -
  have "length (butlast xs @ [g]) = length xs" using assms(2) by simp
  moreover have "set (butlast xs) \<subseteq> set xs" by (rule in_set_butlastD [THEN subsetI])
  ultimately show ?thesis using assms by (cases k) auto
qed

lemma last_child_wf: "wf_item (Container oi k c xs) \<Longrightarrow> xs \<noteq> [] \<Longrightarrow> wf_item (last_child (Container oi k c xs))"
  by simp

lemma create_layout_from_type_wf:
  assumes "create_layout_from_type h pw ph s = Inr (g, s')"
  shows "wf_item g"
proof (cases h)
  case HorizontalH
  then obtain cap oi where "create_horizontal_container oi pw ph cap PADDING_MEDIUM COLOR_WHITE GUTTERS_MEDIUM 50 50 = Inr g"
    using assms by (auto simp: gbind_eq_Inr)
  then show ?thesis by (rule create_flat_wf)
next
  case VerticalH
  then obtain cap oi where "create_vertical_container oi pw ph cap PADDING_MEDIUM COLOR_WHITE GUTTERS_MEDIUM 50 50 = Inr g"
    using assms by (auto simp: gbind_eq_Inr)
  then show ?thesis by (rule create_flat_wf)
next
  case GridH
  then obtain rows cols s1 s2 oi where "rand_int 2 3 s = Inr (rows, s1)" "rand_int 2 3 s1 = Inr (cols, s2)"
    and g: "create_grid_container oi pw ph rows cols PADDING_MEDIUM COLOR_WHITE GUTTERS_MEDIUM 50 50 = Inr g"
    using assms by (auto simp: gbind_eq_Inr)
  then have "0 < rows" "0 < cols" using rand_int_range by fastforce+
  then show ?thesis using create_grid_wf [OF g] by blast
qed

lemma add_generated_layout_wf:
  assumes "add_generated_layout parent pw ph el s = Inr (r, s1)" "wf_item parent"
  shows "case r of Bottom p \<Rightarrow> wf_item p \<and> item_id p = item_id parent
         | Added p h \<Rightarrow> wf_item p \<and> (\<exists>oi k c xs. p = Container oi k c xs \<and> xs \<noteq> [])"
proof -
  obtain h s2 g s3 b parent1 where g: "create_layout_from_type h pw ph s2 = Inr (g, s3)"
    and fit: "can_next_item_fit parent g = Inr (b, parent1)"
    and rest: "(if \<not> b then greturn (Bottom parent1)
               else gbind (glift (add_item parent1 g)) (\<lambda>parent2. greturn (Added parent2 h))) s3 = Inr (r, s1)"
    using assms(1) by (auto simp: add_generated_layout_def gbind_eq_Inr)
  have wg: "wf_item g" by (rule create_layout_from_type_wf [OF g])
  have w1: "wf_item parent1 \<and> item_id parent1 = item_id parent"
    by (rule can_next_item_fit_wf [OF fit assms(2) wg])
  show ?thesis
  proof (cases b)
    case False
    then show ?thesis using rest w1 by auto
  next
    case True
    then obtain parent2 where a: "add_item parent1 g = Inr parent2" and r: "r = Added parent2 h"
      using rest by (auto simp: gbind_eq_Inr)
    show ?thesis using add_item_wf [OF _ wg a] add_item_children [OF a] w1 r by auto
  qed
qed

lemma generate_some:
  "1 \<le> n \<Longrightarrow> nat n \<le> f \<Longrightarrow> generate_random_sub_layouts f parent pw ph main n el s \<noteq> None"
  "1 \<le> n \<Longrightarrow> nat n \<le> f \<Longrightarrow> generate_children f g ds main n s \<noteq> None"
proof (induction f parent pw ph main n el s and f g ds main n s rule: generate_random_sub_layouts_generate_children.induct)
  case (1 parent pw ph main n el s)
  then show ?case by simp
next
  case (2 f parent pw ph main n el s)
  then show ?case
    by (auto simp: fbind_ne_None simp del: not_None_eq split: sum.splits prod.splits sub_layout_step.splits child_plan.splits)
next
  case (3 f g main n s)
  then show ?case by simp
next
  case (4 f g cw ch el ds main n s)
  then show ?case by (auto simp: fbind_ne_None simp del: not_None_eq)
qed

lemma generate_Added_Children:
  "el \<noteq> [] \<Longrightarrow> add_generated_layout parent pw ph el s = Inr (Added p h, s1) \<Longrightarrow> n - 1 \<noteq> 0 \<Longrightarrow>
   plan_children p h main s1 = Inr (Children ds, s2) \<Longrightarrow>
   generate_random_sub_layouts (Suc f) parent pw ph main n el s =
     fbind (generate_children f (last_child p) ds main (n - 1) s2)
       (\<lambda>(g, bs) s3. Some (Inr ((set_last_child p g, bs), s3)))"
  by simp

lemma generate_wf:
  "generate_random_sub_layouts f parent pw ph main n el s = Some (Inr ((p', bs), s')) \<Longrightarrow>
     wf_item parent \<Longrightarrow> wf_item p'"
  "generate_children f g ds main n s = Some (Inr ((g', bs), s')) \<Longrightarrow> wf_item g \<Longrightarrow> wf_item g'"
proof (induction f parent pw ph main n el s and f g ds main n s
       arbitrary: p' bs s' and g' bs s' rule: generate_random_sub_layouts_generate_children.induct)
  case (1 parent pw ph main n el s)
  then show ?case by simp
next
  case (2 f parent pw ph main n el s)
  show ?case
  proof (cases "el = []")
    case True
    then show ?thesis using "2.prems" by simp
  next
    case False
    then obtain r s1 where a: "add_generated_layout parent pw ph el s = Inr (r, s1)"
      using "2.prems"(1) by (auto split: sum.splits)
    note w = add_generated_layout_wf [OF a "2.prems"(2)]
    show ?thesis
    proof (cases r)
      case (Bottom p)
      then show ?thesis using "2.prems"(1) False a w by auto
    next
      case (Added p h)
      then obtain oi k c xs where p: "p = Container oi k c xs" "xs \<noteq> []" and wp: "wf_item p"
        using w by auto
      show ?thesis
      proof (cases "n - 1 = 0")
        case True
        then show ?thesis using "2.prems"(1) False a Added wp by simp
      next
        case nz: False
        then obtain pl s2 where pl: "plan_children p h main s1 = Inr (pl, s2)"
          using "2.prems"(1) False a Added by (auto split: sum.splits)
        show ?thesis
        proof (cases pl)
          case NoChildren
          then show ?thesis using "2.prems"(1) False a Added nz pl wp by simp
        next
          case (Children ds)
          have "generate_random_sub_layouts (Suc f) parent pw ph main n el s =
                  fbind (generate_children f (last_child p) ds main (n - 1) s2)
                    (\<lambda>(g, bs) s3. Some (Inr ((set_last_child p g, bs), s3)))"
            using generate_Added_Children [OF False _ nz] a pl Added Children by simp
          then have e: "fbind (generate_children f (last_child p) ds main (n - 1) s2)
                    (\<lambda>(g, bs) s3. Some (Inr ((set_last_child p g, bs), s3))) = Some (Inr ((p', bs), s'))"
            using "2.prems"(1) by (simp only:)
          then obtain g bs0 s3 where gc: "generate_children f (last_child p) ds main (n - 1) s2 = Some (Inr ((g, bs0), s3))"
            and pe: "p' = set_last_child p g"
            unfolding fbind_eq_Some_Inr by auto
          have wl: "wf_item (last_child p)" using last_child_wf p wp by blast
          have "wf_item g"
            using "2.IH" [OF False a refl Added nz pl refl Children gc wl] .
          then show ?thesis using set_last_child_wf p wp pe by blast
        qed
      qed
    qed
  qed
next
  case (3 f g main n s)
  then show ?case by simp
next
  case (4 f g cw ch el ds main n s)
  obtain g1 bs1 s1 bs2 where r1: "generate_random_sub_layouts f g cw ch main n el s = Some (Inr ((g1, bs1), s1))"
    and r2: "generate_children f g1 ds main n s1 = Some (Inr ((g', bs2), s'))"
    using "4.prems"(1) by (auto simp: fbind_eq_Some_Inr)
  have "wf_item g1" using "4.IH"(1) [OF r1 "4.prems"(2)] .
  then show ?case using "4.IH"(2) r1 r2 by blast
qed

lemma generate_fuel_mono:
  "generate_random_sub_layouts f parent pw ph main n el s = Some r \<Longrightarrow>
     generate_random_sub_layouts (Suc f) parent pw ph main n el s = Some r"
  "generate_children f g ds main n s = Some r \<Longrightarrow> generate_children (Suc f) g ds main n s = Some r"
proof (induction f parent pw ph main n el s and f g ds main n s
       arbitrary: r and r rule: generate_random_sub_layouts_generate_children.induct)
  case (1 parent pw ph main n el s)
  then show ?case by simp
next
  case (2 f parent pw ph main n el s)
  then show ?case
    by (auto simp: fbind_def split: if_splits sum.splits prod.splits sub_layout_step.splits child_plan.splits option.splits)
next
  case (3 f g main n s)
  then show ?case by simp
next
  case (4 f g cw ch el ds main n s)
  from "4.prems" show ?case
    unfolding generate_children.simps
  proof (rule fbind_mono)
    show "generate_random_sub_layouts (Suc f) g cw ch main n el s = Some x"
      if "generate_random_sub_layouts f g cw ch main n el s = Some x" for x
      using "4.IH"(1) [OF that] .
  next
    fix a s1 y
    assume "(\<lambda>(g1, bs1) s1. fbind (generate_children f g1 ds main n s1)
              (\<lambda>(g2, bs2) s2. Some (Inr ((g2, bs1 @ bs2), s2)))) a s1 = Some y"
    then show "(\<lambda>(g1, bs1) s1. fbind (generate_children (Suc f) g1 ds main n s1)
              (\<lambda>(g2, bs2) s2. Some (Inr ((g2, bs1 @ bs2), s2)))) a s1 = Some y"
      by (cases a) (auto elim!: fbind_mono intro: "4.IH"(2))
  qed
qed

lemma generate_random_layouts_prefix:
  assumes "gbind (rand_int 1 2) (\<lambda>nest. gbind (rand_int 1 3) (\<lambda>cap. gbind fresh_oid (\<lambda>oi.
             gbind (glift (create_horizontal_container oi 1920 1080 cap PADDING_SMALL COLOR_WHITE GUTTERS_SMALL 50 50))
               (\<lambda>main. gbind (glift (item_drawable main)) (\<lambda>md. greturn (nest, main, md)))))) s
           = Inr ((nest, main, md), s1)"
  shows "1 \<le> nest \<and> nest \<le> 2 \<and> wf_item main"
proof -
  obtain s0 cap oi where n: "rand_int 1 2 s = Inr (nest, s0)"
    and m: "create_horizontal_container oi 1920 1080 cap PADDING_SMALL COLOR_WHITE GUTTERS_SMALL 50 50 = Inr main"
    using assms by (auto simp: gbind_eq_Inr)
  show ?thesis using rand_int_range [OF n] create_flat_wf(2) [OF m] by simp
qed

lemma generate_random_layouts_some:
  assumes "2 \<le> fuel"
  shows "generate_random_layouts fuel s \<noteq> None"
proof (cases "gbind (rand_int 1 2) (\<lambda>nest. gbind (rand_int 1 3) (\<lambda>cap. gbind fresh_oid (\<lambda>oi.
             gbind (glift (create_horizontal_container oi 1920 1080 cap PADDING_SMALL COLOR_WHITE GUTTERS_SMALL 50 50))
               (\<lambda>main. gbind (glift (item_drawable main)) (\<lambda>md. greturn (nest, main, md)))))) s")
  case (Inl e)
  then show ?thesis by (simp add: generate_random_layouts_def)
next
  case (Inr r)
  then obtain nest main md s1 where r: "r = ((nest, main, md), s1)" by (cases r) auto
  then have "1 \<le> nest \<and> nest \<le> 2" using generate_random_layouts_prefix Inr by blast
  then have "generate_random_sub_layouts fuel main (fst md) (snd md) md nest [HorizontalH] s1 \<noteq> None"
    using assms by (intro generate_some(1)) auto
  then show ?thesis using Inr r by (simp add: generate_random_layouts_def)
qed

text \<open>C20: the generator terminates: \<open>generate_random_layouts\<close> returns (a layout tree or
  an exception) for every sequence of random draws once the fuel covers the maximal nesting
  depth 2 of \<open>GENERAL_SETTINGS\<close>.\<close>

theorem generate_random_layouts_returns:
  assumes "2 \<le> fuel"
  shows "generate_random_layouts fuel s \<noteq> None"
  using generate_random_layouts_some [OF assms] .

theorem generate_random_layouts_returns_witness:
  "generate_random_layouts 2 \<lparr>rng = [5, 7, 11], next_oid = 1\<rparr> \<noteq> None"
  by (rule generate_random_layouts_returns) simp

text \<open>Fuel only bounds the recursion: a result obtained with some fuel is obtained
  unchanged with more.\<close>

theorem generate_random_layouts_fuel_mono:
  assumes "generate_random_layouts fuel s = Some r"
  shows "generate_random_layouts (Suc fuel) s = Some r"
proof (cases "gbind (rand_int 1 2) (\<lambda>nest. gbind (rand_int 1 3) (\<lambda>cap. gbind fresh_oid (\<lambda>oi.
             gbind (glift (create_horizontal_container oi 1920 1080 cap PADDING_SMALL COLOR_WHITE GUTTERS_SMALL 50 50))
               (\<lambda>main. gbind (glift (item_drawable main)) (\<lambda>md. greturn (nest, main, md)))))) s")
  case (Inl e)
  then show ?thesis using assms by (simp add: generate_random_layouts_def)
next
  case (Inr q)
  then obtain nest main md s1 where q: "q = ((nest, main, md), s1)" by (cases q) auto
  then have "generate_random_sub_layouts fuel main (fst md) (snd md) md nest [HorizontalH] s1 = Some r"
    using assms Inr by (simp add: generate_random_layouts_def)
  then have "generate_random_sub_layouts (Suc fuel) main (fst md) (snd md) md nest [HorizontalH] s1 = Some r"
    by (rule generate_fuel_mono(1))
  then show ?thesis using Inr q by (simp add: generate_random_layouts_def)
qed

theorem generate_random_layouts_fuel_mono_witness:
  "\<exists>r. generate_random_layouts 2 \<lparr>rng = [1, 1, 0, 2, 1], next_oid = 1\<rparr> = Some r \<and> generate_random_layouts 3 \<lparr>rng = [1, 1, 0, 2, 1], next_oid = 1\<rparr> = Some r"
proof -
  obtain r where r: "generate_random_layouts 2 \<lparr>rng = [1, 1, 0, 2, 1], next_oid = 1\<rparr> = Some r"
    by (simp add: eval_simps eval_nat_numeral)
  show ?thesis using r generate_random_layouts_fuel_mono [OF r] by (simp add: eval_nat_numeral)
qed

text \<open>C22: every container tree the generator returns is well-formed: each container
  holds at most its capacity of children, grids have their cells computed, frames their one
  image.\<close>

theorem generate_random_layouts_wf:
  "generate_random_layouts fuel s = Some (Inr ((main, bs), s')) \<Longrightarrow> wf_item main"
  unfolding generate_random_layouts_def
  using generate_random_layouts_prefix generate_wf(1)
  by (auto split: sum.splits prod.splits)

theorem generate_random_layouts_wf_witness:
  "\<exists>main bs s'. generate_random_layouts 3 \<lparr>rng = [1, 1, 0, 2, 1], next_oid = 1\<rparr> = Some (Inr ((main, bs), s')) \<and> wf_item main"
proof -
  obtain main bs s' where r: "generate_random_layouts 3 \<lparr>rng = [1, 1, 0, 2, 1], next_oid = 1\<rparr> = Some (Inr ((main, bs), s'))"
    by (simp add: eval_simps eval_nat_numeral)
  show ?thesis using r generate_random_layouts_wf [OF r] by blast
qed

text \<open>C23: the partition loop of \<open>generate_eligible_layouts_for_dimensions\<close> appends every
  jittered box twice and drops the remainder: after \<open>k\<close> rounds it proposes \<open>2 k\<close>
  boxes in equal pairs whose widths and heights add up to \<^emph>\<open>twice\<close> the extent consumed,
  where the specification asks for \<open>k + 1\<close> boxes that exactly cover the parent box.\<close>

theorem jitter_dims_shape:
  "jitter_dims k we he wr hr s = Inr ((ds, wr', hr'), s') \<Longrightarrow>
     length ds = 2 * k \<and> (\<forall>i < k. ds ! (2 * i) = ds ! (2 * i + 1))
     \<and> sum_list (map fst ds) = 2 * (wr - wr') \<and> sum_list (map snd ds) = 2 * (hr - hr')"
proof (induction k arbitrary: wr hr s ds)
  case 0
  then show ?case by (simp add: greturn_def)
next
  case (Suc k)
  obtain cw ch s2 ds0 where ds: "ds = (cw, ch) # (cw, ch) # ds0"
    and r: "jitter_dims k we he (wr - cw) (hr - ch) s2 = Inr ((ds0, wr', hr'), s')"
    using jitter_dims_SucE [OF Suc.prems] .
  note ih = Suc.IH [OF r]
  have "\<forall>i < Suc k. ds ! (2 * i) = ds ! (2 * i + 1)"
  proof (intro allI impI)
    fix i assume "i < Suc k"
    then show "ds ! (2 * i) = ds ! (2 * i + 1)"
      using ih ds by (cases i) auto
  qed
  with ih ds show ?case by simp
qed

theorem jitter_dims_shape_witness:
  "jitter_dims 2 300 200 900 600 \<lparr>rng = [], next_oid = 1\<rparr>
     = Inr (([(240, 160), (240, 160), (240, 160), (240, 160)], 420, 280), \<lparr>rng = [], next_oid = 1\<rparr>)
   \<and> sum_list (map fst [(240::int, 160::int), (240, 160), (240, 160), (240, 160)]) = 2 * (900 - 420)"
proof -
  have r: "jitter_dims 2 300 200 900 600 \<lparr>rng = [], next_oid = 1\<rparr>
     = Inr (([(240, 160), (240, 160), (240, 160), (240, 160)], 420, 280), \<lparr>rng = [], next_oid = 1\<rparr>)"
    by (simp add: eval_simps eval_nat_numeral)
  show ?thesis using jitter_dims_shape [OF r] r by simp
qed

end
