(* ===== verification/Populate.thy ===== *)
theory Populate
  imports Generator "HOL-Library.Multiset"
begin

text \<open>
  Filling the bottom-level containers with framed images
  (\<open>populate_bottom_level_containers\<close>, src/src/layouts_generator.py lines 156--183) and
  one collage of \<open>run\<close> (lines 148--153). The image catalogue is the dictionary from an
  aspect-ratio bucket to the list of image paths still unused; a path is an abstract file
  name and \<open>image_files\<close> gives the width and height of the image the file decodes to.
  The catalogue is threaded through the calls, as the code mutates the dictionary's lists.

  The code reaches each bottom-level container through a reference into the tree the
  generator built; the model finds it by its identity (\<open>update_node\<close>) and writes it back
  in place, leaving every other node unchanged, as the mutation through the reference does.
\<close>

section \<open>The catalogue\<close>

text \<open>The keys of \<open>ASPECT_RATIO_RANGES\<close> (lines 64--70).\<close>

datatype aspect_key = SquareIsh | PortraitIsh | LandscapeIsh | UltraWide | UltraNarrow

type_synonym path = nat
type_synonym catalogue = "aspect_key \<Rightarrow> path list"
type_synonym image_files = "path \<Rightarrow> int \<times> int"

text \<open>\<open>ASPECT_RATIO_RANGES\<close> (lines 64--70) in the dictionary's order, the float bounds
  as exact rationals.\<close>

definition ASPECT_RATIO_RANGES :: "(aspect_key \<times> rat \<times> rat) list" where
  "ASPECT_RATIO_RANGES =
     [(SquareIsh, 751 / 1000, 1250 / 1000), (PortraitIsh, 1251 / 1000, 1800 / 1000),
      (LandscapeIsh, 561 / 1000, 750 / 1000), (UltraWide, 1801 / 1000, 3000 / 1000),
      (UltraNarrow, 333 / 1000, 560 / 1000)]"

text \<open>\<open>get_aspect_ratio\<close> (lines 398--399): width over height, raising on a zero height.\<close>

definition get_aspect_ratio :: "int \<Rightarrow> int \<Rightarrow> rat py_result" where
  "get_aspect_ratio w h = (if h = 0 then Inl ZeroDivisionError else Inr (of_int w / of_int h))"

text \<open>\<open>get_aspect_ratio_dict_key\<close> (lines 391--395): the first bucket whose closed range
  holds the ratio, or \<open>None\<close>.\<close>

definition get_aspect_ratio_dict_key :: "rat \<Rightarrow> aspect_key option" where
  "get_aspect_ratio_dict_key r = map_option fst (find (\<lambda>(k, lo, hi). lo \<le> r \<and> r \<le> hi) ASPECT_RATIO_RANGES)"

text \<open>The loop of \<open>create_aspect_ratio_sorted_list_of_images_from_directory\<close> (lines
  376--383) over the paths the directory walk found; \<open>reader\<close> is \<open>cv2.imread\<close>, with
  \<open>None\<close> for a file it cannot decode.\<close>

fun sort_images_by_aspect :: "(path \<Rightarrow> (int \<times> int) option) \<Rightarrow> path list \<Rightarrow> catalogue \<Rightarrow> catalogue py_result" where
  "sort_images_by_aspect reader [] cat = Inr cat"
| "sort_images_by_aspect reader (p # ps) cat =
     (case reader p of
        None \<Rightarrow> sort_images_by_aspect reader ps cat
      | Some (w, h) \<Rightarrow>
          ebind (get_aspect_ratio w h) (\<lambda>r.
            case get_aspect_ratio_dict_key r of
              None \<Rightarrow> sort_images_by_aspect reader ps cat
            | Some k \<Rightarrow> sort_images_by_aspect reader ps (cat(k := cat k @ [p]))))"

text \<open>Lines 370--384: every bucket starts empty.\<close>

definition create_aspect_ratio_sorted_list_of_images :: "(path \<Rightarrow> (int \<times> int) option) \<Rightarrow> path list \<Rightarrow> catalogue py_result" where
  "create_aspect_ratio_sorted_list_of_images reader paths = sort_images_by_aspect reader paths (\<lambda>_. [])"

text \<open>The classification an image file gets, as a reference for the sorting loop.\<close>

definition classify_path :: "(path \<Rightarrow> (int \<times> int) option) \<Rightarrow> path \<Rightarrow> aspect_key option" where
  "classify_path reader p =
     (case reader p of None \<Rightarrow> None
      | Some (w, h) \<Rightarrow> get_aspect_ratio_dict_key (of_int w / of_int h))"

text \<open>\<open>aspect_ratio_preference_order\<close> of the three heuristics (lines 79--84, 97--102,
  115--118).\<close>

fun aspect_ratio_preference_order :: "layout_heuristic \<Rightarrow> aspect_key list" where
  "aspect_ratio_preference_order HorizontalH = [LandscapeIsh, SquareIsh, UltraWide, PortraitIsh, UltraNarrow]"
| "aspect_ratio_preference_order VerticalH = [PortraitIsh, SquareIsh, UltraNarrow, LandscapeIsh, UltraWide]"
| "aspect_ratio_preference_order GridH = [SquareIsh, PortraitIsh, LandscapeIsh]"

text \<open>Lines 161--168: the heuristic of a container by its class; any other item leaves
  \<open>heuristic_name\<close> at \<open>None\<close> and the lookup \<open>LAYOUT_HEURISTICS[None]\<close> raises.\<close>

fun container_heuristic :: "item \<Rightarrow> layout_heuristic py_result" where
  "container_heuristic (Container _ HorizontalLayout _ _) = Inr HorizontalH"
| "container_heuristic (Container _ VerticalLayout _ _) = Inr VerticalH"
| "container_heuristic (Container _ (GridLayout _ _ _ _) _ _) = Inr GridH"
| "container_heuristic _ = Inl KeyError"

text \<open>\<open>get_random_item_from_list_then_remove\<close> (lines 437--440): \<open>random.choice\<close>, then
  \<open>list.remove\<close> of the first equal path.\<close>

definition get_random_item_from_list_then_remove :: "path list \<Rightarrow> (path \<times> path list) gen" where
  "get_random_item_from_list_then_remove items =
     gbind (rand_choice items) (\<lambda>p. greturn (p, remove1 p items))"

section \<open>Filling one container\<close>

text \<open>The inner loop of lines 172--181: the first bucket in preference order that still
  has images gives up a random one, which is framed (no padding, grey background) and added
  if it fits; the loop goes on to the next bucket otherwise, and the image taken stays out of
  the catalogue. The result says whether an image was added (the \<open>break\<close>).\<close>

fun try_aspects :: "image_files \<Rightarrow> item \<Rightarrow> catalogue \<Rightarrow> aspect_key list \<Rightarrow> (bool \<times> item \<times> catalogue) gen" where
  "try_aspects files con cat [] = greturn (False, con, cat)"
| "try_aspects files con cat (a # as) =
     (if cat a = [] then try_aspects files con cat as
      else gbind (get_random_item_from_list_then_remove (cat a)) (\<lambda>(p, rest).
        let cat' = cat(a := rest) in
        gbind fresh_oid (\<lambda>img_oid. gbind fresh_oid (\<lambda>frame_oid.
          gbind (glift (create_image_frame_container frame_oid (Image img_oid (fst (files p)) (snd (files p)))
                          [0, 0, 0, 0] [235, 235, 235] 50 50)) (\<lambda>frame.
            gbind (glift (can_next_item_fit con frame)) (\<lambda>(ok, con1).
              if ok then gbind (glift (add_item con1 frame)) (\<lambda>con2. greturn (True, con2, cat'))
              else try_aspects files con1 cat' as))))))"

text \<open>The outer loop of lines 170--183: at most \<open>capacity\<close> rounds, stopping at the first
  round in which no image was added (the \<open>for ... else: break\<close>).\<close>

fun fill_slots :: "nat \<Rightarrow> image_files \<Rightarrow> layout_heuristic \<Rightarrow> item \<Rightarrow> catalogue \<Rightarrow> (item \<times> catalogue) gen" where
  "fill_slots 0 files h con cat = greturn (con, cat)"
| "fill_slots (Suc k) files h con cat =
     gbind (try_aspects files con cat (aspect_ratio_preference_order h)) (\<lambda>(added, con', cat').
       if added then fill_slots k files h con' cat' else greturn (con', cat'))"

fun item_capacity :: "item \<Rightarrow> int py_result" where
  "item_capacity (Container _ _ c _) = Inr (capacity c)"
| "item_capacity (Image _ _ _) = Inl AttributeError"

definition populate_container :: "image_files \<Rightarrow> item \<Rightarrow> catalogue \<Rightarrow> (item \<times> catalogue) gen" where
  "populate_container files con cat =
     gbind (glift (container_heuristic con)) (\<lambda>h.
       gbind (glift (item_capacity con)) (\<lambda>cap. fill_slots (nat cap) files h con cat))"

section \<open>Reaching a container through its reference\<close>

fun update_node :: "oid \<Rightarrow> (item \<Rightarrow> catalogue \<Rightarrow> (item \<times> catalogue) gen) \<Rightarrow> item \<Rightarrow> catalogue \<Rightarrow> (item \<times> catalogue) gen"
and update_nodes :: "oid \<Rightarrow> (item \<Rightarrow> catalogue \<Rightarrow> (item \<times> catalogue) gen) \<Rightarrow> item list \<Rightarrow> catalogue \<Rightarrow> (item list \<times> catalogue) gen"
where
  "update_node i f (Image oi w h) cat = greturn (Image oi w h, cat)"
| "update_node i f (Container oi k c xs) cat =
     (if oi = i then f (Container oi k c xs) cat
      else gbind (update_nodes i f xs cat) (\<lambda>(xs', cat'). greturn (Container oi k c xs', cat')))"
| "update_nodes i f [] cat = greturn ([], cat)"
| "update_nodes i f (x # xs) cat =
     gbind (update_node i f x cat) (\<lambda>(x', cat'). gbind (update_nodes i f xs cat') (\<lambda>(xs', cat'').
       greturn (x' # xs', cat'')))"

text \<open>\<open>populate_bottom_level_containers\<close>: the containers in the order the generator
  listed them.\<close>

fun populate_bottom_level_containers :: "image_files \<Rightarrow> oid list \<Rightarrow> item \<Rightarrow> catalogue \<Rightarrow> (item \<times> catalogue) gen" where
  "populate_bottom_level_containers files [] main cat = greturn (main, cat)"
| "populate_bottom_level_containers files (b # bs) main cat =
     gbind (update_node b (populate_container files) main cat) (\<lambda>(main', cat').
       populate_bottom_level_containers files bs main' cat')"

text \<open>One iteration of \<open>run\<close> (lines 149--153) up to the rendering: generate, then
  populate a copy of the catalogue.\<close>

definition make_collage :: "nat \<Rightarrow> image_files \<Rightarrow> catalogue \<Rightarrow> gen_state \<Rightarrow> ((item \<times> catalogue) \<times> gen_state) py_result option" where
  "make_collage fuel files cat s =
     fbind (generate_random_layouts fuel s) (\<lambda>(main, bs) s1.
       Some (populate_bottom_level_containers files bs main cat s1))"

text \<open>The raster source's contract (specification, section 6): every file decodes to an
  image of positive width and height.\<close>

definition files_ok :: "image_files \<Rightarrow> bool" where
  "files_ok files \<longleftrightarrow> (\<forall>p. 0 < fst (files p) \<and> 0 < snd (files p))"

section \<open>Lemmas\<close>

declare get_random_item_from_list_then_remove_def [eval_simps] populate_container_def [eval_simps]
  make_collage_def [eval_simps]

lemma try_aspects_wf:
  "try_aspects files con cat as s = Inr ((b, con', cat'), s') \<Longrightarrow> wf_item con \<Longrightarrow> files_ok files \<Longrightarrow> wf_item con'"
proof (induction as arbitrary: con cat s)
  case Nil
  then show ?case by simp
next
  case (Cons a as)
  show ?case
  proof (cases "cat a = []")
    case True
    then show ?thesis using Cons by simp
  next
    case False
    then obtain p rest s1 img_oid frame_oid frame s2 ok con1 where
      fr: "create_image_frame_container frame_oid (Image img_oid (fst (files p)) (snd (files p)))
             [0, 0, 0, 0] [235, 235, 235] 50 50 = Inr frame"
      and fit: "can_next_item_fit con frame = Inr (ok, con1)"
      and rest: "(if ok then gbind (glift (add_item con1 frame)) (\<lambda>con2. greturn (True, con2, cat(a := rest)))
                  else try_aspects files con1 (cat(a := rest)) as) s2 = Inr ((b, con', cat'), s')"
      using Cons.prems(1) by (auto simp: gbind_eq_Inr Let_def split: prod.splits)
    have wi: "wf_item (Image img_oid (fst (files p)) (snd (files p)))"
      using Cons.prems(3) by (simp add: files_ok_def)
    have wfr: "wf_item frame" by (rule create_image_frame_wf [OF fr wi])
    have w1: "wf_item con1" using can_next_item_fit_wf [OF fit Cons.prems(2) wfr] by simp
    show ?thesis
    proof (cases ok)
      case True
      then show ?thesis using rest add_item_wf [OF w1 wfr] by (auto simp: gbind_eq_Inr)
    next
      case False
      then show ?thesis using rest Cons.IH [OF _ w1 Cons.prems(3)] by auto
    qed
  qed
qed

lemma fill_slots_wf:
  "fill_slots k files h con cat s = Inr ((con', cat'), s') \<Longrightarrow> wf_item con \<Longrightarrow> files_ok files \<Longrightarrow> wf_item con'"
proof (induction k arbitrary: con cat s)
  case 0
  then show ?case by simp
next
  case (Suc k)
  then obtain b con1 cat1 s1 where t: "try_aspects files con cat (aspect_ratio_preference_order h) s = Inr ((b, con1, cat1), s1)"
    and r: "(if b then fill_slots k files h con1 cat1 else greturn (con1, cat1)) s1 = Inr ((con', cat'), s')"
    by (auto simp: gbind_eq_Inr split: prod.splits)
  have "wf_item con1" by (rule try_aspects_wf [OF t Suc.prems(2,3)])
  then show ?case using r Suc.IH Suc.prems(3) by (cases b) auto
qed

lemma populate_container_wf:
  "populate_container files con cat s = Inr ((con', cat'), s') \<Longrightarrow> wf_item con \<Longrightarrow> files_ok files \<Longrightarrow> wf_item con'"
  by (auto simp: populate_container_def gbind_eq_Inr intro: fill_slots_wf)

lemma update_node_wf:
  "update_node i f x cat s = Inr ((x', cat'), s') \<Longrightarrow> wf_item x \<Longrightarrow>
     (\<And>y c0 s0 y' c1 s1. f y c0 s0 = Inr ((y', c1), s1) \<Longrightarrow> wf_item y \<Longrightarrow> wf_item y') \<Longrightarrow> wf_item x'"
  "update_nodes i f xs cat s = Inr ((xs', cat'), s') \<Longrightarrow> \<forall>x \<in> set xs. wf_item x \<Longrightarrow>
     (\<And>y c0 s0 y' c1 s1. f y c0 s0 = Inr ((y', c1), s1) \<Longrightarrow> wf_item y \<Longrightarrow> wf_item y') \<Longrightarrow>
     length xs' = length xs \<and> (\<forall>x \<in> set xs'. wf_item x)"
proof (induction i f x cat and i f xs cat arbitrary: s x' cat' s' and s xs' cat' s' rule: update_node_update_nodes.induct)
  case (1 i f oi w h cat)
  then show ?case by simp
next
  case (2 i f oi k c xs cat)
  show ?case
  proof (cases "oi = i")
    case True
    then have "f (Container oi k c xs) cat s = Inr ((x', cat'), s')" using "2.prems"(1) by simp
    then show ?thesis using "2.prems"(2,3) by blast
  next
    case False
    then obtain xs1 where u: "update_nodes i f xs cat s = Inr ((xs1, cat'), s')" and x': "x' = Container oi k c xs1"
      using "2.prems"(1) by (auto simp: gbind_eq_Inr split: prod.splits)
    have "length xs1 = length xs \<and> (\<forall>x \<in> set xs1. wf_item x)"
      using "2.IH" [OF False u] "2.prems"(2,3) by simp
    moreover have "kind_struct_inv k c xs1" using calculation "2.prems"(2) by (cases k) auto
    ultimately show ?thesis using x' "2.prems"(2) by simp
  qed
next
  case (3 i f cat)
  then show ?case by simp
next
  case (4 i f x xs cat)
  then show ?case by (auto simp: gbind_eq_Inr split: prod.splits)
qed

lemma populate_bottom_level_containers_wf:
  "populate_bottom_level_containers files bs main cat s = Inr ((main', cat'), s') \<Longrightarrow> wf_item main \<Longrightarrow>
     files_ok files \<Longrightarrow> wf_item main'"
proof (induction bs arbitrary: main cat s)
  case Nil
  then show ?case by simp
next
  case (Cons b bs)
  then obtain m1 c1 s1 where u: "update_node b (populate_container files) main cat s = Inr ((m1, c1), s1)"
    and r: "populate_bottom_level_containers files bs m1 c1 s1 = Inr ((main', cat'), s')"
    by (auto simp: gbind_eq_Inr split: prod.splits)
  have "wf_item m1"
    using update_node_wf(1) [OF u Cons.prems(2)] populate_container_wf Cons.prems(3) by blast
  then show ?case using Cons.IH [OF r _ Cons.prems(3)] by blast
qed

lemma get_random_item_Inr:
  assumes "get_random_item_from_list_then_remove xs s = Inr ((p, rest), s')"
  shows "p \<in> set xs \<and> rest = remove1 p xs"
proof -
  have "xs \<noteq> []" using assms by (auto simp: get_random_item_from_list_then_remove_def gbind_eq_Inr rand_choice_def)
  then show ?thesis using assms
    by (auto simp: get_random_item_from_list_then_remove_def gbind_eq_Inr rand_choice_def greturn_def
             split: list.splits)
qed

text \<open>A collage on a concrete random source and catalogue, used by the witnesses.\<close>

lemma make_collage_demo:
  "\<exists>main cat' s'. make_collage 3 (\<lambda>_. (100, 150)) ((\<lambda>_. [])(PortraitIsh := [7, 8, 9], SquareIsh := [4]))
      \<lparr>rng = [1, 1, 0, 2, 1], next_oid = 1\<rparr> = Some (Inr ((main, cat'), s'))"
  by (simp add: eval_simps eval_nat_numeral Let_def)

text \<open>C24: a collage built by \<open>run\<close>, the generated tree populated with framed images,
  is well-formed whenever every image file decodes to a positive size: no container holds more
  than its capacity, grids keep their cells, every frame holds exactly its one image.\<close>

theorem make_collage_wf:
  "make_collage fuel files cat s = Some (Inr (((main, cat'), s'))) \<Longrightarrow> files_ok files \<Longrightarrow> wf_item main"
proof -
  assume m: "make_collage fuel files cat s = Some (Inr (((main, cat'), s')))" and f: "files_ok files"
  then obtain g bs s1 where g: "generate_random_layouts fuel s = Some (Inr ((g, bs), s1))"
    and p: "populate_bottom_level_containers files bs g cat s1 = Inr ((main, cat'), s')"
    by (auto simp: make_collage_def fbind_eq_Some_Inr split: prod.splits)
  show "wf_item main"
  proof (cases "gbind (rand_int 1 2) (\<lambda>nest. gbind (rand_int 1 3) (\<lambda>cap. gbind fresh_oid (\<lambda>oi.
             gbind (glift (create_horizontal_container oi 1920 1080 cap PADDING_SMALL COLOR_WHITE GUTTERS_SMALL 50 50))
               (\<lambda>main. gbind (glift (item_drawable main)) (\<lambda>md. greturn (nest, main, md)))))) s")
    case (Inl e)
    then show ?thesis using g by (simp add: generate_random_layouts_def)
  next
    case (Inr q)
    then obtain nest m0 md s0 where q: "q = ((nest, m0, md), s0)" by (cases q) auto
    then have "generate_random_sub_layouts fuel m0 (fst md) (snd md) md nest [HorizontalH] s0 = Some (Inr ((g, bs), s1))"
      using g Inr by (simp add: generate_random_layouts_def)
    moreover have "wf_item m0" using generate_random_layouts_prefix Inr q by blast
    ultimately have "wf_item g" by (rule generate_wf(1))
    then show ?thesis using populate_bottom_level_containers_wf [OF p _ f] by blast
  qed
qed

theorem make_collage_wf_witness:
  "\<exists>main cat' s'. make_collage 3 (\<lambda>_. (100, 150)) ((\<lambda>_. [])(PortraitIsh := [7, 8, 9], SquareIsh := [4])) \<lparr>rng = [1, 1, 0, 2, 1], next_oid = 1\<rparr> = Some (Inr ((main, cat'), s')) \<and> wf_item main"
proof -
  obtain main cat' s' where r: "make_collage 3 (\<lambda>_. (100, 150)) ((\<lambda>_. [])(PortraitIsh := [7, 8, 9], SquareIsh := [4])) \<lparr>rng = [1, 1, 0, 2, 1], next_oid = 1\<rparr> = Some (Inr ((main, cat'), s'))"
    using make_collage_demo by blast
  have "files_ok (\<lambda>_. (100, 150))" by (simp add: files_ok_def)
  then show ?thesis using r make_collage_wf [OF r] by blast
qed

lemma sort_images_by_aspect_filter:
  assumes "\<forall>p \<in> set ps. \<forall>w h. reader p = Some (w, h) \<longrightarrow> h \<noteq> 0"
  shows "sort_images_by_aspect reader ps cat = Inr (\<lambda>k. cat k @ filter (\<lambda>p. classify_path reader p = Some k) ps)"
  using assms
proof (induction ps arbitrary: cat)
  case Nil
  then show ?case by simp
next
  case (Cons p ps)
  show ?case
  proof (cases "reader p")
    case None
    then show ?thesis using Cons by (simp add: classify_path_def)
  next
    case (Some wh)
    then obtain w h where wh: "reader p = Some (w, h)" by (cases wh) auto
    with Cons.prems have "h \<noteq> 0" by auto
    then show ?thesis using Cons wh
      by (auto simp: classify_path_def get_aspect_ratio_def fun_eq_iff split: option.splits)
  qed
qed

text \<open>C25: sorting the images into buckets is a stable partition by classification: each
  bucket receives, in directory order, exactly the paths whose image decodes and whose aspect
  ratio falls into that bucket's range; undecodable and unclassified images are dropped.\<close>

theorem create_aspect_ratio_sorted_list_of_images_eq:
  assumes "\<forall>p \<in> set paths. \<forall>w h. reader p = Some (w, h) \<longrightarrow> h \<noteq> 0"
  shows "create_aspect_ratio_sorted_list_of_images reader paths =
           Inr (\<lambda>k. filter (\<lambda>p. classify_path reader p = Some k) paths)"
  using sort_images_by_aspect_filter [OF assms, of "\<lambda>_. []"]
  by (simp add: create_aspect_ratio_sorted_list_of_images_def)

theorem create_aspect_ratio_sorted_list_of_images_eq_witness:
  "create_aspect_ratio_sorted_list_of_images (\<lambda>p. if p = 3 then None else Some (int p * 100, 100)) [1, 2, 3]
     = Inr (\<lambda>k. filter (\<lambda>p. classify_path (\<lambda>p. if p = 3 then None else Some (int p * 100, 100)) p = Some k) [1, 2, 3])
   \<and> classify_path (\<lambda>p. if p = 3 then None else Some (int p * 100, 100)) 1 = Some SquareIsh
   \<and> classify_path (\<lambda>p. if p = 3 then None else Some (int p * 100, 100)) 2 = Some UltraWide"
proof -
  have "\<forall>p \<in> set [1, 2, 3]. \<forall>w h. (\<lambda>p. if p = 3 then None else Some (int p * 100, 100)) p = Some (w, h) \<longrightarrow> h \<noteq> (0::int)"
    by simp
  from create_aspect_ratio_sorted_list_of_images_eq [OF this] show ?thesis
    by (simp add: classify_path_def get_aspect_ratio_dict_key_def ASPECT_RATIO_RANGES_def)
qed




end
