(* ===== verification/Render.thy ===== *)
theory Render
  imports Layout_Logic
begin

text \<open>
  Rendering, \<open>get_drawable_image\<close> (layout_container.py 146--156,
  image_frame_container.py 88--108, image.py 53--54). A numpy image of shape
  \<open>(height, width, 3)\<close> is the record \<open>canvas\<close>: its two extents and its pixels, a
  function from row and column to a colour (the three channels as a list). The pixels of an
  image file are not modelled: they are the uninterpreted function \<open>pix\<close> of the image's
  identity. What is modelled exactly is the part of numpy the code relies on: \<open>ns.ones\<close>
  refuses a negative extent, a slice \<open>a:b\<close> is clipped the way Python clips it, and the
  assignment \<open>image[y0:y1, x0:x1] = child\<close> needs the child's shape to broadcast to the
  slice's (equal extents, or an extent 1 in the child), raising \<open>ValueError\<close> otherwise.
\<close>

type_synonym colour = "int list"

record canvas =
  cv_height :: int
  cv_width :: int
  cv_pixel :: "int \<Rightarrow> int \<Rightarrow> colour"

text \<open>\<open>ns.ones((h, w, 3)) * background_color[::-1]\<close>: every pixel the colour reversed
  to BGR.\<close>

definition np_filled :: "int \<Rightarrow> int \<Rightarrow> colour \<Rightarrow> canvas py_result" where
  "np_filled h w col =
     (if h < 0 \<or> w < 0 then Inl ValueError else Inr \<lparr>cv_height = h, cv_width = w, cv_pixel = (\<lambda>y x. col)\<rparr>)"

text \<open>The start and stop of the slice \<open>a:b\<close> of a sequence of length \<open>n\<close>: a negative
  index counts from the end, both are clipped to \<open>[0, n]\<close>, and an empty slice has
  \<open>stop = start\<close>.\<close>

definition py_slice_index :: "int \<Rightarrow> int \<Rightarrow> int" where
  "py_slice_index n i = (if i < 0 then max 0 (i + n) else min i n)"

definition py_slice :: "int \<Rightarrow> int \<Rightarrow> int \<Rightarrow> int \<times> int" where
  "py_slice n a b = (let s = py_slice_index n a; e = py_slice_index n b in (s, max s e))"

text \<open>\<open>dst[y0:y1, x0:x1] = src\<close> with numpy's broadcasting of \<open>src\<close> to the slice.\<close>

definition paste :: "canvas \<Rightarrow> int \<Rightarrow> int \<Rightarrow> int \<Rightarrow> int \<Rightarrow> canvas \<Rightarrow> canvas py_result" where
  "paste dst y0 y1 x0 x1 src =
     (let (ys, ye) = py_slice (cv_height dst) y0 y1; (xs, xe) = py_slice (cv_width dst) x0 x1 in
      if (cv_height src = ye - ys \<or> cv_height src = 1) \<and> (cv_width src = xe - xs \<or> cv_width src = 1)
      then Inr (dst\<lparr>cv_pixel := (\<lambda>y x.
             if ys \<le> y \<and> y < ye \<and> xs \<le> x \<and> x < xe
             then cv_pixel src (if cv_height src = 1 then 0 else y - ys) (if cv_width src = 1 then 0 else x - xs)
             else cv_pixel dst y x)\<rparr>)
      else Inl ValueError)"

text \<open>\<open>get_drawable_image\<close>: an image returns its own buffer; a frame paints its one child
  at the corner its strategy computes, with the extent of the child's rendered buffer; any
  other container paints its children in order into the rectangles of its strategy, taking
  them with \<open>coordinates.pop(0)\<close>.\<close>

fun render :: "(oid \<Rightarrow> int \<Rightarrow> int \<Rightarrow> colour) \<Rightarrow> item \<Rightarrow> canvas py_result"
and render_children :: "(oid \<Rightarrow> int \<Rightarrow> int \<Rightarrow> colour) \<Rightarrow> canvas \<Rightarrow> rect list \<Rightarrow> item list \<Rightarrow> canvas py_result"
where
  "render pix (Image oi w h) = Inr \<lparr>cv_height = h, cv_width = w, cv_pixel = pix oi\<rparr>"
| "render pix (Container oi FrameLayout c xs) =
     ebind (np_filled (con_height c) (con_width c) (rev (background_color c))) (\<lambda>cv.
       case (frame_layout_coordinates c xs, xs) of
         ((x, y) # _, it # _) \<Rightarrow>
           ebind (render pix it) (\<lambda>src. paste cv y (y + cv_height src) x (x + cv_width src) src)
       | _ \<Rightarrow> Inl IndexError)"
| "render pix (Container oi HorizontalLayout c xs) =
     ebind (np_filled (con_height c) (con_width c) (rev (background_color c))) (\<lambda>cv.
       render_children pix cv (layout_coordinates HorizontalLayout c xs) xs)"
| "render pix (Container oi VerticalLayout c xs) =
     ebind (np_filled (con_height c) (con_width c) (rev (background_color c))) (\<lambda>cv.
       render_children pix cv (layout_coordinates VerticalLayout c xs) xs)"
| "render pix (Container oi (GridLayout rows cols cw ch) c xs) =
     ebind (np_filled (con_height c) (con_width c) (rev (background_color c))) (\<lambda>cv.
       render_children pix cv (layout_coordinates (GridLayout rows cols cw ch) c xs) xs)"
| "render_children pix cv rs [] = Inr cv"
| "render_children pix cv [] (it # its) = Inl IndexError"
| "render_children pix cv ((x0, y0, x1, y1) # rs) (it # its) =
     ebind (render pix it) (\<lambda>src. ebind (paste cv y0 y1 x0 x1 src) (\<lambda>cv'. render_children pix cv' rs its))"

section \<open>A tree that can be drawn\<close>

text \<open>Every child's rectangle lies in its parent's buffer and has the child's extent.\<close>

fun drawable_ok :: "item \<Rightarrow> bool"
and children_drawable_ok :: "int \<Rightarrow> int \<Rightarrow> rect list \<Rightarrow> item list \<Rightarrow> bool"
where
  "drawable_ok (Image _ w h) \<longleftrightarrow> 0 \<le> w \<and> 0 \<le> h"
| "drawable_ok (Container _ FrameLayout c xs) \<longleftrightarrow>
     0 \<le> con_height c \<and> 0 \<le> con_width c \<and>
     (case (frame_layout_coordinates c xs, xs) of
        ((x, y) # _, it # _) \<Rightarrow>
          children_drawable_ok (con_width c) (con_height c) [(x, y, x + get_width it, y + get_height it)] [it]
      | _ \<Rightarrow> False)"
| "drawable_ok (Container _ HorizontalLayout c xs) \<longleftrightarrow>
     0 \<le> con_height c \<and> 0 \<le> con_width c \<and>
     children_drawable_ok (con_width c) (con_height c) (layout_coordinates HorizontalLayout c xs) xs"
| "drawable_ok (Container _ VerticalLayout c xs) \<longleftrightarrow>
     0 \<le> con_height c \<and> 0 \<le> con_width c \<and>
     children_drawable_ok (con_width c) (con_height c) (layout_coordinates VerticalLayout c xs) xs"
| "drawable_ok (Container _ (GridLayout rows cols cw ch) c xs) \<longleftrightarrow>
     0 \<le> con_height c \<and> 0 \<le> con_width c \<and>
     children_drawable_ok (con_width c) (con_height c) (layout_coordinates (GridLayout rows cols cw ch) c xs) xs"
| "children_drawable_ok w h rs [] \<longleftrightarrow> True"
| "children_drawable_ok w h [] (it # its) \<longleftrightarrow> False"
| "children_drawable_ok w h ((x0, y0, x1, y1) # rs) (it # its) \<longleftrightarrow>
     0 \<le> x0 \<and> x1 \<le> w \<and> 0 \<le> y0 \<and> y1 \<le> h \<and> x1 - x0 = get_width it \<and> y1 - y0 = get_height it
     \<and> drawable_ok it \<and> children_drawable_ok w h rs its"


section \<open>Lemmas\<close>

lemma py_slice_in: "0 \<le> a \<Longrightarrow> a \<le> b \<Longrightarrow> b \<le> n \<Longrightarrow> py_slice n a b = (a, b)"
  by (simp add: py_slice_def py_slice_index_def Let_def)

lemma paste_dims:
  "paste dst y0 y1 x0 x1 src = Inr cv \<Longrightarrow> cv_height cv = cv_height dst \<and> cv_width cv = cv_width dst"
  by (auto simp: paste_def Let_def split: prod.splits if_splits)

lemma py_slice_bounds:
  "0 \<le> n \<Longrightarrow> py_slice n a b = (s, e) \<Longrightarrow> 0 \<le> s \<and> s \<le> e \<and> e \<le> n"
  by (auto simp: py_slice_def py_slice_index_def Let_def)

lemma paste_fits:
  assumes "0 \<le> y0" "y1 \<le> cv_height dst" "0 \<le> x0" "x1 \<le> cv_width dst"
    and "cv_height src = y1 - y0" "cv_width src = x1 - x0" "0 \<le> cv_height src" "0 \<le> cv_width src"
  shows "\<exists>cv. paste dst y0 y1 x0 x1 src = Inr cv"
  using assms by (simp add: paste_def py_slice_in)


lemma np_filled_Inr: "np_filled h w col = Inr cv \<Longrightarrow> cv_height cv = h \<and> cv_width cv = w"
  by (auto simp: np_filled_def split: if_splits)

lemma render_size:
  "render pix it = Inr cv \<Longrightarrow> cv_height cv = get_height it \<and> cv_width cv = get_width it"
  "render_children pix cv0 rs xs = Inr cv \<Longrightarrow> cv_height cv = cv_height cv0 \<and> cv_width cv = cv_width cv0"
proof (induction pix it and pix cv0 rs xs arbitrary: cv and cv rule: render_render_children.induct)
  case (1 pix oi w h)
  then show ?case by auto
next
  case (2 pix oi c xs)
  then obtain cv1 where "np_filled (con_height c) (con_width c) (rev (background_color c)) = Inr cv1"
    and r: "(case (frame_layout_coordinates c xs, xs) of
         ((x, y) # _, it # _) \<Rightarrow>
           ebind (render pix it) (\<lambda>src. paste cv1 y (y + cv_height src) x (x + cv_width src) src)
       | _ \<Rightarrow> Inl IndexError) = Inr cv"
    by (auto simp: ebind_eq_Inr)
  then have d: "cv_height cv1 = con_height c \<and> cv_width cv1 = con_width c" by (auto dest: np_filled_Inr)
  obtain x y rest it its where "frame_layout_coordinates c xs = (x, y) # rest" "xs = it # its"
    using r by (auto split: list.splits prod.splits)
  with r obtain src where "paste cv1 y (y + cv_height src) x (x + cv_width src) src = Inr cv"
    by (auto simp: ebind_eq_Inr)
  then show ?case using d paste_dims by fastforce
next
  case (3 pix oi c xs)
  then obtain cv1 where n: "np_filled (con_height c) (con_width c) (rev (background_color c)) = Inr cv1"
    and r: "render_children pix cv1 (layout_coordinates HorizontalLayout c xs) xs = Inr cv"
    by (auto simp: ebind_eq_Inr)
  show ?case using "3.IH" [OF r] np_filled_Inr [OF n] by simp
next
  case (4 pix oi c xs)
  then obtain cv1 where n: "np_filled (con_height c) (con_width c) (rev (background_color c)) = Inr cv1"
    and r: "render_children pix cv1 (layout_coordinates VerticalLayout c xs) xs = Inr cv"
    by (auto simp: ebind_eq_Inr)
  show ?case using "4.IH" [OF r] np_filled_Inr [OF n] by simp
next
  case (5 pix oi rows cols cw ch c xs)
  then obtain cv1 where n: "np_filled (con_height c) (con_width c) (rev (background_color c)) = Inr cv1"
    and r: "render_children pix cv1 (layout_coordinates (GridLayout rows cols cw ch) c xs) xs = Inr cv"
    by (auto simp: ebind_eq_Inr)
  show ?case using "5.IH" [OF r] np_filled_Inr [OF n] by simp
next
  case (6 pix cv0 rs)
  then show ?case by simp
next
  case (7 pix cv0 it its)
  then show ?case by simp
next
  case (8 pix cv0 x0 y0 x1 y1 rs it its)
  then obtain src cv1 where s: "render pix it = Inr src" and p: "paste cv0 y0 y1 x0 x1 src = Inr cv1"
    and r: "render_children pix cv1 rs its = Inr cv"
    by (auto simp: ebind_eq_Inr)
  show ?case using "8.IH"(2) [OF r] paste_dims [OF p] by simp
qed


lemma np_filled_ok: "0 \<le> h \<Longrightarrow> 0 \<le> w \<Longrightarrow> np_filled h w col = Inr \<lparr>cv_height = h, cv_width = w, cv_pixel = (\<lambda>y x. col)\<rparr>"
  by (simp add: np_filled_def)

lemma children_drawable_ok_nth:
  "length rs = length xs \<Longrightarrow>
   (\<forall>i < length xs. case rs ! i of (x0, y0, x1, y1) \<Rightarrow>
      0 \<le> x0 \<and> x1 \<le> w \<and> 0 \<le> y0 \<and> y1 \<le> h \<and> x1 - x0 = get_width (xs ! i) \<and> y1 - y0 = get_height (xs ! i)
      \<and> drawable_ok (xs ! i)) \<Longrightarrow>
   children_drawable_ok w h rs xs"
proof (induction xs arbitrary: rs)
  case Nil
  then show ?case by simp
next
  case (Cons x xs)
  then obtain r rs' where rs: "rs = r # rs'" by (cases rs) auto
  obtain x0 y0 x1 y1 where r: "r = (x0, y0, x1, y1)" by (cases r) auto
  have "children_drawable_ok w h rs' xs"
    using Cons.IH [of rs'] Cons.prems rs by fastforce
  moreover have "0 \<le> x0 \<and> x1 \<le> w \<and> 0 \<le> y0 \<and> y1 \<le> h \<and> x1 - x0 = get_width x \<and> y1 - y0 = get_height x
      \<and> drawable_ok x"
    using Cons.prems(2) rs r by fastforce
  ultimately show ?case using rs r by simp
qed

lemma drawable_ok_dims: "drawable_ok it \<Longrightarrow> 0 \<le> get_width it \<and> 0 \<le> get_height it"
proof (cases it)
  case (Container oi k c xs)
  then show "drawable_ok it \<Longrightarrow> ?thesis" by (cases k) auto
qed auto

lemma render_ok:
  "drawable_ok it \<Longrightarrow> \<exists>cv. render pix it = Inr cv"
  "children_drawable_ok w h rs xs \<Longrightarrow> cv_height cv0 = h \<Longrightarrow> cv_width cv0 = w \<Longrightarrow>
     \<exists>cv. render_children pix cv0 rs xs = Inr cv"
proof (induction pix it and pix cv0 rs xs arbitrary: and w h rule: render_render_children.induct)
  case (1 pix oi w h)
  then show ?case by simp
next
  case (2 pix oi c xs)
  obtain it its where xs: "xs = it # its" using "2.prems" by (cases xs) (auto simp: frame_layout_coordinates_def)
  define x where "x = padding_left c + half (max_drawable_width c - get_width it)"
  define y where "y = padding_top c + half (max_drawable_height c - get_height it)"
  have fc: "frame_layout_coordinates c (it # its) = [(x, y)]"
    by (simp add: frame_layout_coordinates_def x_def y_def)
  have pr: "drawable_ok (Container oi FrameLayout c xs)" by (rule "2.prems")
  have ok: "0 \<le> con_height c" "0 \<le> con_width c"
    and ch: "children_drawable_ok (con_width c) (con_height c) [(x, y, x + get_width it, y + get_height it)] [it]"
    using pr unfolding xs drawable_ok.simps fc by simp_all
  then have d: "drawable_ok it" "0 \<le> x" "x + get_width it \<le> con_width c" "0 \<le> y" "y + get_height it \<le> con_height c"
    by simp_all
  obtain src where s: "render pix it = Inr src" using "2.IH" d(1) xs fc by blast
  have sz: "cv_height src = get_height it" "cv_width src = get_width it" using render_size(1) [OF s] by simp_all
  have nn: "0 \<le> get_width it" "0 \<le> get_height it" using drawable_ok_dims [OF d(1)] by simp_all
  define dst where "dst = \<lparr>cv_height = con_height c, cv_width = con_width c, cv_pixel = (\<lambda>y x. rev (background_color c))\<rparr>"
  obtain cv where p: "paste dst y (y + cv_height src) x (x + cv_width src) src = Inr cv"
    using paste_fits [of y "y + cv_height src" dst x "x + cv_width src" src] d sz nn by (auto simp: dst_def)
  show ?case using np_filled_ok [OF ok] fc xs s p by (simp add: dst_def)
next
  case (3 pix oi c xs)
  then have ok: "0 \<le> con_height c" "0 \<le> con_width c" by simp_all
  then show ?case using "3.IH" [where w = "con_width c" and h = "con_height c"] "3.prems" np_filled_ok [OF ok] by simp
next
  case (4 pix oi c xs)
  then have ok: "0 \<le> con_height c" "0 \<le> con_width c" by simp_all
  then show ?case using "4.IH" [where w = "con_width c" and h = "con_height c"] "4.prems" np_filled_ok [OF ok] by simp
next
  case (5 pix oi rows cols cw ch c xs)
  then have ok: "0 \<le> con_height c" "0 \<le> con_width c" by simp_all
  then show ?case using "5.IH" [where w = "con_width c" and h = "con_height c"] "5.prems" np_filled_ok [OF ok] by simp
next
  case (6 pix cv0 rs)
  then show ?case by simp
next
  case (7 pix cv0 it its)
  then show ?case by simp
next
  case (8 pix cv0 x0 y0 x1 y1 rs it its)
  then have r: "0 \<le> x0" "x1 \<le> w" "0 \<le> y0" "y1 \<le> h" "x1 - x0 = get_width it" "y1 - y0 = get_height it"
    and d: "drawable_ok it" and rest: "children_drawable_ok w h rs its" by auto
  obtain src where s: "render pix it = Inr src" using "8.IH"(1) d by blast
  note sz = render_size(1) [OF s]
  have "0 \<le> get_width it \<and> 0 \<le> get_height it" using drawable_ok_dims [OF d] .
  then obtain cv1 where p: "paste cv0 y0 y1 x0 x1 src = Inr cv1"
    using paste_fits [of y0 y1 cv0 x0 x1 src] r sz "8.prems"(2,3) by auto
  note pd = paste_dims [OF p]
  obtain cv where "render_children pix cv1 rs its = Inr cv"
    using "8.IH"(2) [OF rest] pd "8.prems"(2,3) by auto
  then show ?case using s p by simp
qed

text \<open>C27: the render size invariant of the specification: whenever
  \<open>get_drawable_image\<close> returns, its buffer has exactly the item's height and width.\<close>

theorem render_buffer_shape:
  assumes "render pix it = Inr cv"
  shows "cv_height cv = get_height it \<and> cv_width cv = get_width it"
  using render_size(1) [OF assms] .

theorem render_buffer_shape_witness:
  "\<exists>cv. render (\<lambda>oi y x. [0, 0, 0]) (Container 1 FrameLayout \<lparr>con_width = 200, con_height = 100, capacity = 1, padding_top = 0,
       padding_right = 0, padding_bottom = 0, padding_left = 0, background_color = [235, 235, 235],
       gutter_horizontal = 0, gutter_vertical = 0, min_content_width = 50, min_content_height = 50\<rparr>
       [Image 2 200 100]) = Inr cv \<and> cv_height cv = 100 \<and> cv_width cv = 200"
proof -
  have "drawable_ok (Container 1 FrameLayout \<lparr>con_width = 200, con_height = 100, capacity = 1, padding_top = 0,
       padding_right = 0, padding_bottom = 0, padding_left = 0, background_color = [235, 235, 235],
       gutter_horizontal = 0, gutter_vertical = 0, min_content_width = 50, min_content_height = 50\<rparr>
       [Image 2 200 100])" by (simp add: frame_layout_coordinates_def max_drawable_width_def max_drawable_height_def half_def py_int_def)
  then obtain cv where r: "render (\<lambda>oi y x. [0, 0, 0]) (Container 1 FrameLayout \<lparr>con_width = 200, con_height = 100, capacity = 1, padding_top = 0,
       padding_right = 0, padding_bottom = 0, padding_left = 0, background_color = [235, 235, 235],
       gutter_horizontal = 0, gutter_vertical = 0, min_content_width = 50, min_content_height = 50\<rparr>
       [Image 2 200 100]) = Inr cv" using render_ok(1) by blast
  show ?thesis using render_buffer_shape [OF r] r by auto
qed

text \<open>C28: rendering never raises on a tree in which every child's rectangle lies in its
  parent's buffer with the child's own extent: numpy's allocation and every slice
  assignment succeed, and the result has the item's size.\<close>

theorem render_succeeds:
  assumes "drawable_ok it"
  shows "\<exists>cv. render pix it = Inr cv \<and> cv_height cv = get_height it \<and> cv_width cv = get_width it"
  using render_ok(1) [OF assms, of pix] render_size(1) by blast

theorem render_succeeds_witness:
  "\<exists>cv. render (\<lambda>oi y x. [0, 0, 0]) (Container 1 VerticalLayout
      \<lparr>con_width = 100, con_height = 100, capacity = 2, padding_top = 0, padding_right = 0,
       padding_bottom = 0, padding_left = 0, background_color = [255, 255, 255],
       gutter_horizontal = 0, gutter_vertical = 0, min_content_width = 50, min_content_height = 50\<rparr>
      [Image 2 50 50, Image 3 40 50]) = Inr cv \<and> cv_height cv = 100 \<and> cv_width cv = 100"
proof -
  have "drawable_ok (Container 1 VerticalLayout
      \<lparr>con_width = 100, con_height = 100, capacity = 2, padding_top = 0, padding_right = 0,
       padding_bottom = 0, padding_left = 0, background_color = [255, 255, 255],
       gutter_horizontal = 0, gutter_vertical = 0, min_content_width = 50, min_content_height = 50\<rparr>
      [Image 2 50 50, Image 3 40 50])"
    by (simp add: layout_coordinates.simps vertical_layout_coordinates_def vertical_max_width_for_each_item_def
                  vertical_max_height_for_each_item_def max_drawable_width_def max_drawable_height_def half_def py_int_def)
  from render_succeeds [OF this, of "\<lambda>oi y x. [0, 0, 0]"] show ?thesis by simp
qed

end
