(* ===== verification/Lifecycle.thy ===== *)
theory Lifecycle
  imports Container
begin

text \<open>
  The lifecycle of one layout container under the two mutations a caller issues on it,
  \<open>add_item\<close> and \<open>remove_item\<close> (layout_container.py 63--85), with images as children.
  \<open>image_step\<close> is the step relation: one successful call, an exception being no step.
  For the vertical strategy the invariant \<open>vertical_images_ok\<close> holds in every state reachable
  from the empty container: every child is an image of positive size inside the per-item
  budget of the current child count, and the drawable height has room for the gutters.
  From every such state the container can be emptied again by removing its children one by
  one: \<open>remove_item\<close> never raises there, because a removal only enlarges the budget and
  every image grows or keeps its size when it is refitted.
\<close>

section \<open>Steps and the invariant\<close>

inductive image_step :: "item \<Rightarrow> item \<Rightarrow> bool" where
  add: "add_item con (Image i w h) = Inr con' \<Longrightarrow> 0 < w \<Longrightarrow> 0 < h \<Longrightarrow> image_step con con'"
| remove: "remove_item con it = Inr con' \<Longrightarrow> image_step con con'"

definition vertical_images_ok :: "layout_config \<Rightarrow> item list \<Rightarrow> bool" where
  "vertical_images_ok c xs \<longleftrightarrow>
     0 \<le> gutter_horizontal c \<and> 0 \<le> min_content_height c \<and> 0 \<le> max_drawable_width c \<and>
     0 \<le> max_drawable_height c - (int (length xs) - 1) * gutter_horizontal c \<and>
     (\<forall>x \<in> set xs. \<exists>i w h. x = Image i w h \<and> 0 < w \<and> w \<le> vertical_max_width_for_each_item c
                      \<and> 0 < h \<and> h \<le> vertical_max_height_for_each_item c (length xs))"

section \<open>Lemmas\<close>

lemma vertical_budgets_nonneg:
  assumes "0 \<le> max_drawable_width c" "0 < n"
    and "0 \<le> max_drawable_height c - (int n - 1) * gutter_horizontal c"
  shows "0 \<le> vertical_max_width_for_each_item c \<and> 0 \<le> vertical_max_height_for_each_item c n"
  using assms equal_division_fits [of "int n" "max_drawable_height c" "gutter_horizontal c"]
  by (simp add: vertical_max_width_for_each_item_def vertical_max_height_for_each_item_def)

lemma add_item_vertical_children:
  assumes "add_item (Container oi VerticalLayout c xs) it = Inr con'"
  obtains xs' ys where "length xs' = length xs" "set xs' \<subseteq> insert it (set xs)"
    and "resize_each (vertical_max_width_for_each_item c)
           (vertical_max_height_for_each_item c (Suc (length xs))) (xs' @ [it]) = Inr ys"
    and "con' = Container oi VerticalLayout c ys"
proof -
  obtain b xs' where p: "probe_next_item VerticalLayout c xs it = Inr (b, xs')"
    and r: "(if b then resize_items oi VerticalLayout c (xs' @ [it]) else Inl LayoutException) = Inr con'"
    using assms by (auto simp: add_item_def ebind_eq_Inr)
  have b: b using r by (cases b) auto
  have "probe_next_item VerticalLayout c xs it = Inr (True, xs')" using p b by simp
  then have l: "length xs' = length xs" "set xs' \<subseteq> insert it (set xs)"
    using probe_True by blast+
  then obtain ys where "resize_each (vertical_max_width_for_each_item c)
           (vertical_max_height_for_each_item c (Suc (length xs))) (xs' @ [it]) = Inr ys"
    and "con' = Container oi VerticalLayout c ys"
    using r b by (auto simp: ebind_eq_Inr)
  with l that show ?thesis by blast
qed

lemma add_item_vertical_fit:
  assumes add: "add_item (Container oi VerticalLayout c xs) it = Inr con'"
    and pos: "\<forall>x \<in> set (it # xs). 0 < get_width x \<and> 0 < get_height x"
    and dw: "0 \<le> max_drawable_width c"
    and room: "0 \<le> max_drawable_height c - int (length xs) * gutter_horizontal c"
  obtains ys where "con' = Container oi VerticalLayout c ys" "length ys = Suc (length xs)"
    and "\<forall>y \<in> set ys. 0 \<le> get_width y \<and> get_width y \<le> vertical_max_width_for_each_item c
               \<and> 0 \<le> get_height y \<and> get_height y \<le> vertical_max_height_for_each_item c (length ys)"
    and "0 \<le> max_drawable_height c - (int (length ys) - 1) * gutter_horizontal c"
    and "set (map skeleton ys) \<subseteq> skeleton ` insert it (set xs)"
proof -
  obtain xs' ys where l: "length xs' = length xs" "set xs' \<subseteq> insert it (set xs)"
    and r: "resize_each (vertical_max_width_for_each_item c)
              (vertical_max_height_for_each_item c (Suc (length xs))) (xs' @ [it]) = Inr ys"
    and con': "con' = Container oi VerticalLayout c ys"
    using add_item_vertical_children [OF add] by blast
  have room': "0 \<le> max_drawable_height c - (int (Suc (length xs)) - 1) * gutter_horizontal c"
    using room by simp
  have budgets: "0 \<le> vertical_max_width_for_each_item c"
      "0 \<le> vertical_max_height_for_each_item c (Suc (length xs))"
    using vertical_budgets_nonneg [OF dw _ room'] by simp_all
  have "\<forall>x \<in> set (xs' @ [it]). 0 < get_width x \<and> 0 < get_height x"
    using pos l(2) by auto
  from resize_each_fits [OF r this budgets]
  have len: "length ys = Suc (length xs)"
    and fit: "\<forall>y \<in> set ys. 0 \<le> get_width y \<and> get_width y \<le> vertical_max_width_for_each_item c
               \<and> 0 \<le> get_height y \<and> get_height y \<le> vertical_max_height_for_each_item c (length ys)"
    using l(1) by auto
  have "map skeleton ys = map skeleton (xs' @ [it])" by (rule resize_skeleton(4) [OF r])
  then have "set (map skeleton ys) \<subseteq> skeleton ` insert it (set xs)" using l(2) by auto
  moreover have "0 \<le> max_drawable_height c - (int (length ys) - 1) * gutter_horizontal c"
    using room' len by simp
  ultimately show ?thesis using that con' len fit by blast
qed


text \<open>The per-item height budget only grows when a child leaves.\<close>

lemma vertical_max_height_antimono:
  assumes g: "0 \<le> gutter_horizontal c" and room: "0 \<le> max_drawable_height c + gutter_horizontal c"
    and m: "0 < m"
  shows "vertical_max_height_for_each_item c (Suc m) \<le> vertical_max_height_for_each_item c m"
proof -
  let ?D = "max_drawable_height c" and ?g = "gutter_horizontal c"
  have "of_int (int m) * of_int (?D - int m * ?g) \<le> (of_int (int m + 1) * of_int (?D - (int m - 1) * ?g) :: rat)"
    using room by (simp add: algebra_simps)
  then have "of_int (?D - int m * ?g) / of_int (int m + 1) \<le> (of_int (?D - (int m - 1) * ?g) / of_int (int m) :: rat)"
    using m by (simp add: divide_simps mult.commute)
  then show ?thesis using m
    by (simp add: vertical_max_height_for_each_item_def py_int_mono add.commute)
qed

text \<open>An image refitted into a box that already holds it keeps or grows its size, so
  OpenCV never sees a zero side.\<close>

lemma image_resize_grows:
  assumes "0 < w" "0 < h" "w \<le> wl" "h \<le> hl"
  shows "\<exists>w' h'. resize_to_limit (Image oi w h) wl hl = Inr (Image oi w' h')
           \<and> w \<le> w' \<and> w' \<le> wl \<and> h \<le> h' \<and> h' \<le> hl"
proof (cases "hl * w < wl * h")
  case True
  have "w * h div h \<le> w * hl div h" using assms by (intro zdiv_mono1) simp_all
  then have "w \<le> w * hl div h" using assms(2) by simp
  moreover have "w * hl div h \<le> wl" using fit_box_bounds [of w h wl hl] True assms by (simp add: fit_box_def)
  ultimately show ?thesis using True assms
    by (auto simp: limit_request_pos image_resize_by_height_def cv2_resize_def scale_by_div)
next
  case False
  have "h * w div w \<le> h * wl div w" using assms by (intro zdiv_mono1) simp_all
  then have "h \<le> h * wl div w" using assms(1) by simp
  moreover have "h * wl div w \<le> hl" using fit_box_bounds [of w h wl hl] False assms by (simp add: fit_box_def)
  ultimately show ?thesis using False assms
    by (auto simp: limit_request_pos image_resize_by_width_def cv2_resize_def scale_by_div)
qed

lemma resize_each_images:
  assumes "\<forall>x \<in> set xs. \<exists>i w h. x = Image i w h \<and> 0 < w \<and> w \<le> mw \<and> 0 < h \<and> h \<le> mh"
  shows "\<exists>ys. resize_each mw mh xs = Inr ys \<and> map item_id ys = map item_id xs
           \<and> (\<forall>y \<in> set ys. \<exists>i w h. y = Image i w h \<and> 0 < w \<and> w \<le> mw \<and> 0 < h \<and> h \<le> mh)"
  using assms
proof (induction xs)
  case Nil
  then show ?case by simp
next
  case (Cons x xs)
  then obtain i w h where x: "x = Image i w h" "0 < w" "w \<le> mw" "0 < h" "h \<le> mh" by auto
  then obtain w' h' where r: "resize_to_limit (Image i w h) mw mh = Inr (Image i w' h')"
    and b: "w \<le> w'" "w' \<le> mw" "h \<le> h'" "h' \<le> mh"
    using image_resize_grows [of w h mw mh i] by blast
  obtain ys where "resize_each mw mh xs = Inr ys" "map item_id ys = map item_id xs"
      "\<forall>y \<in> set ys. \<exists>i w h. y = Image i w h \<and> 0 < w \<and> w \<le> mw \<and> 0 < h \<and> h \<le> mh"
    using Cons by auto
  then show ?case using r b x by (auto simp del: resize_to_limit.simps)
qed

lemma vertical_max_height_antimono_le:
  assumes g: "0 \<le> gutter_horizontal c" and room: "0 \<le> max_drawable_height c + gutter_horizontal c"
    and m: "0 < m" and mn: "m \<le> n"
  shows "vertical_max_height_for_each_item c n \<le> vertical_max_height_for_each_item c m"
  using mn
proof (induction n rule: dec_induct)
  case base
  then show ?case by simp
next
  case (step k)
  then have "vertical_max_height_for_each_item c (Suc k) \<le> vertical_max_height_for_each_item c k"
    using vertical_max_height_antimono [OF g room] m by simp
  then show ?case using step.IH by simp
qed

text \<open>The children of an invariant state, shown against the budget of fewer children.\<close>

lemma vertical_images_fit_fewer:
  assumes ok: "vertical_images_ok c xs" and sub: "set xs' \<subseteq> set xs" and len: "length xs' \<le> length xs"
  shows "\<forall>x \<in> set xs'. \<exists>i w h. x = Image i w h \<and> 0 < w \<and> w \<le> vertical_max_width_for_each_item c
           \<and> 0 < h \<and> h \<le> vertical_max_height_for_each_item c (length xs')"
proof (cases "xs' = []")
  case True
  then show ?thesis by simp
next
  case False
  have g: "0 \<le> gutter_horizontal c" and room: "0 \<le> max_drawable_height c - (int (length xs) - 1) * gutter_horizontal c"
    using ok by (simp_all add: vertical_images_ok_def)
  have "0 < length xs" using False len by (cases xs) auto
  then have "0 \<le> (int (length xs) - 1) * gutter_horizontal c" using g by simp
  then have "0 \<le> max_drawable_height c + gutter_horizontal c" using room g by linarith
  then have "vertical_max_height_for_each_item c (length xs) \<le> vertical_max_height_for_each_item c (length xs')"
    using vertical_max_height_antimono_le [OF g _ _ len] False by simp
  then show ?thesis using ok sub by (fastforce simp: vertical_images_ok_def)
qed

lemma remove_item_vertical:
  "remove_item (Container oi VerticalLayout c xs) it = Inr con' \<longleftrightarrow>
     (\<exists>xs' ys. py_remove item_id (item_id it) xs = Inr xs'
        \<and> resize_each (vertical_max_width_for_each_item c) (vertical_max_height_for_each_item c (length xs')) xs' = Inr ys
        \<and> con' = Container oi VerticalLayout c ys)"
  by (auto simp: remove_item_def ebind_eq_Inr)

text \<open>Refitting the children left after a removal keeps the invariant.\<close>

lemma vertical_refit:
  assumes ok: "vertical_images_ok c xs" and sub: "set xs' \<subseteq> set xs" and len: "Suc (length xs') = length xs"
  shows "\<exists>ys. resize_each (vertical_max_width_for_each_item c) (vertical_max_height_for_each_item c (length xs')) xs' = Inr ys
           \<and> vertical_images_ok c ys \<and> length ys = length xs'"
proof -
  have le: "length xs' \<le> length xs" using len by simp
  obtain ys where e: "resize_each (vertical_max_width_for_each_item c) (vertical_max_height_for_each_item c (length xs')) xs' = Inr ys"
    and ids: "map item_id ys = map item_id xs'"
    and fit: "\<forall>y \<in> set ys. \<exists>i w h. y = Image i w h \<and> 0 < w \<and> w \<le> vertical_max_width_for_each_item c
                \<and> 0 < h \<and> h \<le> vertical_max_height_for_each_item c (length xs')"
    using resize_each_images [OF vertical_images_fit_fewer [OF ok sub le]] by blast
  have l: "length ys = length xs'" using ids by (metis length_map)
  have g: "0 \<le> gutter_horizontal c" and room: "0 \<le> max_drawable_height c - (int (length xs) - 1) * gutter_horizontal c"
    using ok by (simp_all add: vertical_images_ok_def)
  have "(int (length ys) - 1) * gutter_horizontal c \<le> (int (length xs) - 1) * gutter_horizontal c"
    using l len g by (intro mult_right_mono) simp_all
  then have "0 \<le> max_drawable_height c - (int (length ys) - 1) * gutter_horizontal c" using room by linarith
  then have "vertical_images_ok c ys" using ok fit l by (simp add: vertical_images_ok_def)
  then show ?thesis using e l by blast
qed

lemma vertical_remove_ok:
  assumes ok: "vertical_images_ok c xs"
    and r: "remove_item (Container oi VerticalLayout c xs) it = Inr con'"
  shows "\<exists>ys. con' = Container oi VerticalLayout c ys \<and> vertical_images_ok c ys"
proof -
  obtain xs' ys where p: "py_remove item_id (item_id it) xs = Inr xs'"
    and e: "resize_each (vertical_max_width_for_each_item c) (vertical_max_height_for_each_item c (length xs')) xs' = Inr ys"
    and con: "con' = Container oi VerticalLayout c ys"
    using r unfolding remove_item_vertical by blast
  have len: "Suc (length xs') = length xs" and sub: "set xs' \<subseteq> set xs"
    using py_remove_Inr_length [OF p] py_remove_subset [OF p] by auto
  obtain ys0 where "resize_each (vertical_max_width_for_each_item c) (vertical_max_height_for_each_item c (length xs')) xs' = Inr ys0"
    and "vertical_images_ok c ys0"
    using vertical_refit [OF ok sub len] by blast
  then show ?thesis using e con by simp
qed

lemma probe_True_check:
  assumes "probe_next_item k c xs it = Inr (True, xs')"
  shows "check_dimensions_when_adding_item k c (xs @ [it]) = Inr ()"
proof -
  have nf: "int (length xs) < capacity c" using probe_True [OF assms] by simp
  obtain ys where ys: "py_remove item_id (item_id it) (xs @ [it]) = Inr ys"
    using py_remove_Inl [of item_id "item_id it" "xs @ [it]"] by (cases "py_remove item_id (item_id it) (xs @ [it])") auto
  show ?thesis using probe_case_True assms probe_next_item_open [OF nf ys] by metis
qed

lemma minimum_layout_height_images:
  assumes "\<forall>x \<in> set ys. \<exists>i w h. x = Image i w h"
  shows "minimum_layout_height VerticalLayout c ys =
           gutter_horizontal c * max (int (length ys) - 1) 0 + (padding_top c + padding_bottom c)
           + int (length ys) * min_content_height c"
proof -
  have "sum_list (map (\<lambda>x. case x of Image _ _ _ \<Rightarrow> min_content_height c
                 | Container _ k' c' zs \<Rightarrow> minimum_layout_height k' c' zs) ys) = int (length ys) * min_content_height c"
    using assms by (induction ys) (auto simp: algebra_simps)
  then show ?thesis by simp
qed

text \<open>A successful \<open>add_item\<close> of an image passed the vertical check, which leaves room
  for the gutters between the children it will hold.\<close>

lemma add_item_vertical_room:
  assumes add: "add_item (Container oi VerticalLayout c xs) it = Inr con'"
    and imgs: "\<forall>x \<in> set (it # xs). \<exists>i w h. x = Image i w h" and mch: "0 \<le> min_content_height c"
  shows "0 \<le> max_drawable_height c - int (length xs) * gutter_horizontal c"
proof -
  obtain b xs' where p: "probe_next_item VerticalLayout c xs it = Inr (b, xs')"
    and r: "(if b then resize_items oi VerticalLayout c (xs' @ [it]) else Inl LayoutException) = Inr con'"
    using add by (auto simp: add_item_def ebind_eq_Inr)
  have "b" using r by (cases b) auto
  then have "vertical_check_dimensions c (xs @ [it]) = Inr ()" using probe_True_check p by fastforce
  then have "minimum_layout_height VerticalLayout c (xs @ [it]) \<le> con_height c"
    by (simp add: vertical_check_dimensions_def split: if_splits)
  moreover have "minimum_layout_height VerticalLayout c (xs @ [it]) =
           gutter_horizontal c * int (length xs) + (padding_top c + padding_bottom c)
           + int (Suc (length xs)) * min_content_height c"
    using minimum_layout_height_images [of "xs @ [it]" c] imgs by simp
  moreover have "0 \<le> int (Suc (length xs)) * min_content_height c" using mch by simp
  ultimately show ?thesis by (simp add: max_drawable_height_def algebra_simps)
qed

lemma vertical_add_ok:
  assumes ok: "vertical_images_ok c xs"
    and add: "add_item (Container oi VerticalLayout c xs) (Image i w h) = Inr con'"
    and pos: "0 < w" "0 < h"
  shows "\<exists>ys. con' = Container oi VerticalLayout c ys \<and> vertical_images_ok c ys \<and> length ys = Suc (length xs)"
proof -
  have imgs: "\<forall>x \<in> set (Image i w h # xs). \<exists>i w h. x = Image i w h \<and> 0 < w \<and> 0 < h"
    using ok pos by (auto simp: vertical_images_ok_def)
  have "\<forall>x \<in> set (Image i w h # xs). \<exists>i w h. x = Image i w h" using imgs by blast
  then have room: "0 \<le> max_drawable_height c - int (length xs) * gutter_horizontal c"
    using add_item_vertical_room [OF add] ok by (simp add: vertical_images_ok_def)
  have dw: "0 \<le> max_drawable_width c" using ok by (simp add: vertical_images_ok_def)
  have ps: "\<forall>x \<in> set (Image i w h # xs). 0 < get_width x \<and> 0 < get_height x" using imgs by fastforce
  obtain ys where con: "con' = Container oi VerticalLayout c ys" and len: "length ys = Suc (length xs)"
    and fit: "\<forall>y \<in> set ys. 0 \<le> get_width y \<and> get_width y \<le> vertical_max_width_for_each_item c
               \<and> 0 \<le> get_height y \<and> get_height y \<le> vertical_max_height_for_each_item c (length ys)"
    and room': "0 \<le> max_drawable_height c - (int (length ys) - 1) * gutter_horizontal c"
    using add_item_vertical_fit [OF add ps dw room] by blast
  obtain xs' zs where l: "length xs' = length xs" "set xs' \<subseteq> insert (Image i w h) (set xs)"
    and r: "resize_each (vertical_max_width_for_each_item c)
              (vertical_max_height_for_each_item c (Suc (length xs))) (xs' @ [Image i w h]) = Inr zs"
    and con2: "con' = Container oi VerticalLayout c zs"
    using add_item_vertical_children [OF add] by blast
  have zs: "zs = ys" using con con2 by simp
  have "\<forall>x \<in> set (xs' @ [Image i w h]). wf_item x" using imgs l(2) by fastforce
  then have wf: "\<forall>y \<in> set ys. wf_item y" using resize_wf(4) [OF r] zs by blast
  have "map skeleton ys = map skeleton (xs' @ [Image i w h])" using resize_skeleton(4) [OF r] zs by simp
  then have "skeleton ` set ys = skeleton ` set (xs' @ [Image i w h])" by (metis set_map)
  then have "skeleton ` set ys \<subseteq> skeleton ` set (Image i w h # xs)"
    using l(2) by (auto simp del: skeleton.simps)
  then have sk: "\<forall>y \<in> set ys. \<exists>x \<in> set (Image i w h # xs). skeleton y = skeleton x"
    by blast
  have "\<forall>y \<in> set ys. \<exists>i w h. y = Image i w h"
  proof
    fix y assume y: "y \<in> set ys"
    then obtain x where "x \<in> set (Image i w h # xs)" "skeleton y = skeleton x" using sk by blast
    then show "\<exists>i w h. y = Image i w h" using imgs by (cases y) auto
  qed
  then have "vertical_images_ok c ys" using ok fit wf room' by (fastforce simp: vertical_images_ok_def)
  then show ?thesis using con len by blast
qed

lemma image_step_vertical:
  assumes "image_step (Container oi VerticalLayout c xs) con'" "vertical_images_ok c xs"
  shows "\<exists>ys. con' = Container oi VerticalLayout c ys \<and> vertical_images_ok c ys"
  using assms
proof (cases rule: image_step.cases)
  case (add i w h)
  then show ?thesis using vertical_add_ok [OF assms(2)] by blast
next
  case (remove it)
  then show ?thesis using vertical_remove_ok [OF assms(2)] by blast
qed

text \<open>The invariant holds in every state reachable from an invariant state.\<close>

lemma image_steps_vertical:
  assumes "image_step\<^sup>*\<^sup>* (Container oi VerticalLayout c xs) con'" "vertical_images_ok c xs"
  shows "\<exists>ys. con' = Container oi VerticalLayout c ys \<and> vertical_images_ok c ys"
  using assms(1)
proof (induction rule: rtranclp_induct)
  case base
  then show ?case using assms(2) by blast
next
  case (step y z)
  then show ?case using image_step_vertical by blast
qed

text \<open>C30: the empty state stays reachable. Whatever sequence of successful
  \<open>add_item\<close> calls with images of positive size and \<open>remove_item\<close> calls a vertical
  container has gone through since it was empty, some sequence of \<open>remove_item\<close> calls
  takes it back to the empty container: no reachable state gets stuck with a child that
  cannot be removed. The configuration only has to have non-negative gutters, minimum content
  height and drawable width, and room for one gutter.\<close>

theorem vertical_container_can_return_to_empty:
  assumes "image_step\<^sup>*\<^sup>* (Container oi VerticalLayout c []) con"
    and "vertical_images_ok c []"
  shows "image_step\<^sup>*\<^sup>* con (Container oi VerticalLayout c [])"
proof -
  have "image_step\<^sup>*\<^sup>* (Container oi VerticalLayout c ys) (Container oi VerticalLayout c [])"
    if "vertical_images_ok c ys" for ys
    using that
  proof (induction "length ys" arbitrary: ys)
    case 0
    then show ?case by simp
  next
    case (Suc n)
    then obtain x xs where ys: "ys = x # xs" by (cases ys) auto
    obtain zs where e: "resize_each (vertical_max_width_for_each_item c) (vertical_max_height_for_each_item c (length xs)) xs = Inr zs"
      and ok: "vertical_images_ok c zs" and l: "length zs = length xs"
      using vertical_refit [OF Suc.prems, of xs] ys by auto
    have "remove_item (Container oi VerticalLayout c (x # xs)) x = Inr (Container oi VerticalLayout c zs)"
      using e unfolding remove_item_def by simp
    then have "remove_item (Container oi VerticalLayout c ys) x = Inr (Container oi VerticalLayout c zs)"
      using ys by simp
    then have "image_step (Container oi VerticalLayout c ys) (Container oi VerticalLayout c zs)"
      by (rule image_step.remove)
    moreover have "image_step\<^sup>*\<^sup>* (Container oi VerticalLayout c zs) (Container oi VerticalLayout c [])"
      using Suc.hyps(1) [OF _ ok] Suc.hyps(2) l ys by simp
    ultimately show ?case by (rule converse_rtranclp_into_rtranclp)
  qed
  moreover obtain ys where "con = Container oi VerticalLayout c ys" "vertical_images_ok c ys"
    using image_steps_vertical [OF assms] by blast
  ultimately show ?thesis by blast
qed

theorem vertical_container_can_return_to_empty_witness:
  "image_step\<^sup>*\<^sup>* (Container 1 VerticalLayout
      \<lparr>con_width = 300, con_height = 200, capacity = 2, padding_top = 0, padding_right = 0,
       padding_bottom = 0, padding_left = 0, background_color = [255, 255, 255],
       gutter_horizontal = 10, gutter_vertical = 0, min_content_width = 50, min_content_height = 50\<rparr>
      [Image 2 200 200])
    (Container 1 VerticalLayout
      \<lparr>con_width = 300, con_height = 200, capacity = 2, padding_top = 0, padding_right = 0,
       padding_bottom = 0, padding_left = 0, background_color = [255, 255, 255],
       gutter_horizontal = 10, gutter_vertical = 0, min_content_width = 50, min_content_height = 50\<rparr> [])"
proof -
  have a: "add_item (Container 1 VerticalLayout
      \<lparr>con_width = 300, con_height = 200, capacity = 2, padding_top = 0, padding_right = 0,
       padding_bottom = 0, padding_left = 0, background_color = [255, 255, 255],
       gutter_horizontal = 10, gutter_vertical = 0, min_content_width = 50, min_content_height = 50\<rparr> [])
      (Image 2 100 100)
    = Inr (Container 1 VerticalLayout
      \<lparr>con_width = 300, con_height = 200, capacity = 2, padding_top = 0, padding_right = 0,
       padding_bottom = 0, padding_left = 0, background_color = [255, 255, 255],
       gutter_horizontal = 10, gutter_vertical = 0, min_content_width = 50, min_content_height = 50\<rparr>
      [Image 2 200 200])"
    by (simp add: eval_simps vertical_check_dimensions_def vertical_max_width_for_each_item_def
        vertical_max_height_for_each_item_def max_drawable_width_def max_drawable_height_def)
  have "image_step\<^sup>*\<^sup>* (Container 1 VerticalLayout
      \<lparr>con_width = 300, con_height = 200, capacity = 2, padding_top = 0, padding_right = 0,
       padding_bottom = 0, padding_left = 0, background_color = [255, 255, 255],
       gutter_horizontal = 10, gutter_vertical = 0, min_content_width = 50, min_content_height = 50\<rparr> [])
      (Container 1 VerticalLayout
      \<lparr>con_width = 300, con_height = 200, capacity = 2, padding_top = 0, padding_right = 0,
       padding_bottom = 0, padding_left = 0, background_color = [255, 255, 255],
       gutter_horizontal = 10, gutter_vertical = 0, min_content_width = 50, min_content_height = 50\<rparr>
      [Image 2 200 200])"
    using image_step.add [OF a] by (auto intro: r_into_rtranclp)
  moreover have "vertical_images_ok
      \<lparr>con_width = 300, con_height = 200, capacity = 2, padding_top = 0, padding_right = 0,
       padding_bottom = 0, padding_left = 0, background_color = [255, 255, 255],
       gutter_horizontal = 10, gutter_vertical = 0, min_content_width = 50, min_content_height = 50\<rparr> []"
    by (simp add: vertical_images_ok_def max_drawable_width_def max_drawable_height_def)
  ultimately show ?thesis by (rule vertical_container_can_return_to_empty)
qed

end
