(* ===== verification/Settings.thy ===== *)
theory Settings
  imports Container Render
begin

text \<open>
  The public setters and getters of \<open>LayoutContainer\<close> (layout_container.py 156--301).
  The three setters validate their argument as the constructor does and overwrite the field;
  an invalid value raises \<open>LayoutException\<close> and leaves the container as it was (the
  exception aborts the call before any field is written). Unlike \<open>add_item\<close> and
  \<open>remove_item\<close>, no setter asks the strategy to refit the children: a padding that grows
  after children were placed leaves them at their old sizes. Every method is a method of
  \<open>LayoutContainer\<close>, so calling it on an image is \<open>AttributeError\<close>.
\<close>

section \<open>Setters\<close>

text \<open>\<open>set_padding\<close> (lines 164--176): \<open>(top, right, bottom, left)\<close>.\<close>

fun set_padding :: "item \<Rightarrow> int list \<Rightarrow> item py_result" where
  "set_padding (Image _ _ _) p = Inl AttributeError"
| "set_padding (Container oi k c xs) p =
     (if \<not> is_padding_valid p then Inl LayoutException
      else Inr (Container oi k (c\<lparr>padding_top := p ! 0, padding_right := p ! 1,
                                  padding_bottom := p ! 2, padding_left := p ! 3\<rparr>) xs))"

text \<open>\<open>set_item_gutters\<close> (lines 185--196): \<open>(horizontal, vertical)\<close>.\<close>

fun set_item_gutters :: "item \<Rightarrow> int list \<Rightarrow> item py_result" where
  "set_item_gutters (Image _ _ _) g = Inl AttributeError"
| "set_item_gutters (Container oi k c xs) g =
     (if \<not> is_item_gutters_valid g then Inl LayoutException
      else Inr (Container oi k (c\<lparr>gutter_horizontal := g ! 0, gutter_vertical := g ! 1\<rparr>) xs))"

text \<open>\<open>set_background_color\<close> (lines 205--214): the RGB tuple is stored as given.\<close>

fun set_background_color :: "item \<Rightarrow> int list \<Rightarrow> item py_result" where
  "set_background_color (Image _ _ _) col = Inl AttributeError"
| "set_background_color (Container oi k c xs) col =
     (if \<not> is_background_color_valid col then Inl LayoutException
      else Inr (Container oi k (c\<lparr>background_color := col\<rparr>) xs))"

section \<open>Getters\<close>

text \<open>\<open>get_padding\<close> (lines 178--183), \<open>get_item_gutters\<close> (198--203),
  \<open>get_background_color\<close> (216--221).\<close>

fun get_padding :: "item \<Rightarrow> int list py_result" where
  "get_padding (Image _ _ _) = Inl AttributeError"
| "get_padding (Container _ _ c _) = Inr [padding_top c, padding_right c, padding_bottom c, padding_left c]"

fun get_item_gutters :: "item \<Rightarrow> int list py_result" where
  "get_item_gutters (Image _ _ _) = Inl AttributeError"
| "get_item_gutters (Container _ _ c _) = Inr [gutter_horizontal c, gutter_vertical c]"

fun get_background_color :: "item \<Rightarrow> int list py_result" where
  "get_background_color (Image _ _ _) = Inl AttributeError"
| "get_background_color (Container _ _ c _) = Inr (background_color c)"

text \<open>\<open>get_items_copy\<close> (lines 223--230), a shallow copy of the children, and
  \<open>get_current_num_of_items\<close> (232--237), which \<open>get_num_of_items\<close> (158--159) repeats.\<close>

fun get_items_copy :: "item \<Rightarrow> item list py_result" where
  "get_items_copy (Image _ _ _) = Inl AttributeError"
| "get_items_copy (Container _ _ _ xs) = Inr xs"

fun get_current_num_of_items :: "item \<Rightarrow> int py_result" where
  "get_current_num_of_items (Image _ _ _) = Inl AttributeError"
| "get_current_num_of_items (Container _ _ _ xs) = Inr (int (length xs))"

text \<open>\<open>get_minimum_content_width/height\<close> (lines 239--265) and the delegates
  \<open>get_minimum_layout_width/height\<close> (267--282) to the strategy.\<close>

fun get_minimum_content_width :: "item \<Rightarrow> int py_result" where
  "get_minimum_content_width (Image _ _ _) = Inl AttributeError"
| "get_minimum_content_width (Container _ _ c _) = Inr (min_content_width c)"

fun get_minimum_content_height :: "item \<Rightarrow> int py_result" where
  "get_minimum_content_height (Image _ _ _) = Inl AttributeError"
| "get_minimum_content_height (Container _ _ c _) = Inr (min_content_height c)"

fun get_minimum_layout_width :: "item \<Rightarrow> int py_result" where
  "get_minimum_layout_width (Image _ _ _) = Inl AttributeError"
| "get_minimum_layout_width (Container _ k c xs) = Inr (minimum_layout_width k c xs)"

fun get_minimum_layout_height :: "item \<Rightarrow> int py_result" where
  "get_minimum_layout_height (Image _ _ _) = Inl AttributeError"
| "get_minimum_layout_height (Container _ k c xs) = Inr (minimum_layout_height k c xs)"

section \<open>Lemmas\<close>

text \<open>Each setter is undone by its getter: what was set is read back.\<close>

lemma set_padding_roundtrip:
  "set_padding con p = Inr con' \<Longrightarrow> get_padding con' = Inr p"
  by (cases con) (auto simp: is_padding_valid_def list_eq_iff_nth_eq numeral_eq_Suc less_Suc_eq split: if_splits)

lemma set_item_gutters_roundtrip:
  "set_item_gutters con g = Inr con' \<Longrightarrow> get_item_gutters con' = Inr g"
  by (cases con) (auto simp: is_item_gutters_valid_def list_eq_iff_nth_eq numeral_eq_Suc less_Suc_eq split: if_splits)

lemma set_background_color_roundtrip:
  "set_background_color con col = Inr con' \<Longrightarrow> get_background_color con' = Inr col"
  by (cases con) (auto split: if_splits)

text \<open>No setter touches the children: they keep the sizes of the old configuration.\<close>

lemma setters_keep_children:
  "set_padding con p = Inr con' \<Longrightarrow> get_items_copy con' = get_items_copy con"
  "set_item_gutters con g = Inr con' \<Longrightarrow> get_items_copy con' = get_items_copy con"
  "set_background_color con col = Inr con' \<Longrightarrow> get_items_copy con' = get_items_copy con"
  by (cases con; auto split: if_splits)+

end
