(* ===== verification/Run.thy ===== *)
theory Run
  imports Populate Render
begin

text \<open>
  The driver of layouts_generator.py and the entry point main.py: the settings tables
  (lines 13--67), the directory listing (\<open>get_list_of_images_from_directory\<close>,
  lines 402--416), \<open>random_open_x_images\<close> (428--434) and \<open>run\<close> (141--153), which
  builds the catalogue once and then, \<open>num_to_generate\<close> times, draws a file name, generates
  a layout on a deep copy of the catalogue, populates it, renders it and writes the image.
  Writing is modelled as the list of (file name, buffer) pairs written, in order; an
  exception ends the run. A Python dictionary literal is its list of entries in source
  order, in which a repeated key keeps the last value.
\<close>

section \<open>Settings tables\<close>

text \<open>\<open>dict[key]\<close> on a dictionary literal: the last entry with the key, \<open>KeyError\<close>
  when there is none.\<close>

definition py_dict_get :: "('k \<times> 'v) list \<Rightarrow> 'k \<Rightarrow> 'v py_result" where
  "py_dict_get kvs k = (case map_of (rev kvs) k of None \<Rightarrow> Inl KeyError | Some v \<Rightarrow> Inr v)"

definition COLORS :: "(string \<times> int list) list" where
  "COLORS =
     [(''white'', [255, 255, 255]), (''black'', [0, 0, 0]), (''red'', [255, 0, 0]),
      (''orange'', [255, 165, 0]), (''yellow'', [255, 255, 0]), (''green'', [0, 128, 0]),
      (''blue'', [0, 0, 255]), (''purple'', [128, 0, 128]), (''pink'', [255, 192, 203]),
      (''brown'', [165, 42, 42]), (''white'', [255, 255, 255]), (''black'', [0, 0, 0]),
      (''gray'', [128, 128, 128]), (''maroon'', [128, 0, 0]), (''olive'', [128, 128, 0]),
      (''teal'', [0, 128, 128]), (''navy'', [0, 0, 128]), (''aqua'', [0, 255, 255]),
      (''fuchsia'', [255, 0, 255]), (''lime'', [0, 255, 0]), (''silver'', [192, 192, 192]),
      (''gold'', [255, 215, 0])]"

definition PADDINGS :: "(string \<times> int list) list" where
  "PADDINGS = [(''none'', [0, 0, 0, 0]), (''small'', PADDING_SMALL), (''medium'', PADDING_MEDIUM),
               (''large'', [30, 30, 30, 30])]"

definition GUTTERS :: "(string \<times> int list) list" where
  "GUTTERS = [(''none'', [0, 0]), (''small'', GUTTERS_SMALL), (''medium'', GUTTERS_MEDIUM), (''large'', [30, 30])]"

definition SCREEN_RESOLUTIONS :: "(string \<times> int \<times> int) list" where
  "SCREEN_RESOLUTIONS = [(''4k'', 3840, 2160), (''1440p'', 2560, 1440), (''1080p'', 1920, 1080)]"

definition SUPPORTED_IMAGE_EXTENSIONS :: "string list" where
  "SUPPORTED_IMAGE_EXTENSIONS = [''jpg'', ''jpeg'', ''png'']"

definition max_levels_to_nest :: int where
  "max_levels_to_nest = 2"

section \<open>Listing the image files of a directory\<close>

text \<open>\<open>str.split(sep)\<close>: the pieces between the separators, empty pieces included, so
  the result is never empty.\<close>

fun py_split :: "char \<Rightarrow> string \<Rightarrow> string list" where
  "py_split d [] = [[]]"
| "py_split d (x # xs) =
     (if x = d then [] # py_split d xs
      else case py_split d xs of [] \<Rightarrow> [[x]] | w # ws \<Rightarrow> (x # w) # ws)"

text \<open>\<open>str.lower()\<close> on ASCII letters.\<close>

definition py_lower_char :: "char \<Rightarrow> char" where
  "py_lower_char a =
     (case map_of (zip ''ABCDEFGHIJKLMNOPQRSTUVWXYZ'' ''abcdefghijklmnopqrstuvwxyz'') a of
        Some b \<Rightarrow> b | None \<Rightarrow> a)"

definition py_lower :: "string \<Rightarrow> string" where
  "py_lower s = map py_lower_char s"

text \<open>\<open>os.path.join(root, name)\<close>: an absolute name replaces the root; otherwise a
  separator is inserted unless the root is empty or already ends with one.\<close>

definition os_path_join :: "string \<Rightarrow> string \<Rightarrow> string" where
  "os_path_join dir name =
     (if name \<noteq> [] \<and> hd name = CHR ''/'' then name
      else if dir = [] \<or> last dir = CHR ''/'' then dir @ name
      else dir @ ''/'' @ name)"

text \<open>The test of line 410: the text after the last dot, lower-cased, is a supported
  extension.\<close>

definition is_supported_image_file :: "string \<Rightarrow> bool" where
  "is_supported_image_file name \<longleftrightarrow> py_lower (last (py_split CHR ''.'' name)) \<in> set SUPPORTED_IMAGE_EXTENSIONS"

text \<open>\<open>get_list_of_images_from_directory\<close>: \<open>os.walk\<close> is the list of its
  \<open>(root, files)\<close> pairs in the order it yields them.\<close>

fun get_list_of_images_from_directory :: "(string \<times> string list) list \<Rightarrow> string list" where
  "get_list_of_images_from_directory [] = []"
| "get_list_of_images_from_directory ((dir, files) # walk) =
     map (os_path_join dir) (filter is_supported_image_file files) @ get_list_of_images_from_directory walk"

section \<open>Opening random images\<close>

text \<open>\<open>random_open_x_images\<close>: \<open>x\<close> rounds, each taking a random path out of the list
  while it is not empty; the result is the images opened, here their paths, and the list
  left behind.\<close>

fun random_open_images_loop :: "nat \<Rightarrow> path list \<Rightarrow> (path list \<times> path list) gen" where
  "random_open_images_loop 0 ps = greturn ([], ps)"
| "random_open_images_loop (Suc x) ps =
     (if ps = [] then random_open_images_loop x ps
      else gbind (get_random_item_from_list_then_remove ps) (\<lambda>(p, rest).
        gbind (random_open_images_loop x rest) (\<lambda>(imgs, rest'). greturn (p # imgs, rest'))))"

definition random_open_x_images :: "int \<Rightarrow> path list \<Rightarrow> (path list \<times> path list) gen" where
  "random_open_x_images x ps = random_open_images_loop (nat x) ps"

section \<open>The run loop\<close>

text \<open>\<open>str(n)\<close> of a natural number: its decimal digits.\<close>

fun py_str_nat :: "nat \<Rightarrow> string" where
  "py_str_nat n = (if n < 10 then [''0123456789'' ! n] else py_str_nat (n div 10) @ [''0123456789'' ! (n mod 10)])"

definition py_str_int :: "int \<Rightarrow> string" where
  "py_str_int i = (if i < 0 then ''-'' @ py_str_nat (nat (- i)) else py_str_nat (nat i))"

text \<open>The name written by line 152.\<close>

definition collage_file_name :: "int \<Rightarrow> string" where
  "collage_file_name n = ''output/collage_'' @ py_str_int n @ ''.jpg''"

text \<open>\<open>Image(open_image_file(path))\<close> of a catalogued path: the size \<open>cv2.imread\<close> decoded
  when the catalogue was built (every catalogued path decoded to an image).\<close>

definition image_size :: "(path \<Rightarrow> (int \<times> int) option) \<Rightarrow> path \<Rightarrow> int \<times> int" where
  "image_size reader p = (case reader p of Some wh \<Rightarrow> wh | None \<Rightarrow> (0, 0))"

type_synonym run_result = "((string \<times> canvas) list \<times> gen_state) py_result option"

text \<open>The loop of lines 147--153, \<open>n\<close> iterations left: a file name from
  \<open>randint(10000, 999999)\<close>, a collage on a copy of the catalogue (the copy's changes are
  dropped), its rendering, and the write.\<close>

fun run_loop :: "nat \<Rightarrow> image_files \<Rightarrow> (oid \<Rightarrow> int \<Rightarrow> int \<Rightarrow> colour) \<Rightarrow> catalogue \<Rightarrow> nat \<Rightarrow> gen_state \<Rightarrow> run_result" where
  "run_loop fuel files pix cat 0 s = Some (Inr ([], s))"
| "run_loop fuel files pix cat (Suc n) s =
     (case rand_int 10000 999999 s of
        Inl e \<Rightarrow> Some (Inl e)
      | Inr (name, s1) \<Rightarrow>
          fbind (make_collage fuel files cat s1) (\<lambda>(main, cat') s2.
            case render pix main of
              Inl e \<Rightarrow> Some (Inl e)
            | Inr cv \<Rightarrow> fbind (run_loop fuel files pix cat n s2)
                         (\<lambda>ws s3. Some (Inr ((collage_file_name name, cv) # ws, s3)))))"

text \<open>\<open>run\<close> (lines 141--153): the catalogue of the files the directory listing found,
  then 500 iterations.\<close>

definition run :: "nat \<Rightarrow> (path \<Rightarrow> (int \<times> int) option) \<Rightarrow> (oid \<Rightarrow> int \<Rightarrow> int \<Rightarrow> colour) \<Rightarrow> path list \<Rightarrow> gen_state \<Rightarrow> run_result" where
  "run fuel reader pix paths s =
     (case create_aspect_ratio_sorted_list_of_images reader paths of
        Inl e \<Rightarrow> Some (Inl e)
      | Inr cat \<Rightarrow> run_loop fuel (image_size reader) pix cat 500 s)"

text \<open>main.py, lines 44--46: the script runs \<open>layouts_generator.run()\<close>.\<close>

definition main_py :: "nat \<Rightarrow> (path \<Rightarrow> (int \<times> int) option) \<Rightarrow> (oid \<Rightarrow> int \<Rightarrow> int \<Rightarrow> colour) \<Rightarrow> path list \<Rightarrow> gen_state \<Rightarrow> run_result" where
  "main_py fuel reader pix paths s = run fuel reader pix paths s"

text \<open>The colour table of main.py (lines 14--37) is the same literal as the one of
  layouts_generator.py.\<close>

definition COLORS_main :: "(string \<times> int list) list" where
  "COLORS_main = COLORS"

section \<open>Lemmas\<close>

declare py_dict_get_def [eval_simps] COLORS_def [eval_simps] PADDINGS_def [eval_simps] GUTTERS_def [eval_simps]
  SCREEN_RESOLUTIONS_def [eval_simps] SUPPORTED_IMAGE_EXTENSIONS_def [eval_simps]
  py_lower_def [eval_simps] py_lower_char_def [eval_simps] os_path_join_def [eval_simps]
  is_supported_image_file_def [eval_simps] collage_file_name_def [eval_simps] py_str_int_def [eval_simps]

text \<open>The constants the generator model uses are the entries of the tables it reads:
  the 1080p resolution, white, the small padding and gutters, and a nesting depth of 2.\<close>

lemma generator_settings:
  "py_dict_get SCREEN_RESOLUTIONS ''1080p'' = Inr (1920, 1080)"
  "py_dict_get COLORS ''white'' = Inr COLOR_WHITE"
  "py_dict_get PADDINGS ''small'' = Inr PADDING_SMALL"
  "py_dict_get GUTTERS ''small'' = Inr GUTTERS_SMALL"
  "max_levels_to_nest = 2"
  by (simp_all add: eval_simps max_levels_to_nest_def)

text \<open>The literal of 22 entries names 20 colours: white and black are listed twice.\<close>

lemma COLORS_keys: "length COLORS = 22 \<and> length (remdups (map fst COLORS)) = 20"
  by (simp add: COLORS_def)

lemma directory_listing_example:
  "get_list_of_images_from_directory
     [(''test_images_3/'', [''a.JPG'', ''b.png'', ''notes.txt'', ''png'', ''c.tar.jpeg'']),
      (''test_images_3/sub'', [''d.Png''])]
   = [''test_images_3/a.JPG'', ''test_images_3/b.png'', ''test_images_3/png'', ''test_images_3/c.tar.jpeg'',
      ''test_images_3/sub/d.Png'']"
  by (simp add: eval_simps)

lemma collage_file_name_example: "collage_file_name 10042 = ''output/collage_10042.jpg''"
  by (simp add: eval_simps)

lemma rand_int_Inr: "\<exists>x s'. rand_int lo hi s = Inr (x, s')"
  by (simp add: rand_int_def split: list.splits)

lemma make_collage_some: "2 \<le> fuel \<Longrightarrow> make_collage fuel files cat s \<noteq> None"
  using generate_random_layouts_some [of fuel s]
  by (simp add: make_collage_def fbind_ne_None del: not_None_eq split: prod.splits)

text \<open>With fuel for the generator's nesting depth every iteration returns, so \<open>run\<close>
  returns: it writes its images or raises.\<close>

lemma run_loop_some: "2 \<le> fuel \<Longrightarrow> run_loop fuel files pix cat n s \<noteq> None"
proof (induction n arbitrary: s)
  case 0
  then show ?case by simp
next
  case (Suc n)
  obtain name s1 where r: "rand_int 10000 999999 s = Inr (name, s1)" using rand_int_Inr by blast
  have "fbind (make_collage fuel files cat s1) (\<lambda>(main, cat') s2.
            case render pix main of
              Inl e \<Rightarrow> Some (Inl e)
            | Inr cv \<Rightarrow> fbind (run_loop fuel files pix cat n s2)
                         (\<lambda>ws s3. Some (Inr ((collage_file_name name, cv) # ws, s3)))) \<noteq> None"
    using make_collage_some [OF Suc.prems] Suc.IH [OF Suc.prems]
    by (simp add: fbind_ne_None del: not_None_eq split: prod.splits sum.splits)
  then show ?case using r by simp
qed

text \<open>Every collage has the size of the main container: the generator creates it 1920 by
  1080 and only ever rewrites the children of a node, and populating replaces a bottom-level
  container by the same container with children added, which \<open>can_next_item_fit\<close> and
  \<open>add_item\<close> never resize.\<close>

lemma can_next_item_fit_box:
  "can_next_item_fit con it = Inr (b, con') \<Longrightarrow> get_width con' = get_width con \<and> get_height con' = get_height con"
  by (cases con) (auto simp: can_next_item_fit_def ebind_eq_Inr)

lemma add_item_box:
  "add_item con it = Inr con' \<Longrightarrow> get_width con' = get_width con \<and> get_height con' = get_height con"
  by (cases con) (auto simp: add_item_def ebind_eq_Inr split: if_splits dest!: resize_items_dims)

lemma set_last_child_box:
  "get_width (set_last_child p g) = get_width p \<and> get_height (set_last_child p g) = get_height p"
  by (cases p) auto

lemma add_generated_layout_box:
  assumes "add_generated_layout parent pw ph el s = Inr (r, s1)"
  shows "case r of Bottom p \<Rightarrow> get_width p = get_width parent \<and> get_height p = get_height parent
         | Added p h \<Rightarrow> get_width p = get_width parent \<and> get_height p = get_height parent"
proof -
  obtain h s2 g s3 b parent1 where fit: "can_next_item_fit parent g = Inr (b, parent1)"
    and rest: "(if \<not> b then greturn (Bottom parent1)
               else gbind (glift (add_item parent1 g)) (\<lambda>parent2. greturn (Added parent2 h))) s3 = Inr (r, s1)"
    using assms by (auto simp: add_generated_layout_def gbind_eq_Inr)
  note b1 = can_next_item_fit_box [OF fit]
  show ?thesis
  proof (cases b)
    case False
    then show ?thesis using rest b1 by auto
  next
    case True
    then obtain parent2 where a: "add_item parent1 g = Inr parent2" and r: "r = Added parent2 h"
      using rest by (auto simp: gbind_eq_Inr)
    show ?thesis using add_item_box [OF a] b1 r by auto
  qed
qed

lemma generate_random_sub_layouts_box:
  assumes "generate_random_sub_layouts f parent pw ph main n el s = Some (Inr ((p', bs), s'))"
  shows "get_width p' = get_width parent \<and> get_height p' = get_height parent"
proof (cases f)
  case 0
  then show ?thesis using assms by simp
next
  case (Suc f')
  show ?thesis
  proof (cases "el = []")
    case True
    then show ?thesis using assms Suc by simp
  next
    case False
    then obtain r s1 where a: "add_generated_layout parent pw ph el s = Inr (r, s1)"
      using assms Suc by (auto split: sum.splits)
    note b = add_generated_layout_box [OF a]
    show ?thesis
    proof (cases r)
      case (Bottom p)
      then show ?thesis using assms Suc False a b by auto
    next
      case (Added p h)
      show ?thesis
      proof (cases "n - 1 = 0")
        case True
        then show ?thesis using assms Suc False a Added b by simp
      next
        case nz: False
        then obtain pl s2 where pl: "plan_children p h main s1 = Inr (pl, s2)"
          using assms Suc False a Added by (auto split: sum.splits)
        show ?thesis
        proof (cases pl)
          case NoChildren
          then show ?thesis using assms Suc False a Added nz pl b by simp
        next
          case (Children ds)
          have "fbind (generate_children f' (last_child p) ds main (n - 1) s2)
                  (\<lambda>(g, bs) s3. Some (Inr ((set_last_child p g, bs), s3))) = Some (Inr ((p', bs), s'))"
            using assms Suc generate_Added_Children [OF False _ nz] a pl Added Children by simp
          then obtain g where "p' = set_last_child p g"
            unfolding fbind_eq_Some_Inr by auto
          then show ?thesis using set_last_child_box [of p g] b Added by simp
        qed
      qed
    qed
  qed
qed

lemma create_horizontal_container_box:
  "create_horizontal_container oi w h cap padding bg gutters mcw mch = Inr con \<Longrightarrow>
     get_width con = w \<and> get_height con = h"
  by (auto simp: create_horizontal_container_def layout_container_init_def ebind_eq_Inr split: if_splits)

lemma generate_random_layouts_box:
  assumes "generate_random_layouts fuel s = Some (Inr ((main, bs), s'))"
  shows "get_width main = 1920 \<and> get_height main = 1080"
proof (cases "gbind (rand_int 1 2) (\<lambda>nest. gbind (rand_int 1 3) (\<lambda>cap. gbind fresh_oid (\<lambda>oi.
             gbind (glift (create_horizontal_container oi 1920 1080 cap PADDING_SMALL COLOR_WHITE GUTTERS_SMALL 50 50))
               (\<lambda>main. gbind (glift (item_drawable main)) (\<lambda>md. greturn (nest, main, md)))))) s")
  case (Inl e)
  then show ?thesis using assms by (simp add: generate_random_layouts_def)
next
  case (Inr r)
  then obtain nest main0 md s1 where r: "r = ((nest, main0, md), s1)" by (cases r) auto
  have m0: "get_width main0 = 1920 \<and> get_height main0 = 1080"
    using Inr r by (auto simp: gbind_eq_Inr greturn_def dest!: create_horizontal_container_box)
  have "generate_random_sub_layouts fuel main0 (fst md) (snd md) md nest [HorizontalH] s1 = Some (Inr ((main, bs), s'))"
    using assms Inr r by (simp add: generate_random_layouts_def)
  then show ?thesis using generate_random_sub_layouts_box m0 by metis
qed

lemma try_aspects_box:
  "try_aspects files con cat as s = Inr ((b, con', cat'), s') \<Longrightarrow>
     get_width con' = get_width con \<and> get_height con' = get_height con"
proof (induction as arbitrary: con cat s)
  case Nil
  then show ?case by simp
next
  case (Cons a as)
  show ?case
  proof (cases "cat a = []")
    case True
    then show ?thesis using Cons by simp
  next
    case False
    then obtain p rest s2 frame ok con1 where
      fit: "can_next_item_fit con frame = Inr (ok, con1)"
      and rest: "(if ok then gbind (glift (add_item con1 frame)) (\<lambda>con2. greturn (True, con2, cat(a := rest)))
                  else try_aspects files con1 (cat(a := rest)) as) s2 = Inr ((b, con', cat'), s')"
      using Cons.prems(1) by (auto simp: gbind_eq_Inr Let_def split: prod.splits)
    note b1 = can_next_item_fit_box [OF fit]
    show ?thesis
    proof (cases ok)
      case True
      then obtain con2 where "add_item con1 frame = Inr con2" "con' = con2"
        using rest by (auto simp: gbind_eq_Inr greturn_def)
      then show ?thesis using add_item_box b1 by metis
    next
      case False
      then show ?thesis using rest Cons.IH b1 by auto
    qed
  qed
qed

lemma fill_slots_box:
  "fill_slots k files h con cat s = Inr ((con', cat'), s') \<Longrightarrow>
     get_width con' = get_width con \<and> get_height con' = get_height con"
proof (induction k arbitrary: con cat s)
  case 0
  then show ?case by simp
next
  case (Suc k)
  then obtain b con1 cat1 s1 where t: "try_aspects files con cat (aspect_ratio_preference_order h) s = Inr ((b, con1, cat1), s1)"
    and r: "(if b then fill_slots k files h con1 cat1 else greturn (con1, cat1)) s1 = Inr ((con', cat'), s')"
    by (auto simp: gbind_eq_Inr split: prod.splits)
  note b1 = try_aspects_box [OF t]
  then show ?case using r Suc.IH by (cases b) (auto simp: greturn_def)
qed

lemma populate_container_box:
  "populate_container files con cat s = Inr ((con', cat'), s') \<Longrightarrow>
     get_width con' = get_width con \<and> get_height con' = get_height con"
  by (auto simp: populate_container_def gbind_eq_Inr dest: fill_slots_box)

lemma update_node_box:
  assumes "update_node i f x cat s = Inr ((x', cat'), s')"
    and "\<And>y c0 s0 y' c1 s1. f y c0 s0 = Inr ((y', c1), s1) \<Longrightarrow> get_width y' = get_width y \<and> get_height y' = get_height y"
  shows "get_width x' = get_width x \<and> get_height x' = get_height x"
proof (cases x)
  case (Image oi w h)
  then show ?thesis using assms(1) by (simp add: greturn_def)
next
  case (Container oi k c xs)
  show ?thesis
  proof (cases "oi = i")
    case True
    then show ?thesis using assms Container by simp
  next
    case False
    then show ?thesis using assms(1) Container by (auto simp: gbind_eq_Inr greturn_def split: prod.splits)
  qed
qed

lemma populate_bottom_level_containers_box:
  "populate_bottom_level_containers files bs main cat s = Inr ((main', cat'), s') \<Longrightarrow>
     get_width main' = get_width main \<and> get_height main' = get_height main"
proof (induction bs arbitrary: main cat s)
  case Nil
  then show ?case by (simp add: greturn_def)
next
  case (Cons b bs)
  then obtain m1 c1 s1 where u: "update_node b (populate_container files) main cat s = Inr ((m1, c1), s1)"
    and r: "populate_bottom_level_containers files bs m1 c1 s1 = Inr ((main', cat'), s')"
    by (auto simp: gbind_eq_Inr split: prod.splits)
  have "get_width m1 = get_width main \<and> get_height m1 = get_height main"
    using update_node_box [OF u] populate_container_box by blast
  then show ?case using Cons.IH [OF r] by simp
qed

lemma make_collage_box:
  "make_collage fuel files cat s = Some (Inr ((main, cat'), s')) \<Longrightarrow> get_width main = 1920 \<and> get_height main = 1080"
  unfolding make_collage_def fbind_eq_Some_Inr
  using generate_random_layouts_box populate_bottom_level_containers_box by fastforce


lemma run_loop_writes:
  "run_loop fuel files pix cat n s = Some (Inr (ws, s')) \<Longrightarrow>
     length ws = n \<and> (\<forall>w \<in> set ws. (\<exists>k. 10000 \<le> k \<and> k \<le> 999999 \<and> fst w = collage_file_name k) \<and>
                          cv_height (snd w) = 1080 \<and> cv_width (snd w) = 1920)"
proof (induction n arbitrary: s ws s')
  case 0
  then show ?case by simp
next
  case (Suc n)
  obtain name s1 where r: "rand_int 10000 999999 s = Inr (name, s1)" using rand_int_Inr by blast
  have b: "10000 \<le> name \<and> name \<le> 999999" using rand_int_range [OF r] by simp
  from Suc.prems r obtain main cat' s2 where
    mc: "make_collage fuel files cat s1 = Some (Inr ((main, cat'), s2))" and
    rest: "(case render pix main of
              Inl e \<Rightarrow> Some (Inl e)
            | Inr cv \<Rightarrow> fbind (run_loop fuel files pix cat n s2)
                         (\<lambda>ws s3. Some (Inr ((collage_file_name name, cv) # ws, s3)))) = Some (Inr (ws, s'))"
    by (auto simp: fbind_eq_Some_Inr)
  then obtain cv where rd: "render pix main = Inr cv"
    and "fbind (run_loop fuel files pix cat n s2) (\<lambda>ws s3. Some (Inr ((collage_file_name name, cv) # ws, s3)))
           = Some (Inr (ws, s'))"
    by (cases "render pix main") auto
  then obtain ws' s3 where l: "run_loop fuel files pix cat n s2 = Some (Inr (ws', s3))"
    and ws: "ws = (collage_file_name name, cv) # ws'"
    unfolding fbind_eq_Some_Inr by auto
  have "cv_height cv = 1080 \<and> cv_width cv = 1920"
    using render_size(1) [OF rd] make_collage_box [OF mc] by simp
  then show ?case using Suc.IH [OF l] b ws by auto
qed

text \<open>Opening random images takes them out of the list: as many as asked for while the list
  lasts, and together with the list left behind they are the list it started from.\<close>

lemma random_open_images_loop_mset:
  "random_open_images_loop x ps s = Inr ((imgs, rest), s') \<Longrightarrow>
     length imgs = min x (length ps) \<and> mset ps = mset imgs + mset rest"
proof (induction x arbitrary: ps s imgs)
  case 0
  then show ?case by simp
next
  case (Suc x)
  show ?case
  proof (cases "ps = []")
    case True
    then show ?thesis using Suc.IH [of "[]" s imgs] Suc.prems by simp
  next
    case False
    from Suc.prems False obtain p r0 s1 imgs' where
      g: "get_random_item_from_list_then_remove ps s = Inr ((p, r0), s1)"
      and l: "random_open_images_loop x r0 s1 = Inr ((imgs', rest), s')" and i: "imgs = p # imgs'"
      by (auto simp: gbind_eq_Inr split: prod.splits)
    have p: "p \<in> set ps" and r0: "r0 = remove1 p ps" using get_random_item_Inr [OF g] by auto
    have n: "0 < length ps" using False by simp
    have m: "mset ps = add_mset p (mset r0)" using p r0 by (simp add: insert_DiffM)
    have "length imgs' = min x (length r0)" "mset r0 = mset imgs' + mset rest" using Suc.IH [OF l] by simp_all
    moreover have "length r0 = length ps - 1" using p r0 by (simp add: length_remove1)
    ultimately have "length imgs = min (Suc x) (length ps)" using i n by (cases "length ps") simp_all
    moreover have "mset ps = mset imgs + mset rest" using m i \<open>mset r0 = mset imgs' + mset rest\<close> by simp
    ultimately show ?thesis by blast
  qed
qed

text \<open>C16: \<open>run\<close> ends for every directory and every random source once the generator has
  fuel for its nesting depth, and a run that raises nothing writes exactly
  \<open>num_to_generate = 500\<close> images, each under a name \<open>output/collage_k.jpg\<close> with
  \<open>k\<close> in \<open>[10000, 999999]\<close>, and each a 1080 by 1920 buffer, the size of the
  generated main container.\<close>

theorem run_writes_500_collages:
  assumes "2 \<le> fuel"
  shows "\<exists>r. run fuel reader pix paths s = Some r \<and>
           (\<forall>ws s'. r = Inr (ws, s') \<longrightarrow> length ws = 500 \<and>
              (\<forall>w \<in> set ws. (\<exists>k. 10000 \<le> k \<and> k \<le> 999999 \<and> fst w = collage_file_name k) \<and>
                cv_height (snd w) = 1080 \<and> cv_width (snd w) = 1920))"
proof (cases "create_aspect_ratio_sorted_list_of_images reader paths")
  case (Inl e)
  then show ?thesis by (simp add: run_def)
next
  case (Inr cat)
  obtain r where r: "run_loop fuel (image_size reader) pix cat 500 s = Some r"
    using run_loop_some [OF assms] by blast
  have "\<forall>ws s'. r = Inr (ws, s') \<longrightarrow> length ws = 500 \<and>
          (\<forall>w \<in> set ws. (\<exists>k. 10000 \<le> k \<and> k \<le> 999999 \<and> fst w = collage_file_name k) \<and>
                cv_height (snd w) = 1080 \<and> cv_width (snd w) = 1920)"
  proof (intro allI impI)
    fix ws s' assume "r = Inr (ws, s')"
    then show "length ws = 500 \<and> (\<forall>w \<in> set ws. (\<exists>k. 10000 \<le> k \<and> k \<le> 999999 \<and> fst w = collage_file_name k) \<and>
                cv_height (snd w) = 1080 \<and> cv_width (snd w) = 1920)"
      using run_loop_writes [of fuel "image_size reader" pix cat 500 s ws s'] r by simp
  qed
  then show ?thesis using Inr r by (simp add: run_def)
qed

theorem run_writes_500_collages_witness:
  "\<exists>r. run 2 (\<lambda>_. None) (\<lambda>_ _ _. [0, 0, 0]) [] \<lparr>rng = [], next_oid = 1\<rparr> = Some r \<and>
     (\<forall>ws s'. r = Inr (ws, s') \<longrightarrow> length ws = 500 \<and>
        (\<forall>w \<in> set ws. (\<exists>k. 10000 \<le> k \<and> k \<le> 999999 \<and> fst w = collage_file_name k) \<and>
                cv_height (snd w) = 1080 \<and> cv_width (snd w) = 1920))"
  by (rule run_writes_500_collages) simp

end
