(* ===== verification/TestImages.thy ===== *)
theory TestImages
  imports Run
begin

text \<open>
  The sample-image generator test_image_generator.py: one image per colour of its colour
  table, of a fixed or random size, filled with the colour and labelled with the colour's
  name in a contrasting colour at the largest font scale that fits. NumPy's random source is
  the list of draws of \<open>gen_state\<close>, as Python's is in the generator. The rasterisation of
  the label (\<open>cv2.putText\<close>) is recorded, not drawn: the result of labelling is the image
  with the label's text, position, scale, colour and thickness. \<open>cv2.getTextSize\<close> is the
  parameter \<open>text_size\<close>, a function of the text, the scale and the thickness.
  Saving is the list of images written, in order.
\<close>

section \<open>Constants\<close>

definition DEFAULT_DIRECTORY :: string where
  "DEFAULT_DIRECTORY = ''test_images_generated/''"

definition DEFAULT_WIDTH_OR_HEIGHT :: int where
  "DEFAULT_WIDTH_OR_HEIGHT = 300"

text \<open>The colour table of lines 6--29: the same literal as in layouts_generator.py.\<close>

definition COLORS_test :: "(string \<times> int list) list" where
  "COLORS_test = COLORS"

text \<open>Iterating a dictionary literal: its keys in the order of their first entry.\<close>

definition py_dict_keys :: "('k \<times> 'v) list \<Rightarrow> 'k list" where
  "py_dict_keys kvs = remdups (map fst kvs)"

section \<open>Sizes\<close>

text \<open>The argument of \<open>get_random_number\<close>, by the branch its type selects.\<close>

datatype number_arg = NoneArg | TupleArg int int | IntArg int | OtherArg

text \<open>\<open>np.random.randint(low, high)\<close>: \<open>high\<close> excluded, \<open>ValueError\<close> unless
  \<open>low < high\<close>.\<close>

definition np_random_randint :: "int \<Rightarrow> int \<Rightarrow> int gen" where
  "np_random_randint lo hi s =
     (if hi \<le> lo then Inl ValueError
      else case rng s of [] \<Rightarrow> Inr (lo, s)
           | r # rs \<Rightarrow> Inr (lo + int r mod (hi - lo), s\<lparr>rng := rs\<rparr>))"

text \<open>\<open>get_random_number\<close> (lines 49--62).\<close>

fun get_random_number :: "number_arg \<Rightarrow> int gen" where
  "get_random_number NoneArg = greturn DEFAULT_WIDTH_OR_HEIGHT"
| "get_random_number (TupleArg lo hi) = np_random_randint lo hi"
| "get_random_number (IntArg n) = greturn n"
| "get_random_number OtherArg = greturn DEFAULT_WIDTH_OR_HEIGHT"

text \<open>\<open>create_image\<close> (lines 87--93): \<open>np.ones((height, width, 3)) * color[::-1]\<close>.\<close>

definition create_image :: "int \<Rightarrow> int \<Rightarrow> int list \<Rightarrow> canvas py_result" where
  "create_image w h col = np_filled h w (rev col)"

section \<open>The label\<close>

text \<open>\<open>get_contrast_color\<close> (lines 121--128): white on a dark colour, black otherwise.\<close>

definition get_contrast_color :: "int list \<Rightarrow> int list" where
  "get_contrast_color col = (if sum_list col < 382 then [255, 255, 255] else [0, 0, 0])"

text \<open>Python's \<open>round\<close> of a number: to the nearest integer, a tie to the even one.\<close>

definition py_round :: "rat \<Rightarrow> int" where
  "py_round x =
     (let f = \<lfloor>x\<rfloor>; d = x - of_int f in
      if d < 1 / 2 then f else if 1 / 2 < d then f + 1 else if even f then f else f + 1)"

text \<open>\<open>get_font_scale\<close> (lines 132--136), which nothing calls, and
  \<open>get_font_thickness\<close> (140--144), where \<open>round\<close> of an integer is the integer.\<close>

definition get_font_scale :: "int \<Rightarrow> int \<Rightarrow> int" where
  "get_font_scale w h = py_round (of_int (min w h) / 50)"

definition get_font_thickness :: "int \<Rightarrow> int \<Rightarrow> int" where
  "get_font_thickness w h = py_int (of_int (min w h) / 100)"

type_synonym text_size_fn = "string \<Rightarrow> rat \<Rightarrow> int \<Rightarrow> (int \<times> int) \<times> int"

text \<open>What \<open>get_text_size_and_scale\<close> returns: the size and scale found, or the bare
  integer 1 of line 155 when no scale fits.\<close>

datatype text_fit = Fits "(int \<times> int) \<times> int" rat | ReturnsOne

text \<open>The loop of lines 150--154 over the scales \<open>59, 58, ..., 0\<close> (tenths).\<close>

fun text_scale_search :: "text_size_fn \<Rightarrow> string \<Rightarrow> int \<Rightarrow> int \<Rightarrow> nat list \<Rightarrow> text_fit" where
  "text_scale_search ts text w th [] = ReturnsOne"
| "text_scale_search ts text w th (sc # scs) =
     (let sz = ts text (of_nat sc / 10) th in
      if fst (fst sz) \<le> w then Fits sz (of_nat sc / 10) else text_scale_search ts text w th scs)"

definition get_text_size_and_scale :: "text_size_fn \<Rightarrow> string \<Rightarrow> int \<Rightarrow> int \<Rightarrow> text_fit" where
  "get_text_size_and_scale ts text w th = text_scale_search ts text w th (rev [0..<60])"

text \<open>\<open>get_text_coordinates\<close> (lines 159--167): the text centred.\<close>

definition get_text_coordinates :: "int \<Rightarrow> int \<Rightarrow> (int \<times> int) \<times> int \<Rightarrow> int \<times> int" where
  "get_text_coordinates w h sz =
     (py_int (of_int (w - fst (fst sz)) / 2), py_int (of_int (h + snd (fst sz)) / 2))"

record text_label =
  label_text :: string
  label_origin :: "int \<times> int"
  label_scale :: rat
  label_colour :: "int list"
  label_thickness :: int

text \<open>\<open>add_text_to_image\<close> (lines 97--117): the colour of pixel (0, 0), which is an
  \<open>IndexError\<close> on an empty image, and the label; the unpacking
  \<open>text_size, font_scale = 1\<close> is a \<open>TypeError\<close>.\<close>

definition add_text_to_image :: "text_size_fn \<Rightarrow> canvas \<Rightarrow> string \<Rightarrow> text_label py_result" where
  "add_text_to_image ts img text =
     (let w = cv_width img; h = cv_height img in
      if h \<le> 0 \<or> w \<le> 0 then Inl IndexError
      else let cc = get_contrast_color (cv_pixel img 0 0); th = get_font_thickness w h in
        case get_text_size_and_scale ts text w th of
          ReturnsOne \<Rightarrow> Inl TypeError
        | Fits sz sc \<Rightarrow> Inr \<lparr>label_text = text, label_origin = get_text_coordinates w h sz,
                            label_scale = sc, label_colour = cc, label_thickness = th\<rparr>)"

section \<open>Saving\<close>

record saved_image =
  saved_path :: string
  saved_canvas :: canvas
  saved_label :: "text_label option"

text \<open>\<open>create_and_save_image\<close> (lines 66--82): the image, its label unless the text is
  empty, and the write to \<open>directory + filename\<close>.\<close>

definition create_and_save_image ::
  "text_size_fn \<Rightarrow> int \<Rightarrow> int \<Rightarrow> int list \<Rightarrow> string \<Rightarrow> string \<Rightarrow> string \<Rightarrow> saved_image py_result" where
  "create_and_save_image ts w h col filename directory text =
     ebind (create_image w h col) (\<lambda>img.
       if length text > 0
       then ebind (add_text_to_image ts img text) (\<lambda>l.
              Inr \<lparr>saved_path = directory @ filename, saved_canvas = img, saved_label = Some l\<rparr>)
       else Inr \<lparr>saved_path = directory @ filename, saved_canvas = img, saved_label = None\<rparr>)"

text \<open>The loop of \<open>create_images_for_colors\<close> (lines 38--45) over the enumerated keys,
  \<open>i\<close> the index of the first one left.\<close>

fun colors_loop ::
  "text_size_fn \<Rightarrow> number_arg \<Rightarrow> number_arg \<Rightarrow> string \<Rightarrow> nat \<Rightarrow> string list \<Rightarrow> saved_image list gen" where
  "colors_loop ts wr hr directory i [] = greturn []"
| "colors_loop ts wr hr directory i (name # names) =
     gbind (get_random_number wr) (\<lambda>w. gbind (get_random_number hr) (\<lambda>h.
       gbind (glift (ebind (py_dict_get COLORS_test name) (\<lambda>col.
                create_and_save_image ts w h col (py_str_nat (i + 1) @ ''.jpg'') directory name))) (\<lambda>img.
         gbind (colors_loop ts wr hr directory (Suc i) names) (\<lambda>imgs. greturn (img # imgs)))))"

definition create_images_for_colors :: "text_size_fn \<Rightarrow> number_arg \<Rightarrow> number_arg \<Rightarrow> string \<Rightarrow> saved_image list gen" where
  "create_images_for_colors ts wr hr directory = colors_loop ts wr hr directory 0 (py_dict_keys COLORS_test)"

section \<open>Lemmas\<close>

text \<open>The search returns the first scale of its list whose text fits, and the bare 1
  exactly when none does.\<close>

lemma text_scale_search_Fits:
  "text_scale_search ts text w th scs = Fits sz sc \<Longrightarrow>
     \<exists>pre n post. scs = pre @ n # post \<and> sc = of_nat n / 10 \<and> sz = ts text sc th \<and> fst (fst sz) \<le> w
       \<and> (\<forall>m \<in> set pre. w < fst (fst (ts text (of_nat m / 10) th)))"
proof (induction scs)
  case Nil
  then show ?case by simp
next
  case (Cons n scs)
  show ?case
  proof (cases "fst (fst (ts text (of_nat n / 10) th)) \<le> w")
    case True
    then have e: "text_scale_search ts text w th (n # scs) = Fits (ts text (of_nat n / 10) th) (of_nat n / 10)"
      by (simp add: Let_def)
    have "Fits (ts text (of_nat n / 10) th) (of_nat n / 10) = Fits sz sc" by (metis e Cons.prems)
    then have sz: "sz = ts text (of_nat n / 10) th" and sc: "sc = of_nat n / 10" by (metis text_fit.inject)+
    show ?thesis unfolding sz sc using True by (intro exI [of _ "[]"] exI [of _ n] exI [of _ scs]) simp
  next
    case False
    then have "text_scale_search ts text w th scs = Fits sz sc" using Cons.prems by (simp add: Let_def)
    then obtain pre m post where f: "scs = pre @ m # post" "sc = of_nat m / 10" "sz = ts text sc th" "fst (fst sz) \<le> w"
        "\<forall>m \<in> set pre. w < fst (fst (ts text (of_nat m / 10) th))"
      using Cons.IH by blast
    have "n # scs = (n # pre) @ m # post" using f(1) by simp
    moreover have "\<forall>m \<in> set (n # pre). w < fst (fst (ts text (of_nat m / 10) th))" using f(5) False by simp
    ultimately show ?thesis using f(2-4) by blast
  qed
qed


lemma create_and_save_image_path:
  assumes "create_and_save_image ts w h col filename directory text = Inr img"
  shows "saved_path img = directory @ filename"
proof -
  obtain im where r: "(if length text > 0
       then ebind (add_text_to_image ts im text) (\<lambda>l.
              Inr \<lparr>saved_path = directory @ filename, saved_canvas = im, saved_label = Some l\<rparr>)
       else Inr \<lparr>saved_path = directory @ filename, saved_canvas = im, saved_label = None\<rparr>) = Inr img"
    using assms unfolding create_and_save_image_def ebind_eq_Inr by blast
  show ?thesis
  proof (cases "length text > 0")
    case True
    then have "ebind (add_text_to_image ts im text) (\<lambda>l.
              Inr \<lparr>saved_path = directory @ filename, saved_canvas = im, saved_label = Some l\<rparr>) = Inr img"
      using r by simp
    then obtain l where "img = \<lparr>saved_path = directory @ filename, saved_canvas = im, saved_label = Some l\<rparr>"
      unfolding ebind_eq_Inr by auto
    then show ?thesis by simp
  next
    case False
    then show ?thesis using r by auto
  qed
qed

lemma colors_loop_paths:
  "colors_loop ts wr hr directory i names s = Inr (imgs, s') \<Longrightarrow>
     map saved_path imgs = map (\<lambda>j. directory @ py_str_nat (Suc j) @ ''.jpg'') [i..<i + length names]"
proof (induction names arbitrary: i s imgs)
  case Nil
  then show ?case by simp
next
  case (Cons name names)
  from Cons.prems obtain w s1 where w: "get_random_number wr s = Inr (w, s1)"
    and r1: "gbind (get_random_number hr) (\<lambda>h.
       gbind (glift (ebind (py_dict_get COLORS_test name) (\<lambda>col.
                create_and_save_image ts w h col (py_str_nat (i + 1) @ ''.jpg'') directory name))) (\<lambda>img.
         gbind (colors_loop ts wr hr directory (Suc i) names) (\<lambda>imgs. greturn (img # imgs)))) s1 = Inr (imgs, s')"
    by (simp only: colors_loop.simps gbind_eq_Inr) blast
  from r1 obtain h s2 img where
    e: "ebind (py_dict_get COLORS_test name) (\<lambda>col.
              create_and_save_image ts w h col (py_str_nat (i + 1) @ ''.jpg'') directory name) = Inr img"
    and r: "gbind (colors_loop ts wr hr directory (Suc i) names) (\<lambda>imgs. greturn (img # imgs)) s2 = Inr (imgs, s')"
    by (simp only: gbind_eq_Inr glift_eq_Inr) blast
  then obtain imgs' where l: "colors_loop ts wr hr directory (Suc i) names s2 = Inr (imgs', s')" and i: "imgs = img # imgs'"
    by (simp only: gbind_eq_Inr greturn_eq_Inr) blast
  from e obtain col where c: "create_and_save_image ts w h col (py_str_nat (i + 1) @ ''.jpg'') directory name = Inr img"
    unfolding ebind_eq_Inr by blast
  have "saved_path img = directory @ py_str_nat (Suc i) @ ''.jpg''"
    using create_and_save_image_path [OF c] by simp
  moreover have "[i..<i + length (name # names)] = i # [Suc i..<Suc i + length names]"
    by (simp add: upt_rec)
  ultimately show ?case using Cons.IH [OF l] i by simp
qed

lemma COLORS_test_keys: "length (py_dict_keys COLORS_test) = 20"
  by (simp add: py_dict_keys_def COLORS_test_def COLORS_def)

text \<open>With the default sizes every image is 300 by 300 and its label is 3 pixels thick.\<close>

lemma default_label_thickness: "get_font_thickness DEFAULT_WIDTH_OR_HEIGHT DEFAULT_WIDTH_OR_HEIGHT = 3"
  by (simp add: get_font_thickness_def DEFAULT_WIDTH_OR_HEIGHT_def py_int_def)

lemma contrast_examples:
  "get_contrast_color [255, 255, 255] = [0, 0, 0]" "get_contrast_color [0, 0, 128] = [255, 255, 255]"
  "get_contrast_color [128, 128, 128] = [0, 0, 0]" "get_contrast_color [127, 127, 127] = [255, 255, 255]"
  by (simp_all add: get_contrast_color_def)

lemma py_round_half_even: "py_round (5 / 2) = 2" "py_round (7 / 2) = 4" "py_round (13 / 5) = 3"
  by (simp_all add: py_round_def Let_def)





end
