(* ===== verification/Classes.thy ===== *)
theory Classes
  imports Settings
begin

text \<open>
  The methods of the individual classes that the mutually recursive model of Resize.thy,
  Container.thy and Render.thy dispatches on the constructor: each is written here as the
  method of its class (image.py, image_frame_container.py, vertical_container.py,
  grid_container.py); where a property needs it, a lemma relates the method to the merged
  model's dispatch. Also here: \<open>Image.get_pixel_color\<close> with numpy's indexing, the grid's getters,
  and the factory functions of layout_containers_factory.py with their default arguments.
\<close>

section \<open>Image\<close>

text \<open>A numpy integer index into an axis of length \<open>n\<close>: a negative index counts from the
  end, anything outside \<open>[-n, n)\<close> raises \<open>IndexError\<close>.\<close>

definition py_index :: "int \<Rightarrow> int \<Rightarrow> int py_result" where
  "py_index n i = (if 0 \<le> i \<and> i < n then Inr i else if - n \<le> i \<and> i < 0 then Inr (i + n) else Inl IndexError)"

text \<open>\<open>Image.__init__\<close> (image.py 9--11): the item keeps the array it is given; in
  the model its size, its pixels being the function \<open>pix\<close> of its identity.\<close>

definition image_init :: "oid \<Rightarrow> canvas \<Rightarrow> item" where
  "image_init oi img = Image oi (cv_width img) (cv_height img)"

text \<open>\<open>get_image_width_and_height\<close> (layouts_generator.py 387--388):
  \<open>(shape[1], shape[0])\<close>.\<close>

definition get_image_width_and_height :: "canvas \<Rightarrow> int \<times> int" where
  "get_image_width_and_height img = (cv_width img, cv_height img)"

text \<open>\<open>Image.get_drawable_image\<close> (image.py 53--54): the image's own buffer.\<close>

definition image_get_drawable_image :: "(oid \<Rightarrow> int \<Rightarrow> int \<Rightarrow> colour) \<Rightarrow> oid \<Rightarrow> int \<Rightarrow> int \<Rightarrow> canvas" where
  "image_get_drawable_image pix oi w h = \<lparr>cv_height = h, cv_width = w, cv_pixel = pix oi\<rparr>"

text \<open>\<open>Image.get_pixel_color\<close> (image.py 49--50): \<open>self._image[y][x]\<close>, row first. A
  layout container has no such method.\<close>

fun get_pixel_color :: "(oid \<Rightarrow> int \<Rightarrow> int \<Rightarrow> colour) \<Rightarrow> item \<Rightarrow> int \<Rightarrow> int \<Rightarrow> colour py_result" where
  "get_pixel_color pix (Image oi w h) x y =
     (let img = image_get_drawable_image pix oi w h in
      ebind (py_index (cv_height img) y) (\<lambda>y'.
        ebind (py_index (cv_width img) x) (\<lambda>x'. Inr (cv_pixel img y' x'))))"
| "get_pixel_color pix (Container _ _ _ _) x y = Inl AttributeError"

section \<open>ImageFrameContainer\<close>

text \<open>\<open>ImageFrameContainer.resize_by_width\<close> (image_frame_container.py 30--52): the no-op
  guard, the new width, the height scaled by the ratio, the check of the interior width only,
  then \<open>_items[0].resize_to_limit\<close> with the interior.\<close>

definition frame_resize_by_width :: "oid \<Rightarrow> layout_config \<Rightarrow> item list \<Rightarrow> int \<Rightarrow> item py_result" where
  "frame_resize_by_width oi c xs width =
     (if width = con_width c then Inr (Container oi FrameLayout c xs)
      else if con_width c = 0 then Inl ZeroDivisionError
      else let c' = c\<lparr>con_width := width, con_height := scale_by (con_height c) width (con_width c)\<rparr>;
               child_width = max_drawable_width c' in
        if child_width \<le> 0 then Inl FrameException
        else let child_height = max_drawable_height c' in
          (case xs of [] \<Rightarrow> Inl IndexError
           | x # rest \<Rightarrow> ebind (resize_to_limit x child_width child_height)
                           (\<lambda>x'. Inr (Container oi FrameLayout c' (x' # rest)))))"

text \<open>\<open>ImageFrameContainer.resize_by_height\<close> (image_frame_container.py 54--74), the
  transpose.\<close>

definition frame_resize_by_height :: "oid \<Rightarrow> layout_config \<Rightarrow> item list \<Rightarrow> int \<Rightarrow> item py_result" where
  "frame_resize_by_height oi c xs height =
     (if height = con_height c then Inr (Container oi FrameLayout c xs)
      else if con_height c = 0 then Inl ZeroDivisionError
      else let c' = c\<lparr>con_height := height, con_width := scale_by (con_width c) height (con_height c)\<rparr>;
               child_height = max_drawable_height c' in
        if child_height \<le> 0 then Inl FrameException
        else let child_width = max_drawable_width c' in
          (case xs of [] \<Rightarrow> Inl IndexError
           | x # rest \<Rightarrow> ebind (resize_to_limit x child_width child_height)
                           (\<lambda>x'. Inr (Container oi FrameLayout c' (x' # rest)))))"

text \<open>\<open>add_item\<close> and \<open>remove_item\<close> of the frame (image_frame_container.py 76--83):
  \<open>pass\<close>.\<close>

definition frame_add_item :: "item \<Rightarrow> item \<Rightarrow> item py_result" where
  "frame_add_item con it = Inr con"

definition frame_remove_item :: "item \<Rightarrow> item \<Rightarrow> item py_result" where
  "frame_remove_item con it = Inr con"

text \<open>\<open>ImageFrameLayoutLogic\<close> (image_frame_container.py 111--125): the budget is the
  drawable area, and \<open>resize_items\<close> fits the first child to it, if there is one.\<close>

definition frame_max_width_for_each_item :: "layout_config \<Rightarrow> int" where
  "frame_max_width_for_each_item c = max_drawable_width c"

definition frame_max_height_for_each_item :: "layout_config \<Rightarrow> int" where
  "frame_max_height_for_each_item c = max_drawable_height c"

definition frame_resize_items :: "oid \<Rightarrow> layout_config \<Rightarrow> item list \<Rightarrow> item py_result" where
  "frame_resize_items oi c xs =
     (case xs of [] \<Rightarrow> Inr (Container oi FrameLayout c [])
      | item # rest \<Rightarrow>
          ebind (resize_to_limit item (frame_max_width_for_each_item c) (frame_max_height_for_each_item c))
            (\<lambda>item'. Inr (Container oi FrameLayout c (item' # rest))))"

section \<open>VerticalContainer\<close>

text \<open>\<open>VerticalLayoutLogic.resize_items\<close> (vertical_container.py 15--21): every child of
  the copy of the list, to the strategy's budget.\<close>

definition vertical_resize_items :: "oid \<Rightarrow> layout_config \<Rightarrow> item list \<Rightarrow> item py_result" where
  "vertical_resize_items oi c xs =
     ebind (resize_each (vertical_max_width_for_each_item c) (vertical_max_height_for_each_item c (length xs)) xs)
       (\<lambda>ys. Inr (Container oi VerticalLayout c ys))"

section \<open>GridContainer\<close>

text \<open>\<open>get_num_of_rows\<close> and \<open>get_num_of_columns\<close> (grid_container.py 29--33), which
  only the grid has.\<close>

fun get_num_of_rows :: "item \<Rightarrow> int py_result" where
  "get_num_of_rows (Container _ (GridLayout rows _ _ _) _ _) = Inr rows"
| "get_num_of_rows _ = Inl AttributeError"

fun get_num_of_columns :: "item \<Rightarrow> int py_result" where
  "get_num_of_columns (Container _ (GridLayout _ cols _ _) _ _) = Inr cols"
| "get_num_of_columns _ = Inl AttributeError"

text \<open>\<open>LayoutContainer.get_num_of_items\<close> (layout_container.py 158--159).\<close>

fun get_num_of_items :: "item \<Rightarrow> int py_result" where
  "get_num_of_items (Image _ _ _) = Inl AttributeError"
| "get_num_of_items (Container _ _ _ xs) = Inr (int (length xs))"

section \<open>The factory\<close>

text \<open>layout_containers_factory.py: each factory function forwards to the constructor,
  an argument the caller leaves out (\<open>None\<close> here) taking the default of the signature.\<close>

definition factory_create_horizontal_container ::
  "oid \<Rightarrow> int \<Rightarrow> int \<Rightarrow> int option \<Rightarrow> int list option \<Rightarrow> int list option \<Rightarrow> int list option \<Rightarrow> int option \<Rightarrow> int option \<Rightarrow> item py_result" where
  "factory_create_horizontal_container oi w h cap padding bg gutters mcw mch =
     create_horizontal_container oi w h (case_option 9 id cap) (case_option [0, 0, 0, 0] id padding)
       (case_option [255, 255, 255] id bg) (case_option [0, 0] id gutters)
       (case_option DEFAULT_MINIMUM_CONTENT_WIDTH id mcw) (case_option DEFAULT_MINIMUM_CONTENT_HEIGHT id mch)"

definition factory_create_vertical_container ::
  "oid \<Rightarrow> int \<Rightarrow> int \<Rightarrow> int option \<Rightarrow> int list option \<Rightarrow> int list option \<Rightarrow> int list option \<Rightarrow> int option \<Rightarrow> int option \<Rightarrow> item py_result" where
  "factory_create_vertical_container oi w h cap padding bg gutters mcw mch =
     create_vertical_container oi w h (case_option 9 id cap) (case_option [0, 0, 0, 0] id padding)
       (case_option [255, 255, 255] id bg) (case_option [0, 0] id gutters)
       (case_option DEFAULT_MINIMUM_CONTENT_WIDTH id mcw) (case_option DEFAULT_MINIMUM_CONTENT_HEIGHT id mch)"

definition factory_create_image_frame_container ::
  "oid \<Rightarrow> item \<Rightarrow> int list option \<Rightarrow> int list option \<Rightarrow> int option \<Rightarrow> int option \<Rightarrow> item py_result" where
  "factory_create_image_frame_container oi img padding bg mcw mch =
     create_image_frame_container oi img (case_option [0, 0, 0, 0] id padding) (case_option [255, 255, 255] id bg)
       (case_option DEFAULT_MINIMUM_CONTENT_WIDTH id mcw) (case_option DEFAULT_MINIMUM_CONTENT_HEIGHT id mch)"

definition factory_create_grid_container ::
  "oid \<Rightarrow> int \<Rightarrow> int \<Rightarrow> int \<Rightarrow> int \<Rightarrow> int list option \<Rightarrow> int list option \<Rightarrow> int list option \<Rightarrow> int option \<Rightarrow> int option \<Rightarrow> item py_result" where
  "factory_create_grid_container oi w h rows cols padding bg gutters mcw mch =
     create_grid_container oi w h rows cols (case_option [0, 0, 0, 0] id padding)
       (case_option [255, 255, 255] id bg) (case_option [0, 0] id gutters)
       (case_option DEFAULT_MINIMUM_CONTENT_WIDTH id mcw) (case_option DEFAULT_MINIMUM_CONTENT_HEIGHT id mch)"

section \<open>Lemmas\<close>

lemma layout_config_box_update_commute:
  "c\<lparr>con_width := a, con_height := b\<rparr> = c\<lparr>con_height := b, con_width := a\<rparr>"
  by (cases c) simp

lemma render_Image:
  "render pix (Image oi w h) = Inr (image_get_drawable_image pix oi w h)"
  by (simp add: image_get_drawable_image_def)

lemma image_init_roundtrip:
  "render (\<lambda>_. cv_pixel img) (image_init oi img) = Inr img \<and>
   (get_width (image_init oi img), get_height (image_init oi img)) = get_image_width_and_height img"
  by (simp add: image_init_def get_image_width_and_height_def)

lemma frame_add_remove_dispatch:
  "add_item (Container oi FrameLayout c xs) it = frame_add_item (Container oi FrameLayout c xs) it"
  "remove_item (Container oi FrameLayout c xs) it = frame_remove_item (Container oi FrameLayout c xs) it"
  by (simp_all add: add_item_def remove_item_def frame_add_item_def frame_remove_item_def)

lemma vertical_resize_items_dispatch:
  "resize_items oi VerticalLayout c xs = vertical_resize_items oi c xs"
  by (simp add: vertical_resize_items_def)

text \<open>Reading a pixel of an image: numpy's indexing of the buffer, wrapping a negative
  coordinate once and raising \<open>IndexError\<close> outside.\<close>

lemma get_pixel_color_Image:
  "get_pixel_color pix (Image oi w h) x y =
     (if y < - h \<or> h \<le> y \<or> x < - w \<or> w \<le> x then Inl IndexError
      else Inr (pix oi (if y < 0 then y + h else y) (if x < 0 then x + w else x)))"
  by (auto simp: image_get_drawable_image_def py_index_def Let_def)

lemma get_pixel_color_render:
  assumes "render pix it = Inr cv" "0 \<le> x" "x < cv_width cv" "0 \<le> y" "y < cv_height cv"
    and "\<not> is_layout_container it"
  shows "get_pixel_color pix it x y = Inr (cv_pixel cv y x)"
  using assms by (cases it) (auto simp: image_get_drawable_image_def py_index_def Let_def)

lemma create_grid_container_getters:
  assumes "create_grid_container oi w h rows cols padding bg gutters mcw mch = Inr g"
  shows "get_num_of_rows g = Inr rows \<and> get_num_of_columns g = Inr cols \<and> get_num_of_items g = Inr 0"
  using assms by (auto simp: create_grid_container_def ebind_eq_Inr Let_def split: if_splits)

lemma frame_add_remove_noop:
  "\<forall>op \<in> set ops. \<exists>it. op = AddItem it \<or> op = RemoveItem it \<Longrightarrow>
     apply_ops (Container oi FrameLayout c xs) ops = Inr (Container oi FrameLayout c xs)"
proof (induction ops)
  case Nil
  then show ?case by simp
next
  case (Cons op ops)
  then obtain it where "op = AddItem it \<or> op = RemoveItem it" by auto
  then show ?case using Cons by (auto simp: frame_add_remove_dispatch frame_add_item_def frame_remove_item_def)
qed

lemma factory_defaults_flat:
  "factory_create_horizontal_container oi w h None None None None None None =
     Inr (Container oi HorizontalLayout \<lparr>con_width = w, con_height = h, capacity = 9, padding_top = 0,
       padding_right = 0, padding_bottom = 0, padding_left = 0, background_color = [255, 255, 255],
       gutter_horizontal = 0, gutter_vertical = 0, min_content_width = 50, min_content_height = 50\<rparr> [])"
  "factory_create_vertical_container oi w h None None None None None None =
     Inr (Container oi VerticalLayout \<lparr>con_width = w, con_height = h, capacity = 9, padding_top = 0,
       padding_right = 0, padding_bottom = 0, padding_left = 0, background_color = [255, 255, 255],
       gutter_horizontal = 0, gutter_vertical = 0, min_content_width = 50, min_content_height = 50\<rparr> [])"
  by (simp_all add: factory_create_horizontal_container_def factory_create_vertical_container_def
        eval_simps)

lemma factory_defaults_frame:
  "factory_create_image_frame_container oi img None None None None =
     Inr (Container oi FrameLayout \<lparr>con_width = get_width img, con_height = get_height img, capacity = 1,
       padding_top = 0, padding_right = 0, padding_bottom = 0, padding_left = 0,
       background_color = [255, 255, 255], gutter_horizontal = 0, gutter_vertical = 0,
       min_content_width = 50, min_content_height = 50\<rparr> [img])"
  by (simp add: factory_create_image_frame_container_def create_image_frame_container_def eval_simps)

text \<open>C18: the frame's \<open>resize_by_width\<close> checks only the interior width: whenever the
  new width leaves a positive interior width but a non-positive interior height (padding
  taller than the rescaled frame), it does not raise the frame's exception but passes the
  non-positive height to its image, whose \<open>cv2.resize\<close> fails; the merged model's
  \<open>resize_by\<close> on the frame does the same. \<open>resize_by_height\<close> checks the height.\<close>

theorem frame_width_resize_skips_height_check:
  assumes "width \<noteq> con_width c" "con_width c \<noteq> 0"
    and iw: "0 < max_drawable_width (c\<lparr>con_width := width, con_height := scale_by (con_height c) width (con_width c)\<rparr>)"
    and ih: "max_drawable_height (c\<lparr>con_width := width, con_height := scale_by (con_height c) width (con_width c)\<rparr>) \<le> 0"
    and img: "0 < w" "0 < h"
  shows "frame_resize_by_width oi c (Image i w h # rest) width = Inl Cv2Error
       \<and> resize_by (Container oi FrameLayout c (Image i w h # rest)) (ByWidth width) = Inl Cv2Error"
proof -
  let ?c' = "c\<lparr>con_width := width, con_height := scale_by (con_height c) width (con_width c)\<rparr>"
  have "max_drawable_height ?c' * w \<le> 0" using ih img by (simp add: mult_nonpos_nonneg)
  moreover have "0 < max_drawable_width ?c' * h" using iw img by simp
  ultimately have "max_drawable_height ?c' * w < max_drawable_width ?c' * h" by linarith
  then have r: "resize_to_limit (Image i w h) (max_drawable_width ?c') (max_drawable_height ?c') = Inl Cv2Error"
    using ih img by (simp add: limit_request_pos image_resize_by_height_def cv2_resize_def)
  have f: "frame_resize_by_width oi c (Image i w h # rest) width = Inl Cv2Error"
    using assms(1,2) iw r by (simp add: frame_resize_by_width_def Let_def)
  moreover have "resize_by (Container oi FrameLayout c (Image i w h # rest)) (ByWidth width) = Inl Cv2Error"
    using assms(1,2) iw r by (simp add: Let_def layout_config_box_update_commute)
  ultimately show ?thesis by blast
qed


theorem frame_width_resize_skips_height_check_witness:
  "(40::int) \<noteq> con_width \<lparr>con_width = 100, con_height = 200, capacity = 1, padding_top = 50, padding_right = 0,
       padding_bottom = 50, padding_left = 0, background_color = [235, 235, 235],
       gutter_horizontal = 0, gutter_vertical = 0, min_content_width = 50, min_content_height = 50\<rparr> \<and> con_width \<lparr>con_width = 100, con_height = 200, capacity = 1, padding_top = 50, padding_right = 0,
       padding_bottom = 50, padding_left = 0, background_color = [235, 235, 235],
       gutter_horizontal = 0, gutter_vertical = 0, min_content_width = 50, min_content_height = 50\<rparr> \<noteq> 0 \<and> 0 < max_drawable_width (\<lparr>con_width = 100, con_height = 200, capacity = 1, padding_top = 50, padding_right = 0,
       padding_bottom = 50, padding_left = 0, background_color = [235, 235, 235],
       gutter_horizontal = 0, gutter_vertical = 0, min_content_width = 50, min_content_height = 50\<rparr>\<lparr>con_width := 40, con_height := scale_by (con_height \<lparr>con_width = 100, con_height = 200, capacity = 1, padding_top = 50, padding_right = 0,
       padding_bottom = 50, padding_left = 0, background_color = [235, 235, 235],
       gutter_horizontal = 0, gutter_vertical = 0, min_content_width = 50, min_content_height = 50\<rparr>) 40 (con_width \<lparr>con_width = 100, con_height = 200, capacity = 1, padding_top = 50, padding_right = 0,
       padding_bottom = 50, padding_left = 0, background_color = [235, 235, 235],
       gutter_horizontal = 0, gutter_vertical = 0, min_content_width = 50, min_content_height = 50\<rparr>)\<rparr>)
   \<and> max_drawable_height (\<lparr>con_width = 100, con_height = 200, capacity = 1, padding_top = 50, padding_right = 0,
       padding_bottom = 50, padding_left = 0, background_color = [235, 235, 235],
       gutter_horizontal = 0, gutter_vertical = 0, min_content_width = 50, min_content_height = 50\<rparr>\<lparr>con_width := 40, con_height := scale_by (con_height \<lparr>con_width = 100, con_height = 200, capacity = 1, padding_top = 50, padding_right = 0,
       padding_bottom = 50, padding_left = 0, background_color = [235, 235, 235],
       gutter_horizontal = 0, gutter_vertical = 0, min_content_width = 50, min_content_height = 50\<rparr>) 40 (con_width \<lparr>con_width = 100, con_height = 200, capacity = 1, padding_top = 50, padding_right = 0,
       padding_bottom = 50, padding_left = 0, background_color = [235, 235, 235],
       gutter_horizontal = 0, gutter_vertical = 0, min_content_width = 50, min_content_height = 50\<rparr>)\<rparr>) \<le> 0
   \<and> frame_resize_by_width 1 \<lparr>con_width = 100, con_height = 200, capacity = 1, padding_top = 50, padding_right = 0,
       padding_bottom = 50, padding_left = 0, background_color = [235, 235, 235],
       gutter_horizontal = 0, gutter_vertical = 0, min_content_width = 50, min_content_height = 50\<rparr> [Image 2 100 100] 40 = Inl Cv2Error
   \<and> resize_by (Container 1 FrameLayout \<lparr>con_width = 100, con_height = 200, capacity = 1, padding_top = 50, padding_right = 0,
       padding_bottom = 50, padding_left = 0, background_color = [235, 235, 235],
       gutter_horizontal = 0, gutter_vertical = 0, min_content_width = 50, min_content_height = 50\<rparr> [Image 2 100 100]) (ByWidth 40) = Inl Cv2Error"
proof -
  have a: "(40::int) \<noteq> con_width \<lparr>con_width = 100, con_height = 200, capacity = 1, padding_top = 50, padding_right = 0,
       padding_bottom = 50, padding_left = 0, background_color = [235, 235, 235],
       gutter_horizontal = 0, gutter_vertical = 0, min_content_width = 50, min_content_height = 50\<rparr>" "con_width \<lparr>con_width = 100, con_height = 200, capacity = 1, padding_top = 50, padding_right = 0,
       padding_bottom = 50, padding_left = 0, background_color = [235, 235, 235],
       gutter_horizontal = 0, gutter_vertical = 0, min_content_width = 50, min_content_height = 50\<rparr> \<noteq> 0" "0 < max_drawable_width (\<lparr>con_width = 100, con_height = 200, capacity = 1, padding_top = 50, padding_right = 0,
       padding_bottom = 50, padding_left = 0, background_color = [235, 235, 235],
       gutter_horizontal = 0, gutter_vertical = 0, min_content_width = 50, min_content_height = 50\<rparr>\<lparr>con_width := 40, con_height := scale_by (con_height \<lparr>con_width = 100, con_height = 200, capacity = 1, padding_top = 50, padding_right = 0,
       padding_bottom = 50, padding_left = 0, background_color = [235, 235, 235],
       gutter_horizontal = 0, gutter_vertical = 0, min_content_width = 50, min_content_height = 50\<rparr>) 40 (con_width \<lparr>con_width = 100, con_height = 200, capacity = 1, padding_top = 50, padding_right = 0,
       padding_bottom = 50, padding_left = 0, background_color = [235, 235, 235],
       gutter_horizontal = 0, gutter_vertical = 0, min_content_width = 50, min_content_height = 50\<rparr>)\<rparr>)"
    "max_drawable_height (\<lparr>con_width = 100, con_height = 200, capacity = 1, padding_top = 50, padding_right = 0,
       padding_bottom = 50, padding_left = 0, background_color = [235, 235, 235],
       gutter_horizontal = 0, gutter_vertical = 0, min_content_width = 50, min_content_height = 50\<rparr>\<lparr>con_width := 40, con_height := scale_by (con_height \<lparr>con_width = 100, con_height = 200, capacity = 1, padding_top = 50, padding_right = 0,
       padding_bottom = 50, padding_left = 0, background_color = [235, 235, 235],
       gutter_horizontal = 0, gutter_vertical = 0, min_content_width = 50, min_content_height = 50\<rparr>) 40 (con_width \<lparr>con_width = 100, con_height = 200, capacity = 1, padding_top = 50, padding_right = 0,
       padding_bottom = 50, padding_left = 0, background_color = [235, 235, 235],
       gutter_horizontal = 0, gutter_vertical = 0, min_content_width = 50, min_content_height = 50\<rparr>)\<rparr>) \<le> 0" "(0::int) < 100" "(0::int) < 100"
    by (simp_all add: max_drawable_width_def max_drawable_height_def scale_by_def py_int_def)
  show ?thesis using frame_width_resize_skips_height_check [OF a, of 1 2 "[]"] a(1-4) by blast
qed

end
