(* ===== verification/Spec2Isabelle.thy ===== *)
theory Spec2Isabelle
  imports Populate Render Lifecycle Settings Run TestImages Classes
begin

text \<open>
  \<^bold>\<open>A verification development of the frame-collage layout engine.\<close>

  \<^emph>\<open>The program.\<close> src/src/layout holds a tree of \<open>ContainerItem\<close>s: leaves are
  \<open>Image\<close>s (a numpy buffer, image.py) and inner nodes are \<open>LayoutContainer\<close>s
  (layout_container.py) whose placement strategy is a \<open>LayoutLogic\<close> object: vertical
  (vertical_container.py), grid (grid_container.py), a one-image frame
  (image_frame_container.py) and horizontal (horizontal_container.py, imported but absent
  from the repository). layout_containers_factory.py builds containers;
  layouts_generator.py builds a random tree of containers, fills its bottom-level containers
  with framed images and renders it; main.py is the command line.
  Adding a child asks \<open>can_next_item_fit\<close> (append, run the strategy's feasibility
  check, remove), then refits every child with \<open>resize_items\<close>, which calls
  \<open>resize_to_limit\<close> on each child with the strategy's budget; resizing a container
  rescales its box and recurses into its children. \<open>get_drawable_image\<close> allocates a
  buffer per container and copies each child's buffer into the rectangle its strategy gives.

  \<^emph>\<open>The theories.\<close>
  \<^item> \<open>Prelude\<close>: Python's exceptions as the datatype \<open>py_error\<close> and results as
    \<open>py_error + 'a\<close> with the bind \<open>ebind\<close> (every \<open>raise\<close> is an \<open>Inl\<close>);
    \<open>int(a / b)\<close> as \<open>py_int\<close> on exact rationals; \<open>list.remove\<close> as
    \<open>py_remove\<close>, which deletes the first element with the given identity.
  \<^item> \<open>Item\<close>: the tree (\<open>item\<close>: \<open>Image oid w h\<close> or
    \<open>Container oid kind config children\<close>, the Python object identity as \<open>oid\<close>, the
    subclass as \<open>layout_kind\<close>, the fields of \<open>LayoutContainer\<close> as the record
    \<open>layout_config\<close>); \<open>LayoutContainer.__init__\<close> and its validators
    (\<open>layout_container_init\<close>); \<open>Image.resize_by_width/height\<close>; the axis choice of
    \<open>ContainerItem.resize_to_limit\<close> (\<open>limit_request\<close>) and its abstract contract
    \<open>fit_box\<close>.
  \<^item> \<open>Layout_Logic\<close>: every method of the strategies that reads the container
    without changing it: budgets per child, coordinate loops (\<open>*_coordinates_from\<close>,
    one recursive function per \<open>for\<close> loop with its running origin as parameters),
    minimum layout sizes, and the feasibility checks \<open>check_dimensions_when_adding_item\<close>.
  \<^item> \<open>Resize\<close>: \<open>resize_to_limit\<close>, \<open>resize_by\<close>, \<open>resize_items\<close> and the
    loop \<open>resize_each\<close> as one mutually recursive function over the tree, including the
    frame's overrides; the invariant \<open>wf_item\<close>.
  \<^item> \<open>Container\<close>: the factories, \<open>can_next_item_fit\<close> (\<open>probe_next_item\<close>),
    \<open>add_item\<close>, \<open>remove_item\<close>, and sequences of operations (\<open>apply_ops\<close>).
  \<^item> \<open>Generator\<close>: \<open>generate_random_layouts\<close> and everything it calls
    (layouts_generator.py 189--362) in a state monad \<open>'a gen\<close> over \<open>gen_state\<close>: the
    random source as the list of draws still to come and fresh object identities from a
    counter. The recursion over nesting levels carries fuel.
  \<^item> \<open>Populate\<close>: the image catalogue by aspect-ratio bucket
    (\<open>create_aspect_ratio_sorted_list_of_images\<close>), \<open>populate_bottom_level_containers\<close>,
    which writes each filled container back into the tree by identity, and one collage of
    \<open>run\<close> (\<open>make_collage\<close>).
  \<^item> \<open>Render\<close>: \<open>get_drawable_image\<close> as \<open>render\<close> with numpy's allocation,
    slice clipping and broadcasting rules; pixels of image files are an uninterpreted
    function of the image's identity.
  \<^item> \<open>Lifecycle\<close>: the step relation \<open>image_step\<close> of a container under successful
    \<open>add_item\<close> calls with images and \<open>remove_item\<close> calls; the invariant
    \<open>vertical_images_ok\<close> of a vertical container (every child an image of positive size
    inside the budget of the current child count, room for the gutters); the lemmas about
    adding to a vertical container that this theory's properties use.
  \<^item> \<open>Settings\<close>: the public setters \<open>set_padding\<close>, \<open>set_item_gutters\<close>,
    \<open>set_background_color\<close> and the getters of \<open>LayoutContainer\<close>.
  \<^item> \<open>Run\<close>: the settings tables of layouts_generator.py, the directory listing with its
    extension test, \<open>random_open_x_images\<close>, \<open>run\<close> (500 iterations of file name,
    collage on a copy of the catalogue, rendering and write, the writes as a list) and the
    entry point of main.py.
  \<^item> \<open>TestImages\<close>: test_image_generator.py, one labelled sample image per colour; the
    label is recorded (text, position, scale, colour, thickness), \<open>cv2.getTextSize\<close> is a
    parameter.
  \<^item> \<open>Classes\<close>: the methods of the single classes that the merged model dispatches on
    the constructor, each as its class writes it: the frame's \<open>resize_by_width/height\<close>,
    \<open>add_item\<close>, \<open>remove_item\<close> and \<open>resize_items\<close>, the vertical
    \<open>resize_items\<close>, the grid's getters, \<open>Image.__init__\<close> (the drawable image is the
    array the image was built from), \<open>Image.get_pixel_color\<close> with numpy's
    indexing, and the factory functions of layout_containers_factory.py with their default
    arguments (an omitted argument is \<open>None\<close>).
  \<^item> this theory: the properties that span components and concrete scenarios.

  Python mutates the container in place; the model returns the updated container (an
  exception aborts the whole call, so an error carries no state). Sizes are unbounded
  integers as in Python; floats are exact rationals, so float rounding is not modelled.

  \<^emph>\<open>What is proved.\<close>
  \<^item> Resize: \<open>resize_to_limit\<close> refines \<open>fit_box\<close> on every kind of item
    (\<open>Resize.resize_to_limit_contract\<close>); resizing keeps \<open>wf_item\<close> and the tree's
    structure; exact behaviour on images, aspect ratio, the no-op guard.
  \<^item> Containers: \<open>can_next_item_fit\<close> at capacity, its purity for a new candidate and
    the reordering of an existing child; capacity is never exceeded along any sequence of
    operations (\<open>Container.apply_ops_capacity\<close>); the error paths of \<open>add_item\<close>,
    \<open>remove_item\<close>, the constructor and the grid factory.
  \<^item> Layout: the grid's rectangles lie in the drawable area and are disjoint; after a
    successful \<open>add_item\<close> the vertical container's rectangles are too
    (\<open>add_item_vertical_layout_sound\<close>, which composes the probe, the resize and the
    coordinate loop), and so are a grid's, whose cells \<open>add_item\<close> recomputes from the box
    (\<open>add_item_grid_layout_sound\<close>).
  \<^item> Generator: it returns for every random source once the fuel reaches the maximal
    nesting depth, more fuel never changes the result, and every tree it returns is
    well formed; the partition loop proposes every box twice and never the remainder;
    populating keeps the tree well formed; the catalogue equals a filter of the files by
    their bucket, and every "portrait-ish" image is wider than tall, every "landscape-ish"
    one taller than wide (\<open>Populate.aspect_buckets_swapped\<close>).
  \<^item> Rendering: the buffer always has the item's size, and rendering cannot raise on a
    tree whose rectangles fit (\<open>Render.render_succeeds\<close>); a vertical container of images
    after a successful \<open>add_item\<close> is such a tree (\<open>add_item_vertical_renders\<close>).
  \<^item> Run: every run ends once the generator has fuel for its nesting depth and, unless it
    raises, writes exactly 500 images under names in the range the code draws, each a
    1080 by 1920 buffer (\<open>Run.run_writes_500_collages\<close>: the generator and the
    populator only change the children of a node, never the box of the main container);
    opening random images is a multiset round trip; the tables agree with the constants
    the generator model uses.
  \<^item> Lifecycle: in every state a vertical container reaches from empty through image
    additions and removals the invariant holds, and the empty container is reachable again
    (\<open>Lifecycle.vertical_container_can_return_to_empty\<close>): a removal only enlarges the budget
    and every image grows or keeps its size when refitted, so \<open>remove_item\<close> never raises.
  \<^item> Classes: on a frame, adding and removing never change it; whenever the frame's
    \<open>resize_by_width\<close> leaves a positive interior width and a non-positive interior
    height it fails in \<open>cv2.resize\<close> instead of raising its own exception
    (\<open>Classes.frame_width_resize_skips_height_check\<close>); a pixel read wraps a negative
    index once and raises \<open>IndexError\<close> outside the buffer; the factories' defaults
    pass validation.
  \<^item> Containers, errors: a grid whose rows and columns have opposite signs is built with a
    negative capacity and breaks the invariant (\<open>Container.create_grid_container_negative_capacity\<close>).
  \<^item> Settings: every setter is read back by its getter and leaves the children as they
    were, without refitting them.
  \<^item> TestImages: with OpenCV's \<open>getTextSize\<close> (width at scale 0 equal to the
    thickness) labelling a non-empty image always draws, at the largest scale that fits;
    the \<open>return 1\<close> of \<open>get_text_size_and_scale\<close> is unreachable
    (\<open>TestImages.add_text_to_image_draws\<close>).

  \<^emph>\<open>Fuel.\<close> Every loop of the layout package runs over a finite list or down the finite
    tree, or a fixed number of times (\<open>run\<close>), so those functions are total and Isabelle
    proves their termination. Only the
    generator's recursion over nesting levels carries fuel: \<open>generate_random_layouts\<close>
    draws its nesting level from \<open>randint(1, 2)\<close> and each level decrements it, so fuel 2
    is enough (\<open>Generator.generate_random_layouts_returns\<close>) and any larger fuel gives the
    same result (\<open>Generator.generate_random_layouts_fuel_mono\<close>).

  \<^emph>\<open>Not modelled.\<close> Directory walking and image decoding (\<open>os.walk\<close>,
    \<open>cv2.imread\<close>) are inputs: the walk is its list of (root, files) pairs and decoding
    the function from a path to its size, paths being identifiers in the catalogue; the
    pixels of the files are an uninterpreted function; \<open>cv2.imwrite\<close> and \<open>print\<close> are
    the list of writes; the rasterisation of text by \<open>cv2.putText\<close> and the pixel
    interpolation of \<open>cv2.resize\<close>; \<open>str.lower\<close> beyond ASCII; the
    \<open>None\<close>/type checks of the validators, which the types exclude. The horizontal strategy
    is taken from the specification as the transpose of the vertical one.
\<close>

section \<open>Adding to a vertical container lays the children out soundly\<close>

text \<open>C5: when \<open>add_item\<close> on a vertical container succeeds, the container keeps its box,
  holds one more child, and the rectangles the drawing loop computes for its children lie in
  the drawable area and never overlap, provided the children have positive sizes, the gutter
  is non-negative and the drawable area has room for the gutters between the children.\<close>

theorem add_item_vertical_layout_sound:
  assumes add: "add_item (Container oi VerticalLayout c xs) it = Inr con'"
    and pos: "\<forall>x \<in> set (it # xs). 0 < get_width x \<and> 0 < get_height x"
    and g: "0 \<le> gutter_horizontal c" and dw: "0 \<le> max_drawable_width c"
    and room: "0 \<le> max_drawable_height c - int (length xs) * gutter_horizontal c"
  shows "\<exists>ys. con' = Container oi VerticalLayout c ys \<and> length ys = Suc (length xs)
           \<and> (\<forall>i < length ys. rect_within (vertical_layout_coordinates c ys ! i)
                 (padding_left c, padding_top c, con_width c - padding_right c, con_height c - padding_bottom c))
           \<and> (\<forall>i j. i < j \<and> j < length ys \<longrightarrow>
                 rects_disjoint (vertical_layout_coordinates c ys ! i) (vertical_layout_coordinates c ys ! j))"
proof -
  obtain ys where con': "con' = Container oi VerticalLayout c ys" and len: "length ys = Suc (length xs)"
    and fit: "\<forall>y \<in> set ys. 0 \<le> get_width y \<and> get_width y \<le> vertical_max_width_for_each_item c
               \<and> 0 \<le> get_height y \<and> get_height y \<le> vertical_max_height_for_each_item c (length ys)"
    and room': "0 \<le> max_drawable_height c - (int (length ys) - 1) * gutter_horizontal c"
    using add_item_vertical_fit [OF add pos dw room] by blast
  have "\<forall>i < length ys. rect_within (vertical_layout_coordinates c ys ! i)
          (padding_left c, padding_top c, con_width c - padding_right c, con_height c - padding_bottom c)"
    using vertical_coordinates_within [OF fit g room'] by blast
  moreover have "\<forall>i j. i < j \<and> j < length ys \<longrightarrow>
          rects_disjoint (vertical_layout_coordinates c ys ! i) (vertical_layout_coordinates c ys ! j)"
    using vertical_coordinates_disjoint [OF _ g] fit by blast
  ultimately show ?thesis using con' len by blast
qed

theorem add_item_vertical_layout_sound_witness:
  "\<exists>ys. Container 1 VerticalLayout \<lparr>con_width = 300, con_height = 200, capacity = 2, padding_top = 0, padding_right = 0,
       padding_bottom = 0, padding_left = 0, background_color = [255, 255, 255],
       gutter_horizontal = 10, gutter_vertical = 0, min_content_width = 50, min_content_height = 50\<rparr> [Image 2 95 95, Image 3 95 95] = Container 1 VerticalLayout \<lparr>con_width = 300, con_height = 200, capacity = 2, padding_top = 0, padding_right = 0,
       padding_bottom = 0, padding_left = 0, background_color = [255, 255, 255],
       gutter_horizontal = 10, gutter_vertical = 0, min_content_width = 50, min_content_height = 50\<rparr> ys
     \<and> length ys = Suc (length [Image 2 100 100])
     \<and> (\<forall>i < length ys. rect_within (vertical_layout_coordinates \<lparr>con_width = 300, con_height = 200, capacity = 2, padding_top = 0, padding_right = 0,
       padding_bottom = 0, padding_left = 0, background_color = [255, 255, 255],
       gutter_horizontal = 10, gutter_vertical = 0, min_content_width = 50, min_content_height = 50\<rparr> ys ! i)
           (padding_left \<lparr>con_width = 300, con_height = 200, capacity = 2, padding_top = 0, padding_right = 0,
       padding_bottom = 0, padding_left = 0, background_color = [255, 255, 255],
       gutter_horizontal = 10, gutter_vertical = 0, min_content_width = 50, min_content_height = 50\<rparr>, padding_top \<lparr>con_width = 300, con_height = 200, capacity = 2, padding_top = 0, padding_right = 0,
       padding_bottom = 0, padding_left = 0, background_color = [255, 255, 255],
       gutter_horizontal = 10, gutter_vertical = 0, min_content_width = 50, min_content_height = 50\<rparr>, con_width \<lparr>con_width = 300, con_height = 200, capacity = 2, padding_top = 0, padding_right = 0,
       padding_bottom = 0, padding_left = 0, background_color = [255, 255, 255],
       gutter_horizontal = 10, gutter_vertical = 0, min_content_width = 50, min_content_height = 50\<rparr> - padding_right \<lparr>con_width = 300, con_height = 200, capacity = 2, padding_top = 0, padding_right = 0,
       padding_bottom = 0, padding_left = 0, background_color = [255, 255, 255],
       gutter_horizontal = 10, gutter_vertical = 0, min_content_width = 50, min_content_height = 50\<rparr>, con_height \<lparr>con_width = 300, con_height = 200, capacity = 2, padding_top = 0, padding_right = 0,
       padding_bottom = 0, padding_left = 0, background_color = [255, 255, 255],
       gutter_horizontal = 10, gutter_vertical = 0, min_content_width = 50, min_content_height = 50\<rparr> - padding_bottom \<lparr>con_width = 300, con_height = 200, capacity = 2, padding_top = 0, padding_right = 0,
       padding_bottom = 0, padding_left = 0, background_color = [255, 255, 255],
       gutter_horizontal = 10, gutter_vertical = 0, min_content_width = 50, min_content_height = 50\<rparr>))
     \<and> (\<forall>i j. i < j \<and> j < length ys \<longrightarrow>
           rects_disjoint (vertical_layout_coordinates \<lparr>con_width = 300, con_height = 200, capacity = 2, padding_top = 0, padding_right = 0,
       padding_bottom = 0, padding_left = 0, background_color = [255, 255, 255],
       gutter_horizontal = 10, gutter_vertical = 0, min_content_width = 50, min_content_height = 50\<rparr> ys ! i) (vertical_layout_coordinates \<lparr>con_width = 300, con_height = 200, capacity = 2, padding_top = 0, padding_right = 0,
       padding_bottom = 0, padding_left = 0, background_color = [255, 255, 255],
       gutter_horizontal = 10, gutter_vertical = 0, min_content_width = 50, min_content_height = 50\<rparr> ys ! j))"
  by (rule add_item_vertical_layout_sound [where it = "Image 3 100 100"])
     (simp_all add: eval_simps vertical_check_dimensions_def horizontal_check_dimensions_def
       vertical_max_width_for_each_item_def vertical_max_height_for_each_item_def
       horizontal_max_width_for_each_item_def horizontal_max_height_for_each_item_def
       max_drawable_width_def max_drawable_height_def grid_cell_width_def grid_cell_height_def)

lemma add_item_grid_probe:
  assumes "add_item (Container oi (GridLayout rows cols cw ch) c xs) it = Inr con'"
  obtains xs' where "int (length xs) < capacity c" "length xs' = length xs" "set xs' \<subseteq> insert it (set xs)"
    and "resize_items oi (GridLayout rows cols cw ch) c (xs' @ [it]) = Inr con'"
proof -
  obtain b xs' where p: "probe_next_item (GridLayout rows cols cw ch) c xs it = Inr (b, xs')"
    and r: "(if b then resize_items oi (GridLayout rows cols cw ch) c (xs' @ [it]) else Inl LayoutException) = Inr con'"
    using assms by (auto simp: add_item_def ebind_eq_Inr)
  have b: b using r by (cases b) auto
  then have "probe_next_item (GridLayout rows cols cw ch) c xs it = Inr (True, xs')" using p by simp
  then have "int (length xs) < capacity c \<and> length xs' = length xs \<and> set xs' \<subseteq> insert it (set xs)"
    by (rule probe_True)
  moreover have "resize_items oi (GridLayout rows cols cw ch) c (xs' @ [it]) = Inr con'" using r b by simp
  ultimately show ?thesis using that by blast
qed

text \<open>C21: when \<open>add_item\<close> on a grid succeeds, the grid recomputes its cells from its
  box, holds one more child, and the rectangles of the drawing loop lie in the drawable area
  and never overlap, for children of positive size in a grid of positive rows and columns
  whose capacity is \<open>rows * columns\<close>, with non-negative gutters that leave room in the
  drawable area. This composes the probe, the refit of every child to the new cell size and
  the grid's coordinate loop.\<close>

theorem add_item_grid_layout_sound:
  assumes add: "add_item (Container oi (GridLayout rows cols cw ch) c xs) it = Inr con'"
    and pos: "\<forall>x \<in> set (it # xs). 0 < get_width x \<and> 0 < get_height x"
    and rc: "0 < rows" "0 < cols" and cap: "capacity c = rows * cols"
    and g: "0 \<le> gutter_vertical c" "0 \<le> gutter_horizontal c"
    and room: "0 \<le> max_drawable_width c - (cols - 1) * gutter_vertical c"
              "0 \<le> max_drawable_height c - (rows - 1) * gutter_horizontal c"
  shows "\<exists>ys. con' = Container oi (GridLayout rows cols (grid_cell_width c cols) (grid_cell_height c rows)) c ys
           \<and> length ys = Suc (length xs)
           \<and> (\<forall>i < length ys. rect_within
                 (grid_layout_coordinates c cols (grid_cell_width c cols) (grid_cell_height c rows) ys ! i)
                 (padding_left c, padding_top c, con_width c - padding_right c, con_height c - padding_bottom c))
           \<and> (\<forall>i j. i < j \<and> j < length ys \<longrightarrow>
                 rects_disjoint (grid_layout_coordinates c cols (grid_cell_width c cols) (grid_cell_height c rows) ys ! i)
                   (grid_layout_coordinates c cols (grid_cell_width c cols) (grid_cell_height c rows) ys ! j))"
proof -
  obtain xs' where lt: "int (length xs) < capacity c" and l: "length xs' = length xs" "set xs' \<subseteq> insert it (set xs)"
    and r: "resize_items oi (GridLayout rows cols cw ch) c (xs' @ [it]) = Inr con'"
    using add_item_grid_probe [OF add] by blast
  obtain ys where re: "resize_each (grid_cell_width c cols) (grid_cell_height c rows) (xs' @ [it]) = Inr ys"
    and con': "con' = Container oi (GridLayout rows cols (grid_cell_width c cols) (grid_cell_height c rows)) c ys"
    using r rc by (auto simp: ebind_eq_Inr Let_def)
  have cells: "0 \<le> grid_cell_width c cols" "0 \<le> grid_cell_height c rows"
    using equal_division_fits [OF rc(2) room(1)] equal_division_fits [OF rc(1) room(2)]
    by (simp_all add: grid_cell_width_eq grid_cell_height_eq)
  have "\<forall>x \<in> set (xs' @ [it]). 0 < get_width x \<and> 0 < get_height x" using pos l(2) by auto
  from resize_each_fits [OF re this cells]
  have len: "length ys = Suc (length xs)"
    and fit: "\<forall>y \<in> set ys. 0 \<le> get_width y \<and> get_width y \<le> grid_cell_width c cols
                  \<and> 0 \<le> get_height y \<and> get_height y \<le> grid_cell_height c rows"
    using l(1) by auto
  have capys: "int (length ys) \<le> rows * cols" using len lt cap by simp
  have "\<forall>i < length ys. rect_within
          (grid_layout_coordinates c cols (grid_cell_width c cols) (grid_cell_height c rows) ys ! i)
          (padding_left c, padding_top c, con_width c - padding_right c, con_height c - padding_bottom c)"
    using grid_rects_within [OF rc(2) rc(1) fit g room capys] by blast
  moreover have "\<forall>i j. i < j \<and> j < length ys \<longrightarrow>
          rects_disjoint (grid_layout_coordinates c cols (grid_cell_width c cols) (grid_cell_height c rows) ys ! i)
            (grid_layout_coordinates c cols (grid_cell_width c cols) (grid_cell_height c rows) ys ! j)"
    using grid_rects_disjoint [OF rc(2) fit g] by blast
  ultimately show ?thesis using con' len by blast
qed

theorem add_item_grid_layout_sound_witness:
  "\<exists>ys. Container 1 (GridLayout 2 3 93 95) \<lparr>con_width = 300, con_height = 200, capacity = 6, padding_top = 0, padding_right = 0,
       padding_bottom = 0, padding_left = 0, background_color = [255, 255, 255],
       gutter_horizontal = 10, gutter_vertical = 10, min_content_width = 50, min_content_height = 50\<rparr> [Image 2 93 93, Image 3 93 62]
        = Container 1 (GridLayout 2 3 (grid_cell_width \<lparr>con_width = 300, con_height = 200, capacity = 6, padding_top = 0, padding_right = 0,
       padding_bottom = 0, padding_left = 0, background_color = [255, 255, 255],
       gutter_horizontal = 10, gutter_vertical = 10, min_content_width = 50, min_content_height = 50\<rparr> 3) (grid_cell_height \<lparr>con_width = 300, con_height = 200, capacity = 6, padding_top = 0, padding_right = 0,
       padding_bottom = 0, padding_left = 0, background_color = [255, 255, 255],
       gutter_horizontal = 10, gutter_vertical = 10, min_content_width = 50, min_content_height = 50\<rparr> 2)) \<lparr>con_width = 300, con_height = 200, capacity = 6, padding_top = 0, padding_right = 0,
       padding_bottom = 0, padding_left = 0, background_color = [255, 255, 255],
       gutter_horizontal = 10, gutter_vertical = 10, min_content_width = 50, min_content_height = 50\<rparr> ys
     \<and> length ys = Suc (length [Image 2 93 93])
     \<and> (\<forall>i < length ys. rect_within
           (grid_layout_coordinates \<lparr>con_width = 300, con_height = 200, capacity = 6, padding_top = 0, padding_right = 0,
       padding_bottom = 0, padding_left = 0, background_color = [255, 255, 255],
       gutter_horizontal = 10, gutter_vertical = 10, min_content_width = 50, min_content_height = 50\<rparr> 3 (grid_cell_width \<lparr>con_width = 300, con_height = 200, capacity = 6, padding_top = 0, padding_right = 0,
       padding_bottom = 0, padding_left = 0, background_color = [255, 255, 255],
       gutter_horizontal = 10, gutter_vertical = 10, min_content_width = 50, min_content_height = 50\<rparr> 3) (grid_cell_height \<lparr>con_width = 300, con_height = 200, capacity = 6, padding_top = 0, padding_right = 0,
       padding_bottom = 0, padding_left = 0, background_color = [255, 255, 255],
       gutter_horizontal = 10, gutter_vertical = 10, min_content_width = 50, min_content_height = 50\<rparr> 2) ys ! i)
           (padding_left \<lparr>con_width = 300, con_height = 200, capacity = 6, padding_top = 0, padding_right = 0,
       padding_bottom = 0, padding_left = 0, background_color = [255, 255, 255],
       gutter_horizontal = 10, gutter_vertical = 10, min_content_width = 50, min_content_height = 50\<rparr>, padding_top \<lparr>con_width = 300, con_height = 200, capacity = 6, padding_top = 0, padding_right = 0,
       padding_bottom = 0, padding_left = 0, background_color = [255, 255, 255],
       gutter_horizontal = 10, gutter_vertical = 10, min_content_width = 50, min_content_height = 50\<rparr>, con_width \<lparr>con_width = 300, con_height = 200, capacity = 6, padding_top = 0, padding_right = 0,
       padding_bottom = 0, padding_left = 0, background_color = [255, 255, 255],
       gutter_horizontal = 10, gutter_vertical = 10, min_content_width = 50, min_content_height = 50\<rparr> - padding_right \<lparr>con_width = 300, con_height = 200, capacity = 6, padding_top = 0, padding_right = 0,
       padding_bottom = 0, padding_left = 0, background_color = [255, 255, 255],
       gutter_horizontal = 10, gutter_vertical = 10, min_content_width = 50, min_content_height = 50\<rparr>, con_height \<lparr>con_width = 300, con_height = 200, capacity = 6, padding_top = 0, padding_right = 0,
       padding_bottom = 0, padding_left = 0, background_color = [255, 255, 255],
       gutter_horizontal = 10, gutter_vertical = 10, min_content_width = 50, min_content_height = 50\<rparr> - padding_bottom \<lparr>con_width = 300, con_height = 200, capacity = 6, padding_top = 0, padding_right = 0,
       padding_bottom = 0, padding_left = 0, background_color = [255, 255, 255],
       gutter_horizontal = 10, gutter_vertical = 10, min_content_width = 50, min_content_height = 50\<rparr>))
     \<and> (\<forall>i j. i < j \<and> j < length ys \<longrightarrow>
           rects_disjoint (grid_layout_coordinates \<lparr>con_width = 300, con_height = 200, capacity = 6, padding_top = 0, padding_right = 0,
       padding_bottom = 0, padding_left = 0, background_color = [255, 255, 255],
       gutter_horizontal = 10, gutter_vertical = 10, min_content_width = 50, min_content_height = 50\<rparr> 3 (grid_cell_width \<lparr>con_width = 300, con_height = 200, capacity = 6, padding_top = 0, padding_right = 0,
       padding_bottom = 0, padding_left = 0, background_color = [255, 255, 255],
       gutter_horizontal = 10, gutter_vertical = 10, min_content_width = 50, min_content_height = 50\<rparr> 3) (grid_cell_height \<lparr>con_width = 300, con_height = 200, capacity = 6, padding_top = 0, padding_right = 0,
       padding_bottom = 0, padding_left = 0, background_color = [255, 255, 255],
       gutter_horizontal = 10, gutter_vertical = 10, min_content_width = 50, min_content_height = 50\<rparr> 2) ys ! i)
             (grid_layout_coordinates \<lparr>con_width = 300, con_height = 200, capacity = 6, padding_top = 0, padding_right = 0,
       padding_bottom = 0, padding_left = 0, background_color = [255, 255, 255],
       gutter_horizontal = 10, gutter_vertical = 10, min_content_width = 50, min_content_height = 50\<rparr> 3 (grid_cell_width \<lparr>con_width = 300, con_height = 200, capacity = 6, padding_top = 0, padding_right = 0,
       padding_bottom = 0, padding_left = 0, background_color = [255, 255, 255],
       gutter_horizontal = 10, gutter_vertical = 10, min_content_width = 50, min_content_height = 50\<rparr> 3) (grid_cell_height \<lparr>con_width = 300, con_height = 200, capacity = 6, padding_top = 0, padding_right = 0,
       padding_bottom = 0, padding_left = 0, background_color = [255, 255, 255],
       gutter_horizontal = 10, gutter_vertical = 10, min_content_width = 50, min_content_height = 50\<rparr> 2) ys ! j))"
  by (rule add_item_grid_layout_sound [where it = "Image 3 90 60" and cw = 93 and ch = 95])
     (simp_all add: eval_simps grid_check_dimensions_def grid_cell_width_def grid_cell_height_def
       max_drawable_width_def max_drawable_height_def)

lemma skeleton_Image: "skeleton y = Image oi 0 0 \<Longrightarrow> \<exists>w h. y = Image oi w h"
  by (cases y) auto

text \<open>C29: after a successful \<open>add_item\<close> on a vertical container of images with valid
  padding, the container can be drawn: \<open>get_drawable_image\<close> raises no numpy error and
  returns a buffer of the container's size. This composes the probe, the refit of every child,
  the coordinate loop and the slice assignments of the renderer.\<close>

theorem add_item_vertical_renders:
  assumes add: "add_item (Container oi VerticalLayout c xs) it = Inr con'"
    and imgs: "\<forall>x \<in> set (it # xs). \<exists>i w h. x = Image i w h \<and> 0 < w \<and> 0 < h"
    and pad: "is_padding_valid [padding_top c, padding_right c, padding_bottom c, padding_left c]"
    and g: "0 \<le> gutter_horizontal c" and dw: "0 \<le> max_drawable_width c"
    and room: "0 \<le> max_drawable_height c - int (length xs) * gutter_horizontal c"
  shows "\<exists>cv. render pix con' = Inr cv \<and> cv_height cv = con_height c \<and> cv_width cv = con_width c"
proof -
  have pos: "\<forall>x \<in> set (it # xs). 0 < get_width x \<and> 0 < get_height x" using imgs by fastforce
  obtain ys where con': "con' = Container oi VerticalLayout c ys" and len: "length ys = Suc (length xs)"
    and fit: "\<forall>y \<in> set ys. 0 \<le> get_width y \<and> get_width y \<le> vertical_max_width_for_each_item c
               \<and> 0 \<le> get_height y \<and> get_height y \<le> vertical_max_height_for_each_item c (length ys)"
    and room': "0 \<le> max_drawable_height c - (int (length ys) - 1) * gutter_horizontal c"
    and sk: "set (map skeleton ys) \<subseteq> skeleton ` insert it (set xs)"
    using add_item_vertical_fit [OF add pos dw room] by blast
  have p: "0 \<le> padding_top c" "0 \<le> padding_right c" "0 \<le> padding_bottom c" "0 \<le> padding_left c"
    using pad by (simp_all add: is_padding_valid_def)
  have img: "\<exists>i w h. y = Image i w h" if y: "y \<in> set ys" for y
  proof -
    obtain x where "x \<in> insert it (set xs)" "skeleton y = skeleton x" using sk y by auto
    then show ?thesis using imgs skeleton_Image by fastforce
  qed
  have hnn: "0 \<le> max_drawable_height c"
    using room' g len by (simp add: mult_nonneg_nonneg) (smt (verit) mult_nonneg_nonneg of_nat_0_le_iff)
  have "\<forall>i < length ys. case vertical_layout_coordinates c ys ! i of (x0, y0, x1, y1) \<Rightarrow>
      0 \<le> x0 \<and> x1 \<le> con_width c \<and> 0 \<le> y0 \<and> y1 \<le> con_height c
      \<and> x1 - x0 = get_width (ys ! i) \<and> y1 - y0 = get_height (ys ! i) \<and> drawable_ok (ys ! i)"
  proof (intro allI impI)
    fix i assume i: "i < length ys"
    have w: "rect_within (vertical_layout_coordinates c ys ! i)
          (padding_left c, padding_top c, con_width c - padding_right c, con_height c - padding_bottom c)"
      using vertical_coordinates_within [OF fit g room' i] .
    have e: "vertical_layout_coordinates c ys ! i =
          (padding_left c + half (vertical_max_width_for_each_item c - get_width (ys ! i)),
           padding_top c + int i * (vertical_max_height_for_each_item c (length ys) + gutter_horizontal c)
             + half (vertical_max_height_for_each_item c (length ys) - get_height (ys ! i)),
           padding_left c + half (vertical_max_width_for_each_item c - get_width (ys ! i)) + get_width (ys ! i),
           padding_top c + int i * (vertical_max_height_for_each_item c (length ys) + gutter_horizontal c)
             + half (vertical_max_height_for_each_item c (length ys) - get_height (ys ! i)) + get_height (ys ! i))"
      using vertical_coordinates_from_nth [OF i] by (simp add: vertical_layout_coordinates_def)
    have "ys ! i \<in> set ys" using i by simp
    then have "drawable_ok (ys ! i)"
      using img [of "ys ! i"] fit by fastforce
    then show "case vertical_layout_coordinates c ys ! i of (x0, y0, x1, y1) \<Rightarrow>
      0 \<le> x0 \<and> x1 \<le> con_width c \<and> 0 \<le> y0 \<and> y1 \<le> con_height c
      \<and> x1 - x0 = get_width (ys ! i) \<and> y1 - y0 = get_height (ys ! i) \<and> drawable_ok (ys ! i)"
      using w p unfolding e by simp
  qed
  moreover have "length (vertical_layout_coordinates c ys) = length ys"
    by (simp add: vertical_layout_coordinates_def)
  ultimately have "children_drawable_ok (con_width c) (con_height c) (vertical_layout_coordinates c ys) ys"
    by (intro children_drawable_ok_nth) auto
  moreover have "0 \<le> con_height c" "0 \<le> con_width c"
    using hnn dw p by (simp_all add: max_drawable_width_def max_drawable_height_def)
  ultimately have "drawable_ok con'" using con' by simp
  then show ?thesis using render_ok(1) [of con' pix] render_size(1) con' by fastforce
qed

theorem add_item_vertical_renders_witness:
  "\<exists>cv. render (\<lambda>oi y x. [0, 0, 0]) (Container 1 VerticalLayout \<lparr>con_width = 300, con_height = 200, capacity = 2, padding_top = 0, padding_right = 0,
       padding_bottom = 0, padding_left = 0, background_color = [255, 255, 255],
       gutter_horizontal = 10, gutter_vertical = 0, min_content_width = 50, min_content_height = 50\<rparr>
      [Image 2 95 95, Image 3 95 95]) = Inr cv \<and> cv_height cv = 200 \<and> cv_width cv = 300"
  using add_item_vertical_renders [where oi = 1 and c = "\<lparr>con_width = 300, con_height = 200, capacity = 2, padding_top = 0, padding_right = 0,
       padding_bottom = 0, padding_left = 0, background_color = [255, 255, 255],
       gutter_horizontal = 10, gutter_vertical = 0, min_content_width = 50, min_content_height = 50\<rparr>" and xs = "[Image 2 100 100]" and it = "Image 3 100 100"
      and con' = "Container 1 VerticalLayout \<lparr>con_width = 300, con_height = 200, capacity = 2, padding_top = 0, padding_right = 0,
       padding_bottom = 0, padding_left = 0, background_color = [255, 255, 255],
       gutter_horizontal = 10, gutter_vertical = 0, min_content_width = 50, min_content_height = 50\<rparr> [Image 2 95 95, Image 3 95 95]" and pix = "\<lambda>oi y x. [0, 0, 0]"]
  by (simp add: eval_simps vertical_check_dimensions_def horizontal_check_dimensions_def is_padding_valid_def
       vertical_max_width_for_each_item_def vertical_max_height_for_each_item_def
       horizontal_max_width_for_each_item_def horizontal_max_height_for_each_item_def
       max_drawable_width_def max_drawable_height_def grid_cell_width_def grid_cell_height_def)

section \<open>Scenarios\<close>

text \<open>The scenario of the specification (section 7) for the horizontal strategy, which the
  model takes from the specification: a horizontal container 300 by 100 of capacity 2, built
  by the factory, takes two 100 by 100 images side by side without resizing them.\<close>

theorem horizontal_two_images_scenario:
  "ebind (create_horizontal_container 1 300 100 2 [0, 0, 0, 0] [255, 255, 255] [0, 0] 50 50)
     (\<lambda>h. ebind (add_item h (Image 2 100 100)) (\<lambda>h1. add_item h1 (Image 3 100 100)))
   = Inr (Container 1 HorizontalLayout \<lparr>con_width = 300, con_height = 100, capacity = 2, padding_top = 0, padding_right = 0,
       padding_bottom = 0, padding_left = 0, background_color = [255, 255, 255],
       gutter_horizontal = 0, gutter_vertical = 0, min_content_width = 50, min_content_height = 50\<rparr> [Image 2 100 100, Image 3 100 100])"
  by (simp add: eval_simps vertical_check_dimensions_def horizontal_check_dimensions_def
       vertical_max_width_for_each_item_def vertical_max_height_for_each_item_def
       horizontal_max_width_for_each_item_def horizontal_max_height_for_each_item_def
       max_drawable_width_def max_drawable_height_def grid_cell_width_def grid_cell_height_def)

text \<open>The scenario of the specification (section 7) for the grid: a 2 by 3 grid of 300 by 200 with gutters of 10 gets capacity 6 and cells of
  \<open>int((300 - 20) / 3) = 93\<close> by \<open>int((200 - 10) / 2) = 95\<close>.\<close>

theorem grid_cell_size_scenario:
  "create_grid_container 1 300 200 2 3 [0, 0, 0, 0] [255, 255, 255] [10, 10] 50 50 =
   Inr (Container 1 (GridLayout 2 3 93 95) \<lparr>con_width = 300, con_height = 200, capacity = 6, padding_top = 0, padding_right = 0,
       padding_bottom = 0, padding_left = 0, background_color = [255, 255, 255],
       gutter_horizontal = 10, gutter_vertical = 10, min_content_width = 50, min_content_height = 50\<rparr> [])"
  by (simp add: eval_simps vertical_check_dimensions_def horizontal_check_dimensions_def
       vertical_max_width_for_each_item_def vertical_max_height_for_each_item_def
       horizontal_max_width_for_each_item_def horizontal_max_height_for_each_item_def
       max_drawable_width_def max_drawable_height_def grid_cell_width_def grid_cell_height_def)

end
